theory Spec2Isabelle
  imports Main "HOL-Library.Word"
begin

section \<open>Bytes, strings, errors and panics\<close>

text \<open>
  A Go \<^verbatim>\<open>byte\<close> is an 8-bit character; \<^verbatim>\<open>[]byte\<close>, fixed-size byte arrays and Go
  strings are all byte sequences. A nil slice and an empty slice are both the empty list
  (\<^verbatim>\<open>bytes.Equal\<close> does not tell them apart either). A fixed-size array such as the
  20-byte owner is a list together with its length as a well-formedness condition.
\<close>

type_synonym byte = char
type_synonym bytes = "byte list"

text \<open>
  A Go \<^verbatim>\<open>error\<close>. \<open>Errorf\<close> is an error made in the source by \<^verbatim>\<open>fmt.Errorf\<close>;
  the next three are the errors of \<^verbatim>\<open>encoding/hex\<close> and \<^verbatim>\<open>encoding/json\<close>;
  \<open>ExternalError\<close> stands for an error made by code that is called from the source
  but is not part of it.
\<close>

datatype error =
    Errorf string
  | hex_InvalidByteError byte
  | hex_ErrLength
  | json_UnmarshalTypeError string
  | ExternalError string

text \<open>A call in Go either returns or panics at run time.\<close>

datatype panic = IndexOutOfRange int nat | NilPointerDereference

datatype 'a res = Return 'a | Panic panic

section \<open>The library functions used by the JSON code\<close>

subsection \<open>\<^verbatim>\<open>encoding/hex\<close>\<close>

definition hextable :: string where
  "hextable = ''0123456789abcdef''"

text \<open>\<^verbatim>\<open>hex.EncodeToString\<close>: two lower-case digits per byte, high nibble first.\<close>

fun hex_EncodeToString :: "bytes \<Rightarrow> string" where
  "hex_EncodeToString [] = []"
| "hex_EncodeToString (v # src) =
     hextable ! ((of_char v :: nat) div 16) # hextable ! ((of_char v :: nat) mod 16)
       # hex_EncodeToString src"

text \<open>The value of one hexadecimal digit; both letter cases are accepted.\<close>

definition fromHexChar :: "byte \<Rightarrow> nat option" where
  "fromHexChar c =
     (let n = (of_char c :: nat) in
      if 48 \<le> n \<and> n \<le> 57 then Some (n - 48)
      else if 97 \<le> n \<and> n \<le> 102 then Some (n - 97 + 10)
      else if 65 \<le> n \<and> n \<le> 70 then Some (n - 65 + 10)
      else None)"

text \<open>
  \<^verbatim>\<open>hex.DecodeString\<close> returns the bytes decoded before the error together with the
  error: an invalid digit is reported where it stands, an odd length after all the
  complete pairs.
\<close>

fun hex_DecodeString :: "string \<Rightarrow> bytes \<times> error option" where
  "hex_DecodeString [] = ([], None)"
| "hex_DecodeString [p] =
     (case fromHexChar p of
        None \<Rightarrow> ([], Some (hex_InvalidByteError p))
      | Some a \<Rightarrow> ([], Some hex_ErrLength))"
| "hex_DecodeString (p # q # src) =
     (case fromHexChar p of
        None \<Rightarrow> ([], Some (hex_InvalidByteError p))
      | Some a \<Rightarrow>
          (case fromHexChar q of
             None \<Rightarrow> ([], Some (hex_InvalidByteError q))
           | Some b \<Rightarrow>
               (case hex_DecodeString src of
                  (dst, err) \<Rightarrow> (char_of (a * 16 + b) # dst, err))))"

subsection \<open>\<^verbatim>\<open>strings.TrimRight\<close> and \<^verbatim>\<open>copy\<close>\<close>

text \<open>All trailing characters that belong to the cutset are removed.\<close>

definition strings_TrimRight :: "string \<Rightarrow> string \<Rightarrow> string" where
  "strings_TrimRight s cutset = rev (dropWhile (\<lambda>c. c \<in> set cutset) (rev s))"

text \<open>\<^verbatim>\<open>copy(dst, src)\<close> overwrites the first \<open>min (len dst) (len src)\<close> elements.\<close>

definition copy :: "'a list \<Rightarrow> 'a list \<Rightarrow> 'a list" where
  "copy dst src = take (length dst) src @ drop (length src) dst"

subsection \<open>\<^verbatim>\<open>unicode/utf8\<close>\<close>

text \<open>\<open>utf8_tail_ok s k\<close>: \<open>s\<close> starts with \<open>k\<close> continuation bytes.\<close>

fun utf8_tail_ok :: "string \<Rightarrow> nat \<Rightarrow> bool" where
  "utf8_tail_ok s 0 = True"
| "utf8_tail_ok [] (Suc k) = False"
| "utf8_tail_ok (c # cs) (Suc k) =
     (128 \<le> (of_char c :: nat) \<and> (of_char c :: nat) \<le> 191 \<and> utf8_tail_ok cs k)"

text \<open>
  The size that \<^verbatim>\<open>utf8.DecodeRuneInString\<close> returns for a string that is not
  empty: \<open>None\<close> stands for \<^verbatim>\<open>(RuneError, 1)\<close>, the answer for a byte that does
  not start a well-formed encoding. The first byte gives the size and the range of the
  second byte (overlong forms, surrogates and values above \<^verbatim>\<open>U+10FFFF\<close> are
  excluded by that range).
\<close>

definition utf8_rune_len :: "string \<Rightarrow> nat option" where
  "utf8_rune_len s =
     (case s of
        [] \<Rightarrow> None
      | c # cs \<Rightarrow>
          (let b0 = (of_char c :: nat) in
           if b0 < 128 then Some 1
           else if b0 < 194 \<or> 244 < b0 then None
           else
             (let sz = (if b0 < 224 then 2 else if b0 < 240 then 3 else 4);
                  lo = (if b0 = 224 then 160 else if b0 = 240 then 144 else 128);
                  hi = (if b0 = 237 then 159 else if b0 = 244 then 143 else 191)
              in case cs of
                   [] \<Rightarrow> None
                 | b1 # rest \<Rightarrow>
                     if lo \<le> (of_char b1 :: nat) \<and> (of_char b1 :: nat) \<le> hi
                        \<and> utf8_tail_ok rest (sz - 2)
                     then Some sz else None)))"

text \<open>
  \<^verbatim>\<open>utf8.ValidString\<close>. The first argument counts the bytes that remain of a rune
  already found well-formed.
\<close>

fun utf8_valid_from :: "nat \<Rightarrow> string \<Rightarrow> bool" where
  "utf8_valid_from k [] = (k = 0)"
| "utf8_valid_from (Suc k) (c # cs) = utf8_valid_from k cs"
| "utf8_valid_from 0 (c # cs) =
     (case utf8_rune_len (c # cs) of
        None \<Rightarrow> False
      | Some n \<Rightarrow> utf8_valid_from (n - 1) cs)"

definition utf8_ValidString :: "string \<Rightarrow> bool" where
  "utf8_ValidString s = utf8_valid_from 0 s"

subsection \<open>JSON documents\<close>

text \<open>
  A JSON document is modelled as the value it denotes; the text syntax and the escaping
  done by \<^verbatim>\<open>encoding/json\<close> are not modelled. \<open>JString\<close> holds the bytes of a
  string, \<open>JNumber\<close> is a non-negative integer literal, and \<open>JOther\<close> stands for
  every other value (a boolean, an array, a negative or fractional number).
\<close>

datatype json =
    JNull
  | JString string
  | JNumber nat
  | JObject "(string \<times> json) list"
  | JOther

text \<open>
  \<^verbatim>\<open>encoding/json\<close> coerces every string it writes and every string it reads to
  valid UTF-8: each byte that does not start a well-formed encoding is replaced by the
  three bytes of \<^verbatim>\<open>U+FFFD\<close>, and well-formed runes are kept. The first argument
  counts the bytes that remain of a rune that is being kept.
\<close>

fun json_coerce_from :: "nat \<Rightarrow> string \<Rightarrow> string" where
  "json_coerce_from k [] = []"
| "json_coerce_from (Suc k) (c # cs) = c # json_coerce_from k cs"
| "json_coerce_from 0 (c # cs) =
     (case utf8_rune_len (c # cs) of
        None \<Rightarrow> CHR 0xEF # CHR 0xBF # CHR 0xBD # json_coerce_from 0 cs
      | Some n \<Rightarrow> c # json_coerce_from (n - 1) cs)"

definition json_coerce :: "string \<Rightarrow> string" where
  "json_coerce s = json_coerce_from 0 s"

text \<open>
  A key of an object selects the struct field whose name it equals up to the case of
  ASCII letters. (The library prefers an exact match and accepts a case-insensitive
  one; the names used here stay distinct when the case is ignored, so the preference
  makes no difference. The two non-ASCII letters that the library folds to \<open>k\<close> and
  \<open>s\<close> are not modelled.)
\<close>

definition json_fold :: "string \<Rightarrow> nat list" where
  "json_fold k =
     map (\<lambda>c. let n = (of_char c :: nat) in if 65 \<le> n \<and> n \<le> 90 then n + 32 else n) k"

definition json_key_matches :: "string \<Rightarrow> string \<Rightarrow> bool" where
  "json_key_matches k name \<longleftrightarrow> json_fold k = json_fold name"

text \<open>
  Storing a JSON value into a Go \<^verbatim>\<open>string\<close> field or a \<^verbatim>\<open>uint64\<close> field:
  a string is stored coerced, \<^verbatim>\<open>null\<close> leaves the field as it is, and a value of
  the wrong kind is a type error.
\<close>

fun json_string_field :: "string \<Rightarrow> json \<Rightarrow> string \<Rightarrow> error + string" where
  "json_string_field name (JString s) cur = Inr (json_coerce s)"
| "json_string_field name JNull cur = Inr cur"
| "json_string_field name v cur = Inl (json_UnmarshalTypeError name)"

fun json_uint64_field :: "string \<Rightarrow> json \<Rightarrow> 64 word \<Rightarrow> error + 64 word" where
  "json_uint64_field name (JNumber n) cur =
     (if n < 2 ^ 64 then Inr (word_of_nat n) else Inl (json_UnmarshalTypeError name))"
| "json_uint64_field name JNull cur = Inr cur"
| "json_uint64_field name v cur = Inl (json_UnmarshalTypeError name)"

section \<open>Data model\<close>

record Proof =
  ValidatorPubKey :: bytes
  EncryptedShare :: bytes
  SharePubKey :: bytes
  Owner :: bytes

text \<open>\<open>Owner\<close> is a \<^verbatim>\<open>[20]byte\<close>.\<close>

definition wf_Proof :: "Proof \<Rightarrow> bool" where
  "wf_Proof p \<longleftrightarrow> length (Owner p) = 20"

text \<open>The zero value of \<^verbatim>\<open>Proof\<close>.\<close>

definition zero_Proof :: Proof where
  "zero_Proof =
     \<lparr>ValidatorPubKey = [], EncryptedShare = [], SharePubKey = [],
      Owner = replicate 20 (CHR 0x00)\<rparr>"

text \<open>\<open>SignedProof.Proof\<close> is a pointer \<^verbatim>\<open>*Proof\<close>: \<open>None\<close> is nil.\<close>

record SignedProof =
  SignedProof_Proof :: "Proof option"
  Signature :: bytes

record Operator =
  Addr :: bytes
  ID :: "64 word"
  PubKey :: bytes

section \<open>JSON encoding of Proof, SignedProof and Operator\<close>

record proofJSON =
  proofJSON_ValidatorPubKey :: string
  proofJSON_EncryptedShare :: string
  proofJSON_SharePubKey :: string
  proofJSON_Owner :: string

text \<open>
  \<^verbatim>\<open>json.Marshal\<close> of a \<open>proofJSON\<close>: an object with the four tagged members,
  each string coerced.
\<close>

definition json_Marshal_proofJSON :: "proofJSON \<Rightarrow> error + json" where
  "json_Marshal_proofJSON j =
     Inr (JObject
       [(''validator'', JString (json_coerce (proofJSON_ValidatorPubKey j))),
        (''encrypted_share'', JString (json_coerce (proofJSON_EncryptedShare j))),
        (''share_pub'', JString (json_coerce (proofJSON_SharePubKey j))),
        (''owner'', JString (json_coerce (proofJSON_Owner j)))])"

text \<open>
  \<^verbatim>\<open>json.Unmarshal\<close> into a \<open>proofJSON\<close> that starts as the zero value: the members
  are stored in document order, a member with an unknown key is skipped, and the first
  type error is the result. \<^verbatim>\<open>null\<close> leaves the struct as it is; any other value that
  is not an object is a type error.
\<close>

fun proofJSON_members :: "(string \<times> json) list \<Rightarrow> proofJSON \<Rightarrow> error + proofJSON" where
  "proofJSON_members [] j = Inr j"
| "proofJSON_members ((k, v) # kvs) j =
     (if json_key_matches k ''validator'' then
        (case json_string_field k v (proofJSON_ValidatorPubKey j) of
           Inl err \<Rightarrow> Inl err
         | Inr s \<Rightarrow> proofJSON_members kvs (j\<lparr>proofJSON_ValidatorPubKey := s\<rparr>))
      else if json_key_matches k ''encrypted_share'' then
        (case json_string_field k v (proofJSON_EncryptedShare j) of
           Inl err \<Rightarrow> Inl err
         | Inr s \<Rightarrow> proofJSON_members kvs (j\<lparr>proofJSON_EncryptedShare := s\<rparr>))
      else if json_key_matches k ''share_pub'' then
        (case json_string_field k v (proofJSON_SharePubKey j) of
           Inl err \<Rightarrow> Inl err
         | Inr s \<Rightarrow> proofJSON_members kvs (j\<lparr>proofJSON_SharePubKey := s\<rparr>))
      else if json_key_matches k ''owner'' then
        (case json_string_field k v (proofJSON_Owner j) of
           Inl err \<Rightarrow> Inl err
         | Inr s \<Rightarrow> proofJSON_members kvs (j\<lparr>proofJSON_Owner := s\<rparr>))
      else proofJSON_members kvs j)"

definition zero_proofJSON :: proofJSON where
  "zero_proofJSON =
     \<lparr>proofJSON_ValidatorPubKey = [], proofJSON_EncryptedShare = [],
      proofJSON_SharePubKey = [], proofJSON_Owner = []\<rparr>"

fun json_Unmarshal_proofJSON :: "json \<Rightarrow> error + proofJSON" where
  "json_Unmarshal_proofJSON JNull = Inr zero_proofJSON"
| "json_Unmarshal_proofJSON (JObject kvs) = proofJSON_members kvs zero_proofJSON"
| "json_Unmarshal_proofJSON v = Inl (json_UnmarshalTypeError ''proofJSON'')"

definition Proof_MarshalJSON :: "Proof \<Rightarrow> error + json" where
  "Proof_MarshalJSON p =
     json_Marshal_proofJSON
       \<lparr>proofJSON_ValidatorPubKey = hex_EncodeToString (ValidatorPubKey p),
        proofJSON_EncryptedShare = hex_EncodeToString (EncryptedShare p),
        proofJSON_SharePubKey = hex_EncodeToString (SharePubKey p),
        proofJSON_Owner = hex_EncodeToString (Owner p)\<rparr>"

text \<open>
  \<open>Proof_UnmarshalJSON p data\<close> returns the receiver as the call leaves it, and the
  error. The fields are assigned one after the other, so a failing call has already
  overwritten the fields before the one that failed (with the bytes decoded before the
  error, for the failing one).
\<close>

definition Proof_UnmarshalJSON :: "Proof \<Rightarrow> json \<Rightarrow> Proof \<times> error option" where
  "Proof_UnmarshalJSON p data =
     (case json_Unmarshal_proofJSON data of
        Inl err \<Rightarrow> (p, Some err)
      | Inr proof \<Rightarrow>
          (case hex_DecodeString (proofJSON_ValidatorPubKey proof) of
             (v, Some err) \<Rightarrow> (p\<lparr>ValidatorPubKey := v\<rparr>, Some err)
           | (v, None) \<Rightarrow>
          (case hex_DecodeString (proofJSON_EncryptedShare proof) of
             (e, Some err) \<Rightarrow> (p\<lparr>ValidatorPubKey := v, EncryptedShare := e\<rparr>, Some err)
           | (e, None) \<Rightarrow>
          (case hex_DecodeString (proofJSON_SharePubKey proof) of
             (s, Some err) \<Rightarrow>
               (p\<lparr>ValidatorPubKey := v, EncryptedShare := e, SharePubKey := s\<rparr>, Some err)
           | (s, None) \<Rightarrow>
          (case hex_DecodeString (proofJSON_Owner proof) of
             (owner, Some err) \<Rightarrow>
               (p\<lparr>ValidatorPubKey := v, EncryptedShare := e, SharePubKey := s\<rparr>, Some err)
           | (owner, None) \<Rightarrow>
               if length owner \<noteq> 20 then
                 (p\<lparr>ValidatorPubKey := v, EncryptedShare := e, SharePubKey := s\<rparr>,
                  Some (Errorf ''invalid owner length''))
               else
                 (p\<lparr>ValidatorPubKey := v, EncryptedShare := e, SharePubKey := s,
                    Owner := copy (Owner p) owner\<rparr>, None))))))"

text \<open>
  \<open>signedProofJSON.Proof\<close> is a \<^verbatim>\<open>*Proof\<close>, which has its own \<^verbatim>\<open>MarshalJSON\<close> and
  \<^verbatim>\<open>UnmarshalJSON\<close>.
\<close>

record signedProofJSON =
  signedProofJSON_Proof :: "Proof option"
  signedProofJSON_Signature :: string

text \<open>
  \<^verbatim>\<open>json.Marshal\<close> of a \<open>signedProofJSON\<close>: a nil pointer is written as \<^verbatim>\<open>null\<close>,
  any other with the \<^verbatim>\<open>MarshalJSON\<close> of \<open>Proof\<close>, whose error is the result.
\<close>

definition json_Marshal_signedProofJSON :: "signedProofJSON \<Rightarrow> error + json" where
  "json_Marshal_signedProofJSON j =
     (case signedProofJSON_Proof j of
        None \<Rightarrow>
          Inr (JObject [(''proof'', JNull),
                        (''signature'', JString (json_coerce (signedProofJSON_Signature j)))])
      | Some p \<Rightarrow>
          (case Proof_MarshalJSON p of
             Inl err \<Rightarrow> Inl err
           | Inr d \<Rightarrow>
               Inr (JObject [(''proof'', d),
                             (''signature'', JString (json_coerce (signedProofJSON_Signature j)))])))"

text \<open>
  \<^verbatim>\<open>json.Unmarshal\<close> into a \<open>signedProofJSON\<close> that starts as the zero value. For the
  member \<^verbatim>\<open>proof\<close>, \<^verbatim>\<open>null\<close> sets the pointer to nil; any other value is handed to
  \<^verbatim>\<open>UnmarshalJSON\<close> of a \<open>Proof\<close> (a new zero one when the pointer is nil), and an
  error of that call ends the decoding at once. A type error is saved (the first one
  only) and returned at the end.
\<close>

fun signedProofJSON_members ::
  "(string \<times> json) list \<Rightarrow> signedProofJSON \<Rightarrow> error option \<Rightarrow> error + signedProofJSON" where
  "signedProofJSON_members [] j saved =
     (case saved of None \<Rightarrow> Inr j | Some err \<Rightarrow> Inl err)"
| "signedProofJSON_members ((k, v) # kvs) j saved =
     (if json_key_matches k ''proof'' then
        (if v = JNull then signedProofJSON_members kvs (j\<lparr>signedProofJSON_Proof := None\<rparr>) saved
         else
           (case Proof_UnmarshalJSON
                   (case signedProofJSON_Proof j of None \<Rightarrow> zero_Proof | Some p \<Rightarrow> p) v of
              (p', Some err) \<Rightarrow> Inl err
            | (p', None) \<Rightarrow>
                signedProofJSON_members kvs (j\<lparr>signedProofJSON_Proof := Some p'\<rparr>) saved))
      else if json_key_matches k ''signature'' then
        (case json_string_field k v (signedProofJSON_Signature j) of
           Inl err \<Rightarrow>
             signedProofJSON_members kvs j (case saved of None \<Rightarrow> Some err | Some e \<Rightarrow> Some e)
         | Inr s \<Rightarrow> signedProofJSON_members kvs (j\<lparr>signedProofJSON_Signature := s\<rparr>) saved)
      else signedProofJSON_members kvs j saved)"

definition zero_signedProofJSON :: signedProofJSON where
  "zero_signedProofJSON = \<lparr>signedProofJSON_Proof = None, signedProofJSON_Signature = []\<rparr>"

fun json_Unmarshal_signedProofJSON :: "json \<Rightarrow> error + signedProofJSON" where
  "json_Unmarshal_signedProofJSON JNull = Inr zero_signedProofJSON"
| "json_Unmarshal_signedProofJSON (JObject kvs) =
     signedProofJSON_members kvs zero_signedProofJSON None"
| "json_Unmarshal_signedProofJSON v = Inl (json_UnmarshalTypeError ''signedProofJSON'')"

definition SignedProof_MarshalJSON :: "SignedProof \<Rightarrow> error + json" where
  "SignedProof_MarshalJSON sp =
     json_Marshal_signedProofJSON
       \<lparr>signedProofJSON_Proof = SignedProof_Proof sp,
        signedProofJSON_Signature = hex_EncodeToString (Signature sp)\<rparr>"

text \<open>
  \<^verbatim>\<open>sp.Proof\<close> is assigned before the signature is decoded, and the signature is
  assigned whatever \<^verbatim>\<open>hex.DecodeString\<close> returned, also with an error.
\<close>

definition SignedProof_UnmarshalJSON :: "SignedProof \<Rightarrow> json \<Rightarrow> SignedProof \<times> error option" where
  "SignedProof_UnmarshalJSON sp data =
     (case json_Unmarshal_signedProofJSON data of
        Inl err \<Rightarrow> (sp, Some err)
      | Inr signedProof \<Rightarrow>
          (case hex_DecodeString (signedProofJSON_Signature signedProof) of
             (sig, err) \<Rightarrow>
               (sp\<lparr>SignedProof_Proof := signedProofJSON_Proof signedProof, Signature := sig\<rparr>,
                err)))"

record operatorJSON =
  operatorJSON_Addr :: string
  operatorJSON_ID :: "64 word"
  operatorJSON_PubKey :: string

definition json_Marshal_operatorJSON :: "operatorJSON \<Rightarrow> error + json" where
  "json_Marshal_operatorJSON j =
     Inr (JObject
       [(''ip'', JString (json_coerce (operatorJSON_Addr j))),
        (''id'', JNumber (unat (operatorJSON_ID j))),
        (''public_key'', JString (json_coerce (operatorJSON_PubKey j)))])"

fun operatorJSON_members :: "(string \<times> json) list \<Rightarrow> operatorJSON \<Rightarrow> error + operatorJSON" where
  "operatorJSON_members [] j = Inr j"
| "operatorJSON_members ((k, v) # kvs) j =
     (if json_key_matches k ''ip'' then
        (case json_string_field k v (operatorJSON_Addr j) of
           Inl err \<Rightarrow> Inl err
         | Inr s \<Rightarrow> operatorJSON_members kvs (j\<lparr>operatorJSON_Addr := s\<rparr>))
      else if json_key_matches k ''id'' then
        (case json_uint64_field k v (operatorJSON_ID j) of
           Inl err \<Rightarrow> Inl err
         | Inr n \<Rightarrow> operatorJSON_members kvs (j\<lparr>operatorJSON_ID := n\<rparr>))
      else if json_key_matches k ''public_key'' then
        (case json_string_field k v (operatorJSON_PubKey j) of
           Inl err \<Rightarrow> Inl err
         | Inr s \<Rightarrow> operatorJSON_members kvs (j\<lparr>operatorJSON_PubKey := s\<rparr>))
      else operatorJSON_members kvs j)"

definition zero_operatorJSON :: operatorJSON where
  "zero_operatorJSON =
     \<lparr>operatorJSON_Addr = [], operatorJSON_ID = 0, operatorJSON_PubKey = []\<rparr>"

fun json_Unmarshal_operatorJSON :: "json \<Rightarrow> error + operatorJSON" where
  "json_Unmarshal_operatorJSON JNull = Inr zero_operatorJSON"
| "json_Unmarshal_operatorJSON (JObject kvs) = operatorJSON_members kvs zero_operatorJSON"
| "json_Unmarshal_operatorJSON v = Inl (json_UnmarshalTypeError ''operatorJSON'')"

definition Operator_MarshalJSON :: "Operator \<Rightarrow> error + json" where
  "Operator_MarshalJSON op =
     json_Marshal_operatorJSON
       \<lparr>operatorJSON_Addr = Addr op, operatorJSON_ID = ID op, operatorJSON_PubKey = PubKey op\<rparr>"

definition Operator_UnmarshalJSON :: "Operator \<Rightarrow> json \<Rightarrow> Operator \<times> error option" where
  "Operator_UnmarshalJSON op data =
     (case json_Unmarshal_operatorJSON data of
        Inl err \<Rightarrow> (op, Some err)
      | Inr operator \<Rightarrow>
          (op\<lparr>Addr := strings_TrimRight (operatorJSON_Addr operator) ''/'',
              ID := operatorJSON_ID operator,
              PubKey := operatorJSON_PubKey operator\<rparr>, None))"

section \<open>Ceremony messages and results\<close>

text \<open>
  The type declarations are not among the source files; the records have the fields that
  the source reads or writes. The receiver, the batch, the private key and the messages,
  operators and proofs reached through the sequences are taken to be non-nil.
\<close>

record Init =
  Init_WithdrawalCredentials :: bytes
  Init_Fork :: bytes
  Init_Owner :: bytes
  Init_Nonce :: "64 word"
  Init_Amount :: "64 word"

record Reshare =
  Reshare_ValidatorPubKey :: bytes
  Reshare_OldOperators :: "Operator list"
  Reshare_WithdrawalCredentials :: bytes
  Reshare_Fork :: bytes
  Reshare_Owner :: bytes
  Reshare_Nonce :: "64 word"
  Reshare_Amount :: "64 word"

record ReshareMessage =
  ReshareMessage_Reshare :: Reshare
  ReshareMessage_Proofs :: "SignedProof list"

record SignedReshare =
  SignedReshare_Messages :: "ReshareMessage list"
  SignedReshare_Signature :: bytes

record Resign =
  Resign_ValidatorPubKey :: bytes
  Resign_Fork :: bytes
  Resign_WithdrawalCredentials :: bytes
  Resign_Owner :: bytes
  Resign_Nonce :: "64 word"
  Resign_Amount :: "64 word"

record ResignMessage =
  ResignMessage_Operators :: "Operator list"
  ResignMessage_Resign :: Resign
  ResignMessage_Proofs :: "SignedProof list"

record SignedResign =
  SignedResign_Messages :: "ResignMessage list"
  SignedResign_Signature :: bytes

record Result =
  OperatorID :: "64 word"
  RequestID :: bytes
  DepositPartialSignature :: bytes
  OwnerNoncePartialSignature :: bytes
  Result_SignedProof :: SignedProof

text \<open>The interface \<^verbatim>\<open>SSZMarshaller\<close>, with the two message types stored in it.\<close>

datatype SSZMarshaller = ReshareMsg ReshareMessage | ResignMsg ResignMessage

text \<open>Keys, shares and the Ethereum client are opaque values.\<close>

datatype rsa_PublicKey = rsa_PublicKey nat nat

record rsa_PrivateKey =
  PublicKey :: rsa_PublicKey
  D :: nat

datatype bls_SecretKey = bls_SecretKey nat
datatype bls_PublicKey = bls_PublicKey nat
datatype bls_Sign = bls_Sign nat
datatype ETHClient = ETHClient nat

section \<open>The functions called by the source and defined elsewhere\<close>

text \<open>
  The cryptography, the SSZ encoding and the message helpers are parameters of the
  model. A function that returns \<^verbatim>\<open>error\<close> returns \<open>error option\<close>, one that returns
  a value and an error returns a sum. The methods of \<^verbatim>\<open>*bls.SecretKey\<close> take the
  receiver as a pointer (\<open>None\<close> is nil) and may panic.
\<close>

record env =
  ValidateInitMessage :: "Init \<Rightarrow> error option"
  DepositDataRootForFork :: "bytes \<Rightarrow> bytes \<Rightarrow> bytes \<Rightarrow> 64 word \<Rightarrow> error + bytes"
  SignByte :: "bls_SecretKey option \<Rightarrow> bytes \<Rightarrow> bls_Sign res"
  SerializeToHexStr :: "bls_SecretKey option \<Rightarrow> string res"
  GetPublicKey :: "bls_SecretKey option \<Rightarrow> bls_PublicKey res"
  PublicKey_Serialize :: "bls_PublicKey \<Rightarrow> bytes"
  Sign_Serialize :: "bls_Sign \<Rightarrow> bytes"
  Encrypt :: "rsa_PublicKey \<Rightarrow> bytes \<Rightarrow> error + bytes"
  MarshalSSZ :: "Proof \<Rightarrow> error + bytes"
  SignRSA :: "rsa_PrivateKey \<Rightarrow> bytes \<Rightarrow> error + bytes"
  PartialNonceRoot :: "bytes \<Rightarrow> 64 word \<Rightarrow> bytes"
  HashTreeRoot :: "Proof \<Rightarrow> error + bytes"
  ParseRSAPublicKey :: "bytes \<Rightarrow> error + rsa_PublicKey"
  VerifyRSA :: "rsa_PublicKey \<Rightarrow> bytes \<Rightarrow> bytes \<Rightarrow> error option"
  GetBulkMessageHash :: "SSZMarshaller list \<Rightarrow> error + bytes"
  VerifySignedMessageByOwner :: "ETHClient \<Rightarrow> bytes \<Rightarrow> bytes \<Rightarrow> bytes \<Rightarrow> error option"
  GetReqIDFromMsg :: "SSZMarshaller \<Rightarrow> error + bytes"
  BuildResult ::
    "64 word \<Rightarrow> bytes \<Rightarrow> bls_SecretKey option \<Rightarrow> rsa_PrivateKey \<Rightarrow> bytes \<Rightarrow> bytes
       \<Rightarrow> bytes \<Rightarrow> bytes \<Rightarrow> 64 word \<Rightarrow> 64 word \<Rightarrow> error + Result"

text \<open>
  The calls a handler makes, with their arguments, in the order in which it makes them.
  A handler returns this log together with its result.
\<close>

datatype event =
    Call_ValidateInitMessage Init
  | Call_DepositDataRootForFork bytes bytes bytes "64 word"
  | Call_SignByte "bls_SecretKey option" bytes
  | Call_SerializeToHexStr "bls_SecretKey option"
  | Call_GetPublicKey "bls_SecretKey option"
  | Call_Encrypt rsa_PublicKey bytes
  | Call_MarshalSSZ Proof
  | Call_SignRSA rsa_PrivateKey bytes
  | Call_GetBulkMessageHash "SSZMarshaller list"
  | Call_VerifySignedMessageByOwner ETHClient bytes bytes bytes
  | Call_ValidateReshareMessage Reshare Operator SignedProof
  | Call_ValidateResignMessage Resign Operator SignedProof
  | Call_GetReqIDFromMsg SSZMarshaller
  | Call_BuildResult "64 word" bytes "bls_SecretKey option" rsa_PrivateKey bytes bytes
      bytes bytes "64 word" "64 word"

text \<open>\<open>emit e k\<close>: the call \<open>e\<close> is made, then \<open>k\<close> happens.\<close>

definition emit :: "event \<Rightarrow> event list \<times> 'a \<Rightarrow> event list \<times> 'a" where
  "emit e k = (e # fst k, snd k)"

text \<open>The calls of the owner-signature check.\<close>

definition is_owner_check :: "event \<Rightarrow> bool" where
  "is_owner_check e =
     (case e of Call_VerifySignedMessageByOwner client owner hash sig \<Rightarrow> True | _ \<Rightarrow> False)"

text \<open>The calls of the predecessor-proof validation of Reshare.\<close>

definition is_reshare_validation :: "event \<Rightarrow> bool" where
  "is_reshare_validation e =
     (case e of Call_ValidateReshareMessage reshare operator proof \<Rightarrow> True | _ \<Rightarrow> False)"

section \<open>Proof validation\<close>

text \<open>
  \<open>proof.Proof.HashTreeRoot()\<close> reads the fields of the receiver \<open>proof.Proof\<close>,
  and \<open>signedProof.Proof.Owner\<close> dereferences the same pointer: a nil one panics.
\<close>

definition VerifyCeremonyProof :: "env \<Rightarrow> bytes \<Rightarrow> SignedProof \<Rightarrow> error option res" where
  "VerifyCeremonyProof env pkBytes proof =
     (case SignedProof_Proof proof of
        None \<Rightarrow> Panic NilPointerDereference
      | Some p \<Rightarrow>
          (case HashTreeRoot env p of
             Inl err \<Rightarrow> Return (Some err)
           | Inr hash \<Rightarrow>
               (case ParseRSAPublicKey env pkBytes of
                  Inl err \<Rightarrow> Return (Some err)
                | Inr pk \<Rightarrow> Return (VerifyRSA env pk hash (Signature proof)))))"

definition ValidateCeremonyProof ::
  "env \<Rightarrow> bytes \<Rightarrow> bytes \<Rightarrow> Operator \<Rightarrow> SignedProof \<Rightarrow> error option res" where
  "ValidateCeremonyProof env ownerAddress validatorPK operator signedProof =
     (case SignedProof_Proof signedProof of
        None \<Rightarrow> Panic NilPointerDereference
      | Some p \<Rightarrow>
          if ownerAddress \<noteq> Owner p then Return (Some (Errorf ''invalid owner address''))
          else if validatorPK \<noteq> ValidatorPubKey p then
            Return (Some (Errorf ''invalid proof validator pubkey''))
          else
            (case VerifyCeremonyProof env (PubKey operator) signedProof of
               Panic pn \<Rightarrow> Panic pn
             | Return (Some err) \<Rightarrow> Return (Some err)
             | Return None \<Rightarrow> Return None))"

text \<open>
  Modelled from the spec: \<^verbatim>\<open>FindOperatorPosition\<close> is not among the source files.
  It is a linear scan over the operator sequence that returns the position of the
  operator with the given ID, or a sentinel when there is none; the handlers compare
  the result with \<open>-1\<close>.
\<close>

fun FindOperatorPosition :: "Operator list \<Rightarrow> 64 word \<Rightarrow> int" where
  "FindOperatorPosition [] opID = - 1"
| "FindOperatorPosition (operator # operators) opID =
     (if ID operator = opID then 0
      else (let position = FindOperatorPosition operators opID
            in if position = - 1 then - 1 else position + 1))"

text \<open>
  Modelled from the spec: \<^verbatim>\<open>ValidateReshareMessage\<close> and \<^verbatim>\<open>ValidateResignMessage\<close>
  are not among the source files. Each delegates to \<open>ValidateCeremonyProof\<close> with the
  message's owner and validator public key as the expected values.
\<close>

definition ValidateReshareMessage ::
  "env \<Rightarrow> Reshare \<Rightarrow> Operator \<Rightarrow> SignedProof \<Rightarrow> error option res" where
  "ValidateReshareMessage env reshare operator proof =
     ValidateCeremonyProof env (Reshare_Owner reshare) (Reshare_ValidatorPubKey reshare)
       operator proof"

definition ValidateResignMessage ::
  "env \<Rightarrow> Resign \<Rightarrow> Operator \<Rightarrow> SignedProof \<Rightarrow> error option res" where
  "ValidateResignMessage env resign operator proof =
     ValidateCeremonyProof env (Resign_Owner resign) (Resign_ValidatorPubKey resign)
       operator proof"

section \<open>Ceremony handlers\<close>

text \<open>
  A handler returns the log of its calls and either panics or returns what the Go
  function returns: a pair of the result (\<open>None\<close> or \<open>[]\<close> for nil) and the error
  (\<open>None\<close> for nil).
\<close>

subsection \<open>Init\<close>

definition Operator_Init ::
  "env \<Rightarrow> Operator \<Rightarrow> Init \<Rightarrow> bytes \<Rightarrow> rsa_PrivateKey
     \<Rightarrow> event list \<times> (Result option \<times> error option) res" where
  "Operator_Init env op init requestID sk =
     emit (Call_ValidateInitMessage init)
     (case ValidateInitMessage env init of
        Some err \<Rightarrow> ([], Return (None, Some err))
      | None \<Rightarrow>
     (let share = None; validatorPK = [] in
     emit (Call_DepositDataRootForFork (Init_Fork init) validatorPK
             (Init_WithdrawalCredentials init) (Init_Amount init))
     (case DepositDataRootForFork env (Init_Fork init) validatorPK
             (Init_WithdrawalCredentials init) (Init_Amount init) of
        Inl err \<Rightarrow> ([], Return (None, Some err))
      | Inr depositDataRoot \<Rightarrow>
     emit (Call_SignByte share depositDataRoot)
     (case SignByte env share depositDataRoot of
        Panic pn \<Rightarrow> ([], Panic pn)
      | Return depositDataSig \<Rightarrow>
     emit (Call_SerializeToHexStr share)
     (case SerializeToHexStr env share of
        Panic pn \<Rightarrow> ([], Panic pn)
      | Return shareHex \<Rightarrow>
     emit (Call_Encrypt (PublicKey sk) shareHex)
     (case Encrypt env (PublicKey sk) shareHex of
        Inl err \<Rightarrow> ([], Return (None, Some err))
      | Inr encryptedShare \<Rightarrow>
     emit (Call_GetPublicKey share)
     (case GetPublicKey env share of
        Panic pn \<Rightarrow> ([], Panic pn)
      | Return sharePK \<Rightarrow>
     (let proof = \<lparr>ValidatorPubKey = validatorPK, EncryptedShare = encryptedShare,
                   SharePubKey = PublicKey_Serialize env sharePK, Owner = Init_Owner init\<rparr> in
     emit (Call_MarshalSSZ proof)
     (case MarshalSSZ env proof of
        Inl err \<Rightarrow> ([], Return (None, Some err))
      | Inr byts \<Rightarrow>
     emit (Call_SignRSA sk byts)
     (case SignRSA env sk byts of
        Inl err \<Rightarrow> ([], Return (None, Some err))
      | Inr proofSig \<Rightarrow>
     emit (Call_SignByte share (PartialNonceRoot env (Init_Owner init) (Init_Nonce init)))
     (case SignByte env share (PartialNonceRoot env (Init_Owner init) (Init_Nonce init)) of
        Panic pn \<Rightarrow> ([], Panic pn)
      | Return nonceSig \<Rightarrow>
          ([], Return
            (Some \<lparr>OperatorID = ID op,
                   RequestID = requestID,
                   DepositPartialSignature = Sign_Serialize env depositDataSig,
                   OwnerNoncePartialSignature = Sign_Serialize env nonceSig,
                   Result_SignedProof =
                     \<lparr>SignedProof_Proof = Some proof, Signature = proofSig\<rparr>\<rparr>,
             None)))))))))))))"

subsection \<open>Reshare\<close>

text \<open>
  One pass of the loop \<^verbatim>\<open>for _, reshareMsg := range signedReshare.Messages\<close>: the
  error that ends the call, or the result that is appended. \<open>Proofs[position]\<close> panics
  when the index is not within the sequence. \<open>ceremony\<close> is the rest of the pass
  after the validation; the share is declared and not assigned.
\<close>

definition Reshare_message ::
  "env \<Rightarrow> Operator \<Rightarrow> rsa_PrivateKey \<Rightarrow> ReshareMessage \<Rightarrow> event list \<times> (error + Result) res" where
  "Reshare_message env op sk reshareMsg =
     (let position = FindOperatorPosition
                       (Reshare_OldOperators (ReshareMessage_Reshare reshareMsg)) (ID op);
          ceremony =
            (let share = None in
             emit (Call_GetReqIDFromMsg (ReshareMsg reshareMsg))
             (case GetReqIDFromMsg env (ReshareMsg reshareMsg) of
                Inl err \<Rightarrow> ([], Return (Inl err))
              | Inr reqID \<Rightarrow>
             emit (Call_BuildResult (ID op) reqID share sk
                     (Reshare_ValidatorPubKey (ReshareMessage_Reshare reshareMsg))
                     (Reshare_Owner (ReshareMessage_Reshare reshareMsg))
                     (Reshare_WithdrawalCredentials (ReshareMessage_Reshare reshareMsg))
                     (Reshare_Fork (ReshareMessage_Reshare reshareMsg))
                     (Reshare_Nonce (ReshareMessage_Reshare reshareMsg))
                     (Reshare_Amount (ReshareMessage_Reshare reshareMsg)))
               ([], Return (BuildResult env (ID op) reqID share sk
                     (Reshare_ValidatorPubKey (ReshareMessage_Reshare reshareMsg))
                     (Reshare_Owner (ReshareMessage_Reshare reshareMsg))
                     (Reshare_WithdrawalCredentials (ReshareMessage_Reshare reshareMsg))
                     (Reshare_Fork (ReshareMessage_Reshare reshareMsg))
                     (Reshare_Nonce (ReshareMessage_Reshare reshareMsg))
                     (Reshare_Amount (ReshareMessage_Reshare reshareMsg))))))
      in
      if position \<noteq> - 1 then
        (if \<not> (0 \<le> position \<and> position < int (length (ReshareMessage_Proofs reshareMsg))) then
           ([], Panic (IndexOutOfRange position (length (ReshareMessage_Proofs reshareMsg))))
         else
           emit (Call_ValidateReshareMessage (ReshareMessage_Reshare reshareMsg) op
                   (ReshareMessage_Proofs reshareMsg ! nat position))
           (case ValidateReshareMessage env (ReshareMessage_Reshare reshareMsg) op
                   (ReshareMessage_Proofs reshareMsg ! nat position) of
              Panic pn \<Rightarrow> ([], Panic pn)
            | Return (Some err) \<Rightarrow> ([], Return (Inl err))
            | Return None \<Rightarrow> ceremony))
      else ceremony)"

text \<open>The loop over the messages, with the results collected so far.\<close>

fun Reshare_loop ::
  "env \<Rightarrow> Operator \<Rightarrow> rsa_PrivateKey \<Rightarrow> ReshareMessage list \<Rightarrow> Result list
     \<Rightarrow> event list \<times> (Result list \<times> error option) res" where
  "Reshare_loop env op sk [] results = ([], Return (results, None))"
| "Reshare_loop env op sk (reshareMsg # msgs) results =
     (case Reshare_message env op sk reshareMsg of
        (t, Panic pn) \<Rightarrow> (t, Panic pn)
      | (t, Return (Inl err)) \<Rightarrow> (t, Return ([], Some err))
      | (t, Return (Inr result)) \<Rightarrow>
          (case Reshare_loop env op sk msgs (results @ [result]) of
             (t', r) \<Rightarrow> (t @ t', r)))"

definition Operator_Reshare ::
  "env \<Rightarrow> Operator \<Rightarrow> SignedReshare \<Rightarrow> rsa_PrivateKey \<Rightarrow> ETHClient
     \<Rightarrow> event list \<times> (Result list \<times> error option) res" where
  "Operator_Reshare env op signedReshare sk client =
     (let results = [] in
      if length (SignedReshare_Messages signedReshare) = 0 then
        ([], Return ([], Some (Errorf ''no reshare messages'')))
      else
     (let reshareMsgs = map ReshareMsg (SignedReshare_Messages signedReshare) in
      emit (Call_GetBulkMessageHash reshareMsgs)
      (case GetBulkMessageHash env reshareMsgs of
         Inl err \<Rightarrow> ([], Return ([], Some err))
       | Inr MsgHash \<Rightarrow>
      emit (Call_VerifySignedMessageByOwner client
              (Reshare_Owner (ReshareMessage_Reshare (SignedReshare_Messages signedReshare ! 0)))
              MsgHash (SignedReshare_Signature signedReshare))
      (case VerifySignedMessageByOwner env client
              (Reshare_Owner (ReshareMessage_Reshare (SignedReshare_Messages signedReshare ! 0)))
              MsgHash (SignedReshare_Signature signedReshare) of
         Some err \<Rightarrow> ([], Return ([], Some err))
       | None \<Rightarrow>
           Reshare_loop env op sk (SignedReshare_Messages signedReshare) results))))"

subsection \<open>Resign\<close>

text \<open>
  One pass of the loop \<^verbatim>\<open>for _, resignMsg := range signedResign.Messages\<close>, with the
  share given by the caller.
\<close>

definition Resign_message ::
  "env \<Rightarrow> Operator \<Rightarrow> bls_SecretKey option \<Rightarrow> rsa_PrivateKey \<Rightarrow> ResignMessage
     \<Rightarrow> event list \<times> (error + Result) res" where
  "Resign_message env op share sk resignMsg =
     (let position = FindOperatorPosition (ResignMessage_Operators resignMsg) (ID op) in
      if position = - 1 then ([], Return (Inl (Errorf ''operator not found in the list'')))
      else if \<not> (0 \<le> position \<and> position < int (length (ResignMessage_Proofs resignMsg))) then
        ([], Panic (IndexOutOfRange position (length (ResignMessage_Proofs resignMsg))))
      else
        emit (Call_ValidateResignMessage (ResignMessage_Resign resignMsg) op
                (ResignMessage_Proofs resignMsg ! nat position))
        (case ValidateResignMessage env (ResignMessage_Resign resignMsg) op
                (ResignMessage_Proofs resignMsg ! nat position) of
           Panic pn \<Rightarrow> ([], Panic pn)
         | Return (Some err) \<Rightarrow> ([], Return (Inl err))
         | Return None \<Rightarrow>
        emit (Call_GetReqIDFromMsg (ResignMsg resignMsg))
        (case GetReqIDFromMsg env (ResignMsg resignMsg) of
           Inl err \<Rightarrow> ([], Return (Inl err))
         | Inr reqID \<Rightarrow>
        emit (Call_BuildResult (ID op) reqID share sk
                (Resign_ValidatorPubKey (ResignMessage_Resign resignMsg))
                (Resign_Owner (ResignMessage_Resign resignMsg))
                (Resign_WithdrawalCredentials (ResignMessage_Resign resignMsg))
                (Resign_Fork (ResignMessage_Resign resignMsg))
                (Resign_Nonce (ResignMessage_Resign resignMsg))
                (Resign_Amount (ResignMessage_Resign resignMsg)))
          ([], Return (BuildResult env (ID op) reqID share sk
                (Resign_ValidatorPubKey (ResignMessage_Resign resignMsg))
                (Resign_Owner (ResignMessage_Resign resignMsg))
                (Resign_WithdrawalCredentials (ResignMessage_Resign resignMsg))
                (Resign_Fork (ResignMessage_Resign resignMsg))
                (Resign_Nonce (ResignMessage_Resign resignMsg))
                (Resign_Amount (ResignMessage_Resign resignMsg)))))))"

fun Resign_loop ::
  "env \<Rightarrow> Operator \<Rightarrow> bls_SecretKey option \<Rightarrow> rsa_PrivateKey \<Rightarrow> ResignMessage list
     \<Rightarrow> Result list \<Rightarrow> event list \<times> (Result list \<times> error option) res" where
  "Resign_loop env op share sk [] results = ([], Return (results, None))"
| "Resign_loop env op share sk (resignMsg # msgs) results =
     (case Resign_message env op share sk resignMsg of
        (t, Panic pn) \<Rightarrow> (t, Panic pn)
      | (t, Return (Inl err)) \<Rightarrow> (t, Return ([], Some err))
      | (t, Return (Inr result)) \<Rightarrow>
          (case Resign_loop env op share sk msgs (results @ [result]) of
             (t', r) \<Rightarrow> (t @ t', r)))"

definition Operator_Resign ::
  "env \<Rightarrow> Operator \<Rightarrow> SignedResign \<Rightarrow> bls_SecretKey option \<Rightarrow> rsa_PrivateKey \<Rightarrow> ETHClient
     \<Rightarrow> event list \<times> (Result list \<times> error option) res" where
  "Operator_Resign env op signedResign share sk client =
     (if length (SignedResign_Messages signedResign) = 0 then
        ([], Return ([], Some (Errorf ''no reshare messages'')))
      else
     (let resignMsgs = map ResignMsg (SignedResign_Messages signedResign) in
      emit (Call_GetBulkMessageHash resignMsgs)
      (case GetBulkMessageHash env resignMsgs of
         Inl err \<Rightarrow> ([], Return ([], Some err))
       | Inr MsgHash \<Rightarrow>
      emit (Call_VerifySignedMessageByOwner client
              (Resign_Owner (ResignMessage_Resign (SignedResign_Messages signedResign ! 0)))
              MsgHash (SignedResign_Signature signedResign))
      (case VerifySignedMessageByOwner env client
              (Resign_Owner (ResignMessage_Resign (SignedResign_Messages signedResign ! 0)))
              MsgHash (SignedResign_Signature signedResign) of
         Some err \<Rightarrow> ([], Return ([], Some err))
       | None \<Rightarrow>
           (let results = [] in
            Resign_loop env op share sk (SignedResign_Messages signedResign) results)))))"

section \<open>Example inputs\<close>

text \<open>
  A stand-in for the functions defined elsewhere, for running the handlers on concrete
  inputs. Its signature checks are toys: a proof signature is valid when it equals the
  hash, which is the owner followed by the validator public key, and an owner signature
  is valid when it equals the owner followed by the bulk hash. Its share methods panic
  on a nil share.
\<close>

definition example_env :: env where
  "example_env =
     \<lparr>ValidateInitMessage = (\<lambda>init. None),
      DepositDataRootForFork = (\<lambda>fork validatorPK wc amount. Inr (fork @ validatorPK @ wc)),
      SignByte = (\<lambda>share msg. case share of None \<Rightarrow> Panic NilPointerDereference
                                | Some k \<Rightarrow> Return (bls_Sign (length msg))),
      SerializeToHexStr = (\<lambda>share. case share of None \<Rightarrow> Panic NilPointerDereference
                                | Some k \<Rightarrow> Return ''00''),
      GetPublicKey = (\<lambda>share. case share of None \<Rightarrow> Panic NilPointerDereference
                                | Some k \<Rightarrow> Return (bls_PublicKey 0)),
      PublicKey_Serialize = (\<lambda>pk. ''P''),
      Sign_Serialize = (\<lambda>sig. ''S''),
      Encrypt = (\<lambda>pk msg. Inr msg),
      MarshalSSZ = (\<lambda>p. Inr (Owner p)),
      SignRSA = (\<lambda>sk msg. Inr msg),
      PartialNonceRoot = (\<lambda>owner nonce. owner),
      HashTreeRoot = (\<lambda>p. Inr (Owner p @ ValidatorPubKey p)),
      ParseRSAPublicKey = (\<lambda>pkBytes. if pkBytes = [] then Inl (ExternalError ''no key'')
                                else Inr (rsa_PublicKey (length pkBytes) 65537)),
      VerifyRSA = (\<lambda>pk hash sig. if sig = hash then None
                                else Some (ExternalError ''verification error'')),
      GetBulkMessageHash = (\<lambda>msgs. if msgs = [] then Inl (ExternalError ''no messages'')
                                else Inr ''H''),
      VerifySignedMessageByOwner = (\<lambda>client owner hash sig. if sig = owner @ hash then None
                                else Some (ExternalError ''signature rejected'')),
      GetReqIDFromMsg = (\<lambda>msg. Inr ''R''),
      BuildResult = (\<lambda>opID reqID share sk validatorPK owner wc fork nonce amount.
         Inr \<lparr>OperatorID = opID, RequestID = reqID, DepositPartialSignature = ''D'',
              OwnerNoncePartialSignature = ''N'',
              Result_SignedProof =
                \<lparr>SignedProof_Proof =
                   Some \<lparr>ValidatorPubKey = validatorPK, EncryptedShare = ''E'',
                         SharePubKey = ''P'', Owner = owner\<rparr>,
                 Signature = owner @ validatorPK\<rparr>\<rparr>)\<rparr>"

text \<open>The same, with share methods that accept a nil share.\<close>

definition example_env_nil :: env where
  "example_env_nil =
     example_env
       \<lparr>SignByte := (\<lambda>share msg. Return (bls_Sign (length msg))),
        SerializeToHexStr := (\<lambda>share. Return ''00''),
        GetPublicKey := (\<lambda>share. Return (bls_PublicKey 0))\<rparr>"

text \<open>Two 20-byte owner addresses.\<close>

definition owner_A :: bytes where
  "owner_A = ''AAAAAAAAAAAAAAAAAAAA''"

definition owner_B :: bytes where
  "owner_B = ''BBBBBBBBBBBBBBBBBBBB''"

definition example_operator :: "64 word \<Rightarrow> Operator" where
  "example_operator n = \<lparr>Addr = ''10.0.0.1'', ID = n, PubKey = ''K''\<rparr>"

definition example_sk :: rsa_PrivateKey where
  "example_sk = \<lparr>PublicKey = rsa_PublicKey 3233 17, D = 2753\<rparr>"

text \<open>A proof for the validator \<open>''V''\<close> and the given owner, signed as \<open>example_env\<close> expects.\<close>

definition example_proof :: "bytes \<Rightarrow> SignedProof" where
  "example_proof owner =
     \<lparr>SignedProof_Proof =
        Some \<lparr>ValidatorPubKey = ''V'', EncryptedShare = ''E'', SharePubKey = ''P'',
              Owner = owner\<rparr>,
      Signature = owner @ ''V''\<rparr>"

text \<open>
  Messages for the validator \<open>''V''\<close>: the owner, the IDs of the (old) operators, and
  the owners named in the attached proofs.
\<close>

definition example_reshare :: "bytes \<Rightarrow> 64 word list \<Rightarrow> bytes list \<Rightarrow> ReshareMessage" where
  "example_reshare owner old proofOwners =
     \<lparr>ReshareMessage_Reshare =
        \<lparr>Reshare_ValidatorPubKey = ''V'', Reshare_OldOperators = map example_operator old,
         Reshare_WithdrawalCredentials = ''W'', Reshare_Fork = ''F'', Reshare_Owner = owner,
         Reshare_Nonce = 0, Reshare_Amount = 32000000000\<rparr>,
      ReshareMessage_Proofs = map example_proof proofOwners\<rparr>"

definition example_resign :: "bytes \<Rightarrow> 64 word list \<Rightarrow> bytes list \<Rightarrow> ResignMessage" where
  "example_resign owner ops proofOwners =
     \<lparr>ResignMessage_Operators = map example_operator ops,
      ResignMessage_Resign =
        \<lparr>Resign_ValidatorPubKey = ''V'', Resign_Fork = ''F'',
         Resign_WithdrawalCredentials = ''W'', Resign_Owner = owner,
         Resign_Nonce = 0, Resign_Amount = 32000000000\<rparr>,
      ResignMessage_Proofs = map example_proof proofOwners\<rparr>"

text \<open>The result that \<open>example_env\<close> builds for such a message.\<close>

definition example_result :: "64 word \<Rightarrow> bytes \<Rightarrow> Result" where
  "example_result n owner =
     \<lparr>OperatorID = n, RequestID = ''R'', DepositPartialSignature = ''D'',
      OwnerNoncePartialSignature = ''N'',
      Result_SignedProof = example_proof owner\<rparr>"

section \<open>Properties of the JSON encoding\<close>

lemma json_key_matches_names [simp]:
  "json_key_matches ''validator'' ''validator''"
  "\<not> json_key_matches ''validator'' ''encrypted_share''"
  "\<not> json_key_matches ''validator'' ''share_pub''"
  "\<not> json_key_matches ''validator'' ''owner''"
  "\<not> json_key_matches ''encrypted_share'' ''validator''"
  "json_key_matches ''encrypted_share'' ''encrypted_share''"
  "\<not> json_key_matches ''encrypted_share'' ''share_pub''"
  "\<not> json_key_matches ''encrypted_share'' ''owner''"
  "\<not> json_key_matches ''share_pub'' ''validator''"
  "\<not> json_key_matches ''share_pub'' ''encrypted_share''"
  "json_key_matches ''share_pub'' ''share_pub''"
  "\<not> json_key_matches ''share_pub'' ''owner''"
  "\<not> json_key_matches ''owner'' ''validator''"
  "\<not> json_key_matches ''owner'' ''encrypted_share''"
  "\<not> json_key_matches ''owner'' ''share_pub''"
  "json_key_matches ''owner'' ''owner''"
  "json_key_matches ''proof'' ''proof''"
  "\<not> json_key_matches ''proof'' ''signature''"
  "\<not> json_key_matches ''signature'' ''proof''"
  "json_key_matches ''signature'' ''signature''"
  "json_key_matches ''ip'' ''ip''"
  "\<not> json_key_matches ''ip'' ''id''"
  "\<not> json_key_matches ''ip'' ''public_key''"
  "\<not> json_key_matches ''id'' ''ip''"
  "json_key_matches ''id'' ''id''"
  "\<not> json_key_matches ''id'' ''public_key''"
  "\<not> json_key_matches ''public_key'' ''ip''"
  "\<not> json_key_matches ''public_key'' ''id''"
  "json_key_matches ''public_key'' ''public_key''"
  by (simp_all add: json_key_matches_def json_fold_def)

lemma fromHexChar_hextable_upt:
  "\<forall>n \<in> set [0..<16]. fromHexChar (hextable ! n) = Some n"
  by code_simp

lemma fromHexChar_hextable: "n < 16 \<Longrightarrow> fromHexChar (hextable ! n) = Some n"
  using fromHexChar_hextable_upt by simp

lemma hex_DecodeString_EncodeToString: "hex_DecodeString (hex_EncodeToString bs) = (bs, None)"
proof (induction bs)
  case Nil
  show ?case by simp
next
  case (Cons v bs)
  have "(of_char v :: nat) < 256" by simp
  then have d: "(of_char v :: nat) div 16 < 16" by arith
  have m: "(of_char v :: nat) mod 16 < 16" by simp
  have "char_of ((of_char v :: nat) div 16 * 16 + of_char v mod 16) = v" by simp
  then show ?case using Cons d m by (simp add: fromHexChar_hextable)
qed

lemma json_coerce_from_ascii:
  "\<forall>c \<in> set s. (of_char c :: nat) < 128 \<Longrightarrow> json_coerce_from 0 s = s"
  by (induction s) (simp_all add: utf8_rune_len_def)

lemma json_coerce_ascii:
  "\<forall>c \<in> set s. (of_char c :: nat) < 128 \<Longrightarrow> json_coerce s = s"
  by (simp add: json_coerce_def json_coerce_from_ascii)

lemma hextable_ascii_upt:
  "\<forall>n \<in> set [0..<16]. (of_char (hextable ! n) :: nat) < 128"
  by code_simp

lemma hextable_ascii: "n < 16 \<Longrightarrow> (of_char (hextable ! n) :: nat) < 128"
  using hextable_ascii_upt by simp

lemma hex_EncodeToString_ascii:
  "\<forall>c \<in> set (hex_EncodeToString bs). (of_char c :: nat) < 128"
proof (induction bs)
  case Nil
  show ?case by simp
next
  case (Cons v bs)
  have "(of_char v :: nat) < 256" by simp
  then have d: "(of_char v :: nat) div 16 < 16" by arith
  have m: "(of_char v :: nat) mod 16 < 16" by simp
  from Cons hextable_ascii[OF d] hextable_ascii[OF m] show ?case by simp
qed

lemma json_coerce_hex: "json_coerce (hex_EncodeToString bs) = hex_EncodeToString bs"
  by (simp add: json_coerce_ascii hex_EncodeToString_ascii)

lemma json_coerce_from_valid: "utf8_valid_from k s \<Longrightarrow> json_coerce_from k s = s"
  by (induction k s rule: utf8_valid_from.induct) (auto split: option.splits)

lemma json_coerce_valid: "utf8_ValidString s \<Longrightarrow> json_coerce s = s"
  by (simp add: utf8_ValidString_def json_coerce_def json_coerce_from_valid)

lemma copy_same_length: "length dst = length src \<Longrightarrow> copy dst src = src"
  by (simp add: copy_def)

lemma wf_zero_Proof: "wf_Proof zero_Proof"
  by (simp add: wf_Proof_def zero_Proof_def)

lemma Proof_roundtrip:
  assumes "wf_Proof p" "wf_Proof p0"
  shows "\<exists>d. Proof_MarshalJSON p = Inr d \<and> Proof_UnmarshalJSON p0 d = (p, None)"
  using assms
  by (simp add: Proof_MarshalJSON_def json_Marshal_proofJSON_def Proof_UnmarshalJSON_def
      zero_proofJSON_def hex_DecodeString_EncodeToString wf_Proof_def copy_same_length
      json_coerce_hex)

lemma SignedProof_roundtrip:
  assumes "\<forall>p. SignedProof_Proof sp = Some p \<longrightarrow> wf_Proof p"
  shows "\<exists>d. SignedProof_MarshalJSON sp = Inr d \<and> SignedProof_UnmarshalJSON sp0 d = (sp, None)"
proof (cases "SignedProof_Proof sp")
  case None
  then show ?thesis
    by (simp add: SignedProof_MarshalJSON_def json_Marshal_signedProofJSON_def
        SignedProof_UnmarshalJSON_def zero_signedProofJSON_def hex_DecodeString_EncodeToString
        json_coerce_hex)
next
  case (Some p)
  with assms have "wf_Proof p" by simp
  from Proof_roundtrip[OF this wf_zero_Proof] obtain d where
    d: "Proof_MarshalJSON p = Inr d" "Proof_UnmarshalJSON zero_Proof d = (p, None)" by blast
  have "d \<noteq> JNull" using d(1) by (auto simp: Proof_MarshalJSON_def json_Marshal_proofJSON_def)
  with Some d show ?thesis
    by (simp add: SignedProof_MarshalJSON_def json_Marshal_signedProofJSON_def
        SignedProof_UnmarshalJSON_def zero_signedProofJSON_def hex_DecodeString_EncodeToString
        json_coerce_hex)
qed

lemma unat_uint64: "unat (w :: 64 word) < 18446744073709551616"
  using unsigned_less[of w, where 'a=nat] by simp

lemma Operator_decode_encode:
  "\<exists>d. Operator_MarshalJSON op = Inr d \<and>
       Operator_UnmarshalJSON op0 d =
         (op\<lparr>Addr := strings_TrimRight (json_coerce (json_coerce (Addr op))) ''/'',
             PubKey := json_coerce (json_coerce (PubKey op))\<rparr>, None)"
  by (simp add: Operator_MarshalJSON_def json_Marshal_operatorJSON_def
        Operator_UnmarshalJSON_def zero_operatorJSON_def unat_uint64)

lemma strings_TrimRight_slash_id:
  "strings_TrimRight s ''/'' = s \<longleftrightarrow> (s = [] \<or> last s \<noteq> CHR ''/'')"
proof (cases s rule: rev_cases)
  case Nil
  then show ?thesis by (simp add: strings_TrimRight_def)
next
  case (snoc ys y)
  show ?thesis
  proof (cases "y = CHR ''/''")
    case True
    have le: "length (dropWhile (\<lambda>c. c = CHR ''/'') (rev ys)) \<le> length ys"
      using length_dropWhile_le[of "\<lambda>c. c = CHR ''/''" "rev ys"] by simp
    have "rev (dropWhile (\<lambda>c. c = CHR ''/'') (rev ys)) \<noteq> ys @ [y]"
    proof
      assume e: "rev (dropWhile (\<lambda>c. c = CHR ''/'') (rev ys)) = ys @ [y]"
      have "length (rev (dropWhile (\<lambda>c. c = CHR ''/'') (rev ys))) = length (ys @ [y])"
        by (simp only: e)
      then show False using le by simp
    qed
    with True snoc show ?thesis by (simp add: strings_TrimRight_def)
  next
    case False
    with snoc show ?thesis by (simp add: strings_TrimRight_def)
  qed
qed

lemma utf8_ValidString_ascii:
  "\<forall>c \<in> set s. (of_char c :: nat) < 128 \<Longrightarrow> utf8_ValidString s"
  unfolding utf8_ValidString_def
  by (induction s) (simp_all add: utf8_rune_len_def)

lemma json_coerce_examples:
  "json_coerce ''56'' = ''56''" "json_coerce ''45'' = ''45''" "json_coerce ''50'' = ''50''"
  "json_coerce ''53'' = ''53''" "json_coerce ''K'' = ''K''" "json_coerce ''4141'' = ''4141''"
  "json_coerce ''5g'' = ''5g''"
  "json_coerce ''10.0.0.1'' = ''10.0.0.1''" "json_coerce ''10.0.0.1/'' = ''10.0.0.1/''"
  "json_coerce ''4141414141414141414141414141414141414141'' =
     ''4141414141414141414141414141414141414141''"
  by (simp_all add: json_coerce_ascii)

text \<open>
  A public key that is not valid UTF-8 is written with \<^verbatim>\<open>U+FFFD\<close> in the place of
  the byte that starts no rune.
\<close>

lemma Operator_invalid_utf8_example:
  "Operator_MarshalJSON \<lparr>Addr = ''10.0.0.1'', ID = 1, PubKey = [CHR 0x30, CHR 0x82, CHR 0x01]\<rparr> =
     Inr (JObject [(''ip'', JString ''10.0.0.1''), (''id'', JNumber 1),
                   (''public_key'',
                    JString [CHR 0x30, CHR 0xEF, CHR 0xBF, CHR 0xBD, CHR 0x01])])"
  by (simp add: Operator_MarshalJSON_def json_Marshal_operatorJSON_def json_coerce_examples
        json_coerce_def utf8_rune_len_def)

text \<open>
  Claim C5, as amended. Encoding a Proof whose owner has 20 bytes and decoding the
  document gives the Proof back, whatever the receiver held before (its owner array has
  20 bytes as well). The same holds for a SignedProof whose Proof is nil or has a
  20-byte owner. Decoding an encoded Operator gives the Operator with its address and
  public key coerced to valid UTF-8 and every trailing \<open>/\<close> removed from the
  address. For an Operator whose address and public key are valid UTF-8 this is the
  Operator with every trailing \<open>/\<close> removed from its address, so that it is the
  original Operator exactly when the address is empty or does not end in \<open>/\<close>.
\<close>

theorem JSON_roundtrip:
  "(wf_Proof p \<and> wf_Proof p0 \<longrightarrow>
      (\<exists>d. Proof_MarshalJSON p = Inr d \<and> Proof_UnmarshalJSON p0 d = (p, None)))
   \<and> ((\<forall>q. SignedProof_Proof sp = Some q \<longrightarrow> wf_Proof q) \<longrightarrow>
      (\<exists>d. SignedProof_MarshalJSON sp = Inr d \<and> SignedProof_UnmarshalJSON sp0 d = (sp, None)))
   \<and> (\<exists>d. Operator_MarshalJSON op = Inr d \<and>
          Operator_UnmarshalJSON op0 d =
            (op\<lparr>Addr := strings_TrimRight (json_coerce (json_coerce (Addr op))) ''/'',
                PubKey := json_coerce (json_coerce (PubKey op))\<rparr>, None))
   \<and> (utf8_ValidString (Addr op) \<and> utf8_ValidString (PubKey op) \<longrightarrow>
        (\<exists>d. Operator_MarshalJSON op = Inr d \<and>
            Operator_UnmarshalJSON op0 d =
              (op\<lparr>Addr := strings_TrimRight (Addr op) ''/''\<rparr>, None)) \<and>
        ((\<exists>d. Operator_MarshalJSON op = Inr d \<and> Operator_UnmarshalJSON op0 d = (op, None))
           \<longleftrightarrow> Addr op = [] \<or> last (Addr op) \<noteq> CHR ''/''))"
proof -
  obtain d where d: "Operator_MarshalJSON op = Inr d"
    "Operator_UnmarshalJSON op0 d =
       (op\<lparr>Addr := strings_TrimRight (json_coerce (json_coerce (Addr op))) ''/'',
           PubKey := json_coerce (json_coerce (PubKey op))\<rparr>, None)"
    using Operator_decode_encode by blast
  have 4: "utf8_ValidString (Addr op) \<and> utf8_ValidString (PubKey op) \<longrightarrow>
        (\<exists>d. Operator_MarshalJSON op = Inr d \<and>
            Operator_UnmarshalJSON op0 d =
              (op\<lparr>Addr := strings_TrimRight (Addr op) ''/''\<rparr>, None)) \<and>
        ((\<exists>d. Operator_MarshalJSON op = Inr d \<and> Operator_UnmarshalJSON op0 d = (op, None))
           \<longleftrightarrow> Addr op = [] \<or> last (Addr op) \<noteq> CHR ''/'')"
  proof
    assume v: "utf8_ValidString (Addr op) \<and> utf8_ValidString (PubKey op)"
    then have e: "Operator_UnmarshalJSON op0 d =
        (op\<lparr>Addr := strings_TrimRight (Addr op) ''/''\<rparr>, None)"
      using d(2) by (simp add: json_coerce_valid)
    have "op\<lparr>Addr := strings_TrimRight (Addr op) ''/''\<rparr> = op
            \<longleftrightarrow> strings_TrimRight (Addr op) ''/'' = Addr op"
      by (cases op) simp
    then have "(\<exists>d. Operator_MarshalJSON op = Inr d \<and> Operator_UnmarshalJSON op0 d = (op, None))
        \<longleftrightarrow> Addr op = [] \<or> last (Addr op) \<noteq> CHR ''/''"
      using d(1) e strings_TrimRight_slash_id[of "Addr op"] by auto
    with d(1) e show "(\<exists>d. Operator_MarshalJSON op = Inr d \<and>
            Operator_UnmarshalJSON op0 d =
              (op\<lparr>Addr := strings_TrimRight (Addr op) ''/''\<rparr>, None)) \<and>
        ((\<exists>d. Operator_MarshalJSON op = Inr d \<and> Operator_UnmarshalJSON op0 d = (op, None))
           \<longleftrightarrow> Addr op = [] \<or> last (Addr op) \<noteq> CHR ''/'')"
      by blast
  qed
  from 4 show ?thesis
    using Proof_roundtrip SignedProof_roundtrip Operator_decode_encode by blast
qed

text \<open>
  The round trip at a Proof, a SignedProof and an Operator with an ASCII address that
  does not end in \<open>/\<close>.
\<close>

theorem JSON_roundtrip_witness:
  "wf_Proof \<lparr>ValidatorPubKey = ''V'', EncryptedShare = ''E'', SharePubKey = ''P'',
             Owner = owner_A\<rparr>
   \<and> wf_Proof zero_Proof
   \<and> Proof_UnmarshalJSON zero_Proof
        (JObject [(''validator'', JString ''56''), (''encrypted_share'', JString ''45''),
                  (''share_pub'', JString ''50''),
                  (''owner'', JString ''4141414141414141414141414141414141414141'')]) =
       (\<lparr>ValidatorPubKey = ''V'', EncryptedShare = ''E'', SharePubKey = ''P'',
         Owner = owner_A\<rparr>, None)
   \<and> SignedProof_UnmarshalJSON \<lparr>SignedProof_Proof = None, Signature = []\<rparr>
        (JObject [(''proof'',
           JObject [(''validator'', JString ''56''), (''encrypted_share'', JString ''45''),
                    (''share_pub'', JString ''50''),
                    (''owner'', JString ''4141414141414141414141414141414141414141'')]),
           (''signature'', JString ''53'')]) =
       (\<lparr>SignedProof_Proof =
           Some \<lparr>ValidatorPubKey = ''V'', EncryptedShare = ''E'', SharePubKey = ''P'',
                 Owner = owner_A\<rparr>,
         Signature = ''S''\<rparr>, None)
   \<and> utf8_ValidString (Addr (example_operator 1))
   \<and> utf8_ValidString (PubKey (example_operator 1))
   \<and> last (Addr (example_operator 1)) \<noteq> CHR ''/''
   \<and> Operator_UnmarshalJSON \<lparr>Addr = [], ID = 0, PubKey = []\<rparr>
        (JObject [(''ip'', JString ''10.0.0.1''), (''id'', JNumber 1),
                  (''public_key'', JString ''K'')]) = (example_operator 1, None)"
proof -
  let ?p = "\<lparr>ValidatorPubKey = ''V'', EncryptedShare = ''E'', SharePubKey = ''P'',
             Owner = owner_A\<rparr>"
  let ?sp = "\<lparr>SignedProof_Proof = Some ?p, Signature = ''S''\<rparr>"
  have wf: "wf_Proof ?p" "wf_Proof zero_Proof"
    by (simp_all add: wf_Proof_def owner_A_def zero_Proof_def)
  have wfs: "\<forall>q. SignedProof_Proof ?sp = Some q \<longrightarrow> wf_Proof q"
    using wf by simp
  have nl: "last (Addr (example_operator 1)) \<noteq> CHR ''/''"
    by (simp add: example_operator_def)
  have va: "utf8_ValidString (Addr (example_operator 1))"
    "utf8_ValidString (PubKey (example_operator 1))"
    by (simp_all add: example_operator_def utf8_ValidString_ascii)
  have m1: "Proof_MarshalJSON ?p =
      Inr (JObject [(''validator'', JString ''56''), (''encrypted_share'', JString ''45''),
                  (''share_pub'', JString ''50''),
                  (''owner'', JString ''4141414141414141414141414141414141414141'')])"
    by (simp add: Proof_MarshalJSON_def json_Marshal_proofJSON_def owner_A_def hextable_def
          json_coerce_examples)
  have m2: "SignedProof_MarshalJSON ?sp =
      Inr (JObject [(''proof'',
           JObject [(''validator'', JString ''56''), (''encrypted_share'', JString ''45''),
                    (''share_pub'', JString ''50''),
                    (''owner'', JString ''4141414141414141414141414141414141414141'')]),
           (''signature'', JString ''53'')])"
    by (simp add: SignedProof_MarshalJSON_def json_Marshal_signedProofJSON_def m1 hextable_def
          json_coerce_examples)
  have m3: "Operator_MarshalJSON (example_operator 1) =
      Inr (JObject [(''ip'', JString ''10.0.0.1''), (''id'', JNumber 1),
                  (''public_key'', JString ''K'')])"
    by (simp add: Operator_MarshalJSON_def json_Marshal_operatorJSON_def example_operator_def
          json_coerce_examples)
  from JSON_roundtrip[of ?p zero_Proof ?sp "\<lparr>SignedProof_Proof = None, Signature = []\<rparr>"
      "example_operator 1" "\<lparr>Addr = [], ID = 0, PubKey = []\<rparr>"]
  show ?thesis using wf wfs nl va m1 m2 m3 by auto
qed

text \<open>
  The round trip fails for an address that ends in \<open>/\<close>: the Operator with the
  address \<open>10.0.0.1/\<close> is encoded with that address and decoded with the address
  \<open>10.0.0.1\<close>.
\<close>

theorem Operator_roundtrip_counterexample:
  "Operator_MarshalJSON \<lparr>Addr = ''10.0.0.1/'', ID = 1, PubKey = ''K''\<rparr> =
     Inr (JObject [(''ip'', JString ''10.0.0.1/''), (''id'', JNumber 1),
                   (''public_key'', JString ''K'')])
   \<and> Operator_UnmarshalJSON \<lparr>Addr = [], ID = 0, PubKey = []\<rparr>
        (JObject [(''ip'', JString ''10.0.0.1/''), (''id'', JNumber 1),
                  (''public_key'', JString ''K'')]) =
       (\<lparr>Addr = ''10.0.0.1'', ID = 1, PubKey = ''K''\<rparr>, None)
   \<and> \<lparr>Addr = ''10.0.0.1'', ID = 1, PubKey = ''K''\<rparr> \<noteq>
       \<lparr>Addr = ''10.0.0.1/'', ID = (1 :: 64 word), PubKey = ''K''\<rparr>"
  by (simp add: Operator_MarshalJSON_def json_Marshal_operatorJSON_def
        Operator_UnmarshalJSON_def zero_operatorJSON_def strings_TrimRight_def
        json_coerce_examples)

text \<open>
  Claim C6. Let \<open>j\<close> be what \<^verbatim>\<open>json.Unmarshal\<close> stores for the document. When the
  owner string decodes to a number of bytes other than 20, \<open>Proof_UnmarshalJSON\<close>
  returns an error; when any of the four strings is malformed hexadecimal, it returns an
  error; and when all four decode and only the owner's length is wrong, the error is
  \<^verbatim>\<open>invalid owner length\<close>.
\<close>

theorem Proof_UnmarshalJSON_rejects:
  assumes "json_Unmarshal_proofJSON data = Inr j"
  shows "(snd (hex_DecodeString (proofJSON_Owner j)) = None \<and>
          length (fst (hex_DecodeString (proofJSON_Owner j))) \<noteq> 20
            \<longrightarrow> snd (Proof_UnmarshalJSON p data) \<noteq> None)
       \<and> (snd (hex_DecodeString (proofJSON_ValidatorPubKey j)) \<noteq> None \<or>
          snd (hex_DecodeString (proofJSON_EncryptedShare j)) \<noteq> None \<or>
          snd (hex_DecodeString (proofJSON_SharePubKey j)) \<noteq> None \<or>
          snd (hex_DecodeString (proofJSON_Owner j)) \<noteq> None
            \<longrightarrow> snd (Proof_UnmarshalJSON p data) \<noteq> None)
       \<and> (snd (hex_DecodeString (proofJSON_ValidatorPubKey j)) = None \<and>
          snd (hex_DecodeString (proofJSON_EncryptedShare j)) = None \<and>
          snd (hex_DecodeString (proofJSON_SharePubKey j)) = None \<and>
          snd (hex_DecodeString (proofJSON_Owner j)) = None \<and>
          length (fst (hex_DecodeString (proofJSON_Owner j))) \<noteq> 20
            \<longrightarrow> snd (Proof_UnmarshalJSON p data) = Some (Errorf ''invalid owner length''))"
  using assms
  by (auto simp: Proof_UnmarshalJSON_def split: prod.splits option.splits)

text \<open>A document with a 2-byte owner, and one with a malformed share public key.\<close>

theorem Proof_UnmarshalJSON_rejects_witness:
  "json_Unmarshal_proofJSON (JObject [(''owner'', JString ''4141'')]) =
     Inr (zero_proofJSON\<lparr>proofJSON_Owner := ''4141''\<rparr>)
   \<and> hex_DecodeString ''4141'' = (''AA'', None)
   \<and> snd (Proof_UnmarshalJSON zero_Proof (JObject [(''owner'', JString ''4141'')])) =
       Some (Errorf ''invalid owner length'')
   \<and> json_Unmarshal_proofJSON
       (JObject [(''share_pub'', JString ''5g''),
                 (''owner'', JString ''4141414141414141414141414141414141414141'')]) =
     Inr (zero_proofJSON\<lparr>proofJSON_SharePubKey := ''5g'',
            proofJSON_Owner := ''4141414141414141414141414141414141414141''\<rparr>)
   \<and> snd (hex_DecodeString ''5g'') \<noteq> None
   \<and> snd (Proof_UnmarshalJSON zero_Proof
       (JObject [(''share_pub'', JString ''5g''),
                 (''owner'', JString ''4141414141414141414141414141414141414141'')])) \<noteq> None"
proof -
  have j1: "json_Unmarshal_proofJSON (JObject [(''owner'', JString ''4141'')]) =
     Inr (zero_proofJSON\<lparr>proofJSON_Owner := ''4141''\<rparr>)"
    by (simp add: json_coerce_examples)
  have j2: "json_Unmarshal_proofJSON
       (JObject [(''share_pub'', JString ''5g''),
                 (''owner'', JString ''4141414141414141414141414141414141414141'')]) =
     Inr (zero_proofJSON\<lparr>proofJSON_SharePubKey := ''5g'',
            proofJSON_Owner := ''4141414141414141414141414141414141414141''\<rparr>)"
    by (simp add: json_coerce_examples)
  have h1: "hex_DecodeString ''4141'' = (''AA'', None)"
    using hex_DecodeString_EncodeToString[of "''AA''"] by (simp add: hextable_def)
  have h2: "snd (hex_DecodeString ''5g'') \<noteq> None"
    by (simp add: fromHexChar_def)
  have h0: "hex_DecodeString [] = ([], None)" by simp
  from Proof_UnmarshalJSON_rejects[OF j1, of zero_Proof]
       Proof_UnmarshalJSON_rejects[OF j2, of zero_Proof]
  show ?thesis using j1 j2 h1 h2 by (simp add: zero_proofJSON_def)
qed

section \<open>Properties of the proof validation\<close>

text \<open>
  Claim C1. \<open>ValidateCeremonyProof\<close> returns nil exactly when the proof's owner and
  validator public key equal the expected ones and the signature verifies against the
  operator's public key: the hash of the proof is computed, the key is parsed and
  \<open>VerifyRSA\<close> accepts. The checks run in this order: a different owner gives
  \<^verbatim>\<open>invalid owner address\<close> whatever the rest is; the same owner and a different
  validator public key give \<^verbatim>\<open>invalid proof validator pubkey\<close>; with both equal
  the result is that of \<open>VerifyCeremonyProof\<close>, and a signature that \<open>VerifyRSA\<close>
  rejects gives the error of \<open>VerifyRSA\<close>.
\<close>

theorem ValidateCeremonyProof_binding:
  "(ValidateCeremonyProof env ownerAddress validatorPK operator signedProof = Return None \<longleftrightarrow>
      (\<exists>p hash pk. SignedProof_Proof signedProof = Some p \<and>
         Owner p = ownerAddress \<and> ValidatorPubKey p = validatorPK \<and>
         HashTreeRoot env p = Inr hash \<and> ParseRSAPublicKey env (PubKey operator) = Inr pk \<and>
         VerifyRSA env pk hash (Signature signedProof) = None))
   \<and> (\<forall>p. SignedProof_Proof signedProof = Some p \<longrightarrow>
        (Owner p \<noteq> ownerAddress \<longrightarrow>
           ValidateCeremonyProof env ownerAddress validatorPK operator signedProof =
             Return (Some (Errorf ''invalid owner address'')))
      \<and> (Owner p = ownerAddress \<and> ValidatorPubKey p \<noteq> validatorPK \<longrightarrow>
           ValidateCeremonyProof env ownerAddress validatorPK operator signedProof =
             Return (Some (Errorf ''invalid proof validator pubkey'')))
      \<and> (Owner p = ownerAddress \<and> ValidatorPubKey p = validatorPK \<longrightarrow>
           ValidateCeremonyProof env ownerAddress validatorPK operator signedProof =
             VerifyCeremonyProof env (PubKey operator) signedProof)
      \<and> (\<forall>hash pk err. Owner p = ownerAddress \<and> ValidatorPubKey p = validatorPK \<and>
           HashTreeRoot env p = Inr hash \<and> ParseRSAPublicKey env (PubKey operator) = Inr pk \<and>
           VerifyRSA env pk hash (Signature signedProof) = Some err \<longrightarrow>
           ValidateCeremonyProof env ownerAddress validatorPK operator signedProof =
             Return (Some err)))"
  by (auto simp: ValidateCeremonyProof_def VerifyCeremonyProof_def
           split: option.splits sum.splits res.splits)

text \<open>
  A valid proof; one with all three wrong; one with the validator public key and the
  signature wrong; one with only the signature wrong.
\<close>

theorem ValidateCeremonyProof_binding_witness:
  "ValidateCeremonyProof example_env owner_A ''V'' (example_operator 1)
     (example_proof owner_A) = Return None
   \<and> ValidateCeremonyProof example_env owner_B ''X'' (example_operator 1)
       ((example_proof owner_A)\<lparr>Signature := ''bad''\<rparr>) =
       Return (Some (Errorf ''invalid owner address''))
   \<and> ValidateCeremonyProof example_env owner_A ''X'' (example_operator 1)
       ((example_proof owner_A)\<lparr>Signature := ''bad''\<rparr>) =
       Return (Some (Errorf ''invalid proof validator pubkey''))
   \<and> ValidateCeremonyProof example_env owner_A ''V'' (example_operator 1)
       ((example_proof owner_A)\<lparr>Signature := ''bad''\<rparr>) =
       Return (Some (ExternalError ''verification error''))"
proof -
  let ?p = "\<lparr>ValidatorPubKey = ''V'', EncryptedShare = ''E'', SharePubKey = ''P'',
             Owner = owner_A\<rparr>"
  let ?bad = "(example_proof owner_A)\<lparr>Signature := ''bad''\<rparr>"
  have p: "SignedProof_Proof (example_proof owner_A) = Some ?p"
          "SignedProof_Proof ?bad = Some ?p"
    by (simp_all add: example_proof_def)
  have f: "Owner ?p = owner_A" "Owner ?p \<noteq> owner_B" "ValidatorPubKey ?p = ''V''"
          "ValidatorPubKey ?p \<noteq> ''X''"
    by (simp_all add: owner_A_def owner_B_def)
  have c: "HashTreeRoot example_env ?p = Inr (owner_A @ ''V'')"
          "ParseRSAPublicKey example_env (PubKey (example_operator 1)) =
             Inr (rsa_PublicKey 1 65537)"
          "VerifyRSA example_env (rsa_PublicKey 1 65537) (owner_A @ ''V'')
             (Signature (example_proof owner_A)) = None"
          "VerifyRSA example_env (rsa_PublicKey 1 65537) (owner_A @ ''V'') (Signature ?bad) =
             Some (ExternalError ''verification error'')"
    by (simp_all add: example_env_def example_operator_def example_proof_def owner_A_def)
  have "ValidateCeremonyProof example_env owner_A ''V'' (example_operator 1)
          (example_proof owner_A) = Return None"
    using ValidateCeremonyProof_binding[of example_env owner_A "''V''" "example_operator 1"
          "example_proof owner_A"] p f c by blast
  moreover have "ValidateCeremonyProof example_env owner_B ''X'' (example_operator 1) ?bad =
       Return (Some (Errorf ''invalid owner address''))"
    using ValidateCeremonyProof_binding[of example_env owner_B "''X''" "example_operator 1" ?bad]
      p f by blast
  moreover have "ValidateCeremonyProof example_env owner_A ''X'' (example_operator 1) ?bad =
       Return (Some (Errorf ''invalid proof validator pubkey''))"
    using ValidateCeremonyProof_binding[of example_env owner_A "''X''" "example_operator 1" ?bad]
      p f by blast
  moreover have "ValidateCeremonyProof example_env owner_A ''V'' (example_operator 1) ?bad =
       Return (Some (ExternalError ''verification error''))"
    using ValidateCeremonyProof_binding[of example_env owner_A "''V''" "example_operator 1" ?bad]
      p f c by blast
  ultimately show ?thesis by blast
qed

section \<open>Properties of the handlers\<close>

subsection \<open>The position lookup\<close>

lemma FindOperatorPosition_range:
  "FindOperatorPosition operators opID = - 1 \<or>
   (0 \<le> FindOperatorPosition operators opID \<and>
    FindOperatorPosition operators opID < int (length operators))"
  by (induction operators) (auto simp: Let_def)

lemma FindOperatorPosition_not_found:
  "FindOperatorPosition operators opID = - 1 \<longleftrightarrow> opID \<notin> ID ` set operators"
proof (induction operators)
  case Nil
  then show ?case by simp
next
  case (Cons a operators)
  from FindOperatorPosition_range[of operators opID]
  have "FindOperatorPosition operators opID + 1 \<noteq> - 1" by auto
  with Cons show ?case by (auto simp: Let_def)
qed

lemma FindOperatorPosition_found:
  "opID \<in> ID ` set operators \<Longrightarrow>
     0 \<le> FindOperatorPosition operators opID \<and>
     FindOperatorPosition operators opID < int (length operators) \<and>
     ID (operators ! nat (FindOperatorPosition operators opID)) = opID"
proof (induction operators)
  case Nil
  then show ?case by simp
next
  case (Cons a operators)
  show ?case
  proof (cases "ID a = opID")
    case True
    then show ?thesis by simp
  next
    case False
    with Cons.prems have m: "opID \<in> ID ` set operators" by auto
    then have nf: "FindOperatorPosition operators opID \<noteq> - 1"
      by (simp add: FindOperatorPosition_not_found)
    from Cons.IH[OF m] False nf show ?thesis
      by (auto simp: Let_def nat_add_distrib)
  qed
qed

lemma FindOperatorPosition_distinct:
  "distinct (map ID operators) \<Longrightarrow> i < length operators \<Longrightarrow>
     FindOperatorPosition operators (ID (operators ! i)) = int i"
proof (induction operators arbitrary: i)
  case Nil
  then show ?case by simp
next
  case (Cons a operators)
  show ?case
  proof (cases i)
    case 0
    then show ?thesis by simp
  next
    case (Suc k)
    with Cons.prems have k: "k < length operators" and d: "distinct (map ID operators)"
      and ne: "ID a \<noteq> ID (operators ! k)"
      by auto
    from Cons.IH[OF d k] ne Suc show ?thesis by (simp add: Let_def)
  qed
qed

lemma ValidateCeremonyProof_panic:
  "ValidateCeremonyProof env ownerAddress validatorPK operator signedProof = Panic pn \<Longrightarrow>
     pn = NilPointerDereference"
  by (auto simp: ValidateCeremonyProof_def VerifyCeremonyProof_def
           split: option.splits if_splits res.splits sum.splits)

subsection \<open>The loop of Reshare\<close>

lemma snd_Reshare_loop_Cons:
  "snd (Reshare_loop env op sk (m # msgs) results) =
     (case snd (Reshare_message env op sk m) of
        Panic pn \<Rightarrow> Panic pn
      | Return (Inl err) \<Rightarrow> Return ([], Some err)
      | Return (Inr result) \<Rightarrow> snd (Reshare_loop env op sk msgs (results @ [result])))"
  by (cases "Reshare_message env op sk m") (auto split: res.splits sum.splits prod.splits)

lemma fst_Reshare_loop_Cons:
  "fst (Reshare_loop env op sk (m # msgs) results) =
     fst (Reshare_message env op sk m) @
     (case snd (Reshare_message env op sk m) of
        Return (Inr result) \<Rightarrow> fst (Reshare_loop env op sk msgs (results @ [result]))
      | _ \<Rightarrow> [])"
  by (cases "Reshare_message env op sk m") (auto split: res.splits sum.splits prod.splits)

lemma snd_Reshare_loop_abort:
  assumes "\<forall>x\<in>set pre. \<exists>r. snd (Reshare_message env op sk x) = Return (Inr r)"
    and "snd (Reshare_message env op sk m) = Return (Inl e)"
  shows "snd (Reshare_loop env op sk (pre @ m # post) results) = Return ([], Some e)"
  using assms(1)
proof (induction pre arbitrary: results)
  case Nil
  show ?case using assms(2) by (simp add: snd_Reshare_loop_Cons del: Reshare_loop.simps)
next
  case (Cons x pre)
  then obtain r where r: "snd (Reshare_message env op sk x) = Return (Inr r)" by auto
  from Cons have "\<forall>x\<in>set pre. \<exists>r. snd (Reshare_message env op sk x) = Return (Inr r)" by simp
  from Cons.IH[OF this, of "results @ [r]"] r show ?case
    by (simp add: snd_Reshare_loop_Cons del: Reshare_loop.simps)
qed

lemma snd_Reshare_loop_panic:
  assumes "\<forall>x\<in>set pre. \<exists>r. snd (Reshare_message env op sk x) = Return (Inr r)"
    and "snd (Reshare_message env op sk m) = Panic pn"
  shows "snd (Reshare_loop env op sk (pre @ m # post) results) = Panic pn"
  using assms(1)
proof (induction pre arbitrary: results)
  case Nil
  show ?case using assms(2) by (simp add: snd_Reshare_loop_Cons del: Reshare_loop.simps)
next
  case (Cons x pre)
  then obtain r where r: "snd (Reshare_message env op sk x) = Return (Inr r)" by auto
  from Cons have "\<forall>x\<in>set pre. \<exists>r. snd (Reshare_message env op sk x) = Return (Inr r)" by simp
  from Cons.IH[OF this, of "results @ [r]"] r show ?case
    by (simp add: snd_Reshare_loop_Cons del: Reshare_loop.simps)
qed

lemma fst_Reshare_loop_stop:
  assumes "\<forall>x\<in>set pre. \<exists>r. snd (Reshare_message env op sk x) = Return (Inr r)"
    and "\<forall>r. snd (Reshare_message env op sk m) \<noteq> Return (Inr r)"
  shows "fst (Reshare_loop env op sk (pre @ m # post) results) =
           concat (map (\<lambda>x. fst (Reshare_message env op sk x)) pre)
             @ fst (Reshare_message env op sk m)"
  using assms(1)
proof (induction pre arbitrary: results)
  case Nil
  show ?case using assms(2)
    by (simp add: fst_Reshare_loop_Cons del: Reshare_loop.simps split: res.splits sum.splits)
next
  case (Cons x pre)
  then obtain r where r: "snd (Reshare_message env op sk x) = Return (Inr r)" by auto
  from Cons have "\<forall>x\<in>set pre. \<exists>r. snd (Reshare_message env op sk x) = Return (Inr r)" by simp
  from Cons.IH[OF this, of "results @ [r]"] r show ?case
    by (simp add: fst_Reshare_loop_Cons del: Reshare_loop.simps)
qed

lemma Reshare_loop_error_no_results:
  "snd (Reshare_loop env op sk msgs results) = Return (rs, Some e) \<Longrightarrow> rs = []"
proof (induction msgs arbitrary: results)
  case Nil
  then show ?case by simp
next
  case (Cons m msgs)
  then show ?case
    by (auto simp: snd_Reshare_loop_Cons simp del: Reshare_loop.simps
             split: res.splits sum.splits)
qed

lemma Reshare_loop_success:
  "snd (Reshare_loop env op sk msgs results) = Return (rs, None) \<Longrightarrow>
     (\<forall>x\<in>set msgs. \<exists>r. snd (Reshare_message env op sk x) = Return (Inr r))"
proof (induction msgs arbitrary: results)
  case Nil
  then show ?case by simp
next
  case (Cons m msgs)
  then show ?case
    by (auto simp: snd_Reshare_loop_Cons simp del: Reshare_loop.simps
             split: res.splits sum.splits)
qed

lemma Reshare_message_no_owner_check:
  "e \<in> set (fst (Reshare_message env op sk m)) \<Longrightarrow> \<not> is_owner_check e"
  by (auto simp: Reshare_message_def Let_def emit_def is_owner_check_def
           split: if_splits res.splits option.splits sum.splits)

lemma Reshare_loop_no_owner_check:
  "e \<in> set (fst (Reshare_loop env op sk msgs results)) \<Longrightarrow> \<not> is_owner_check e"
proof (induction msgs arbitrary: results)
  case Nil
  then show ?case by simp
next
  case (Cons m msgs)
  then show ?case
    using Reshare_message_no_owner_check[of e env op sk m]
    by (auto simp: fst_Reshare_loop_Cons simp del: Reshare_loop.simps
             split: res.splits sum.splits)
qed

lemma Operator_Reshare_authorized:
  assumes "SignedReshare_Messages sr \<noteq> []"
    and "GetBulkMessageHash env (map ReshareMsg (SignedReshare_Messages sr)) = Inr h"
    and "VerifySignedMessageByOwner env client
           (Reshare_Owner (ReshareMessage_Reshare (SignedReshare_Messages sr ! 0))) h
           (SignedReshare_Signature sr) = None"
  shows "Operator_Reshare env op sr sk client =
           (Call_GetBulkMessageHash (map ReshareMsg (SignedReshare_Messages sr))
            # Call_VerifySignedMessageByOwner client
                (Reshare_Owner (ReshareMessage_Reshare (SignedReshare_Messages sr ! 0))) h
                (SignedReshare_Signature sr)
            # fst (Reshare_loop env op sk (SignedReshare_Messages sr) []),
            snd (Reshare_loop env op sk (SignedReshare_Messages sr) []))"
  using assms by (simp add: Operator_Reshare_def emit_def)

lemma Operator_Reshare_cases:
  "Operator_Reshare env op sr sk client =
     (if SignedReshare_Messages sr = [] then
        ([], Return ([], Some (Errorf ''no reshare messages'')))
      else
        (case GetBulkMessageHash env (map ReshareMsg (SignedReshare_Messages sr)) of
           Inl err \<Rightarrow>
             ([Call_GetBulkMessageHash (map ReshareMsg (SignedReshare_Messages sr))],
              Return ([], Some err))
         | Inr h \<Rightarrow>
             (case VerifySignedMessageByOwner env client
                     (Reshare_Owner (ReshareMessage_Reshare (SignedReshare_Messages sr ! 0))) h
                     (SignedReshare_Signature sr) of
                Some err \<Rightarrow>
                  ([Call_GetBulkMessageHash (map ReshareMsg (SignedReshare_Messages sr)),
                    Call_VerifySignedMessageByOwner client
                      (Reshare_Owner (ReshareMessage_Reshare (SignedReshare_Messages sr ! 0))) h
                      (SignedReshare_Signature sr)],
                   Return ([], Some err))
              | None \<Rightarrow>
                  (Call_GetBulkMessageHash (map ReshareMsg (SignedReshare_Messages sr))
                   # Call_VerifySignedMessageByOwner client
                       (Reshare_Owner (ReshareMessage_Reshare (SignedReshare_Messages sr ! 0))) h
                       (SignedReshare_Signature sr)
                   # fst (Reshare_loop env op sk (SignedReshare_Messages sr) []),
                   snd (Reshare_loop env op sk (SignedReshare_Messages sr) [])))))"
  by (simp add: Operator_Reshare_def emit_def split: sum.splits option.splits)

subsection \<open>The loop of Resign\<close>

lemma snd_Resign_loop_Cons:
  "snd (Resign_loop env op share sk (m # msgs) results) =
     (case snd (Resign_message env op share sk m) of
        Panic pn \<Rightarrow> Panic pn
      | Return (Inl err) \<Rightarrow> Return ([], Some err)
      | Return (Inr result) \<Rightarrow> snd (Resign_loop env op share sk msgs (results @ [result])))"
  by (cases "Resign_message env op share sk m") (auto split: res.splits sum.splits prod.splits)

lemma fst_Resign_loop_Cons:
  "fst (Resign_loop env op share sk (m # msgs) results) =
     fst (Resign_message env op share sk m) @
     (case snd (Resign_message env op share sk m) of
        Return (Inr result) \<Rightarrow> fst (Resign_loop env op share sk msgs (results @ [result]))
      | _ \<Rightarrow> [])"
  by (cases "Resign_message env op share sk m") (auto split: res.splits sum.splits prod.splits)

lemma snd_Resign_loop_abort:
  assumes "\<forall>x\<in>set pre. \<exists>r. snd (Resign_message env op share sk x) = Return (Inr r)"
    and "snd (Resign_message env op share sk m) = Return (Inl e)"
  shows "snd (Resign_loop env op share sk (pre @ m # post) results) = Return ([], Some e)"
  using assms(1)
proof (induction pre arbitrary: results)
  case Nil
  show ?case using assms(2) by (simp add: snd_Resign_loop_Cons del: Resign_loop.simps)
next
  case (Cons x pre)
  then obtain r where r: "snd (Resign_message env op share sk x) = Return (Inr r)" by auto
  from Cons have "\<forall>x\<in>set pre. \<exists>r. snd (Resign_message env op share sk x) = Return (Inr r)" by simp
  from Cons.IH[OF this, of "results @ [r]"] r show ?case
    by (simp add: snd_Resign_loop_Cons del: Resign_loop.simps)
qed

lemma snd_Resign_loop_panic:
  assumes "\<forall>x\<in>set pre. \<exists>r. snd (Resign_message env op share sk x) = Return (Inr r)"
    and "snd (Resign_message env op share sk m) = Panic pn"
  shows "snd (Resign_loop env op share sk (pre @ m # post) results) = Panic pn"
  using assms(1)
proof (induction pre arbitrary: results)
  case Nil
  show ?case using assms(2) by (simp add: snd_Resign_loop_Cons del: Resign_loop.simps)
next
  case (Cons x pre)
  then obtain r where r: "snd (Resign_message env op share sk x) = Return (Inr r)" by auto
  from Cons have "\<forall>x\<in>set pre. \<exists>r. snd (Resign_message env op share sk x) = Return (Inr r)" by simp
  from Cons.IH[OF this, of "results @ [r]"] r show ?case
    by (simp add: snd_Resign_loop_Cons del: Resign_loop.simps)
qed

lemma fst_Resign_loop_stop:
  assumes "\<forall>x\<in>set pre. \<exists>r. snd (Resign_message env op share sk x) = Return (Inr r)"
    and "\<forall>r. snd (Resign_message env op share sk m) \<noteq> Return (Inr r)"
  shows "fst (Resign_loop env op share sk (pre @ m # post) results) =
           concat (map (\<lambda>x. fst (Resign_message env op share sk x)) pre)
             @ fst (Resign_message env op share sk m)"
  using assms(1)
proof (induction pre arbitrary: results)
  case Nil
  show ?case using assms(2)
    by (simp add: fst_Resign_loop_Cons del: Resign_loop.simps split: res.splits sum.splits)
next
  case (Cons x pre)
  then obtain r where r: "snd (Resign_message env op share sk x) = Return (Inr r)" by auto
  from Cons have "\<forall>x\<in>set pre. \<exists>r. snd (Resign_message env op share sk x) = Return (Inr r)" by simp
  from Cons.IH[OF this, of "results @ [r]"] r show ?case
    by (simp add: fst_Resign_loop_Cons del: Resign_loop.simps)
qed

lemma Resign_loop_error_no_results:
  "snd (Resign_loop env op share sk msgs results) = Return (rs, Some e) \<Longrightarrow> rs = []"
proof (induction msgs arbitrary: results)
  case Nil
  then show ?case by simp
next
  case (Cons m msgs)
  then show ?case
    by (auto simp: snd_Resign_loop_Cons simp del: Resign_loop.simps
             split: res.splits sum.splits)
qed

lemma Resign_loop_success:
  "snd (Resign_loop env op share sk msgs results) = Return (rs, None) \<Longrightarrow>
     (\<forall>x\<in>set msgs. \<exists>r. snd (Resign_message env op share sk x) = Return (Inr r))"
proof (induction msgs arbitrary: results)
  case Nil
  then show ?case by simp
next
  case (Cons m msgs)
  then show ?case
    by (auto simp: snd_Resign_loop_Cons simp del: Resign_loop.simps
             split: res.splits sum.splits)
qed

lemma Resign_message_no_owner_check:
  "e \<in> set (fst (Resign_message env op share sk m)) \<Longrightarrow> \<not> is_owner_check e"
  by (auto simp: Resign_message_def Let_def emit_def is_owner_check_def
           split: if_splits res.splits option.splits sum.splits)

lemma Resign_loop_no_owner_check:
  "e \<in> set (fst (Resign_loop env op share sk msgs results)) \<Longrightarrow> \<not> is_owner_check e"
proof (induction msgs arbitrary: results)
  case Nil
  then show ?case by simp
next
  case (Cons m msgs)
  then show ?case
    using Resign_message_no_owner_check[of e env op share sk m]
    by (auto simp: fst_Resign_loop_Cons simp del: Resign_loop.simps
             split: res.splits sum.splits)
qed

lemma Operator_Resign_authorized:
  assumes "SignedResign_Messages sg \<noteq> []"
    and "GetBulkMessageHash env (map ResignMsg (SignedResign_Messages sg)) = Inr h"
    and "VerifySignedMessageByOwner env client
           (Resign_Owner (ResignMessage_Resign (SignedResign_Messages sg ! 0))) h
           (SignedResign_Signature sg) = None"
  shows "Operator_Resign env op sg share sk client =
           (Call_GetBulkMessageHash (map ResignMsg (SignedResign_Messages sg))
            # Call_VerifySignedMessageByOwner client
                (Resign_Owner (ResignMessage_Resign (SignedResign_Messages sg ! 0))) h
                (SignedResign_Signature sg)
            # fst (Resign_loop env op share sk (SignedResign_Messages sg) []),
            snd (Resign_loop env op share sk (SignedResign_Messages sg) []))"
  using assms by (simp add: Operator_Resign_def emit_def)

lemma Operator_Resign_cases:
  "Operator_Resign env op sg share sk client =
     (if SignedResign_Messages sg = [] then
        ([], Return ([], Some (Errorf ''no reshare messages'')))
      else
        (case GetBulkMessageHash env (map ResignMsg (SignedResign_Messages sg)) of
           Inl err \<Rightarrow>
             ([Call_GetBulkMessageHash (map ResignMsg (SignedResign_Messages sg))],
              Return ([], Some err))
         | Inr h \<Rightarrow>
             (case VerifySignedMessageByOwner env client
                     (Resign_Owner (ResignMessage_Resign (SignedResign_Messages sg ! 0))) h
                     (SignedResign_Signature sg) of
                Some err \<Rightarrow>
                  ([Call_GetBulkMessageHash (map ResignMsg (SignedResign_Messages sg)),
                    Call_VerifySignedMessageByOwner client
                      (Resign_Owner (ResignMessage_Resign (SignedResign_Messages sg ! 0))) h
                      (SignedResign_Signature sg)],
                   Return ([], Some err))
              | None \<Rightarrow>
                  (Call_GetBulkMessageHash (map ResignMsg (SignedResign_Messages sg))
                   # Call_VerifySignedMessageByOwner client
                       (Resign_Owner (ResignMessage_Resign (SignedResign_Messages sg ! 0))) h
                       (SignedResign_Signature sg)
                   # fst (Resign_loop env op share sk (SignedResign_Messages sg) []),
                   snd (Resign_loop env op share sk (SignedResign_Messages sg) [])))))"
  by (simp add: Operator_Resign_def emit_def split: sum.splits option.splits)

lemma ValidateReshareMessage_panic:
  "ValidateReshareMessage env r operator p = Panic pn \<Longrightarrow> pn = NilPointerDereference"
  unfolding ValidateReshareMessage_def by (rule ValidateCeremonyProof_panic)

lemma ValidateResignMessage_panic:
  "ValidateResignMessage env r operator p = Panic pn \<Longrightarrow> pn = NilPointerDereference"
  unfolding ValidateResignMessage_def by (rule ValidateCeremonyProof_panic)

subsection \<open>The validation calls of Reshare\<close>

lemma Reshare_message_validation_calls:
  "filter is_reshare_validation (fst (Reshare_message env op sk m)) =
     (if ID op \<in> ID ` set (Reshare_OldOperators (ReshareMessage_Reshare m)) \<and>
         FindOperatorPosition (Reshare_OldOperators (ReshareMessage_Reshare m)) (ID op)
           < int (length (ReshareMessage_Proofs m))
      then [Call_ValidateReshareMessage (ReshareMessage_Reshare m) op
              (ReshareMessage_Proofs m !
                 nat (FindOperatorPosition (Reshare_OldOperators (ReshareMessage_Reshare m))
                        (ID op)))]
      else [])"
  using FindOperatorPosition_range[of "Reshare_OldOperators (ReshareMessage_Reshare m)" "ID op"]
    FindOperatorPosition_not_found[of "Reshare_OldOperators (ReshareMessage_Reshare m)" "ID op"]
  by (auto simp: Reshare_message_def Let_def emit_def is_reshare_validation_def
           split: res.splits option.splits sum.splits)

lemma Reshare_message_result_in_range:
  assumes "snd (Reshare_message env op sk m) = Return (Inr r)"
    and "ID op \<in> ID ` set (Reshare_OldOperators (ReshareMessage_Reshare m))"
  shows "FindOperatorPosition (Reshare_OldOperators (ReshareMessage_Reshare m)) (ID op)
           < int (length (ReshareMessage_Proofs m))"
  using assms
    FindOperatorPosition_not_found[of "Reshare_OldOperators (ReshareMessage_Reshare m)" "ID op"]
  by (auto simp: Reshare_message_def Let_def split: if_splits)

lemma fst_Reshare_loop_all:
  "\<forall>x\<in>set msgs. \<exists>r. snd (Reshare_message env op sk x) = Return (Inr r) \<Longrightarrow>
     fst (Reshare_loop env op sk msgs results) =
       concat (map (\<lambda>x. fst (Reshare_message env op sk x)) msgs)"
proof (induction msgs arbitrary: results)
  case Nil
  show ?case by simp
next
  case (Cons x msgs)
  then obtain r where r: "snd (Reshare_message env op sk x) = Return (Inr r)" by auto
  from Cons have "\<forall>x\<in>set msgs. \<exists>r. snd (Reshare_message env op sk x) = Return (Inr r)" by simp
  from Cons.IH[OF this, of "results @ [r]"] r show ?case
    by (simp add: fst_Reshare_loop_Cons del: Reshare_loop.simps)
qed

lemma fst_Reshare_loop_reach:
  assumes "\<forall>x\<in>set pre. \<exists>r. snd (Reshare_message env op sk x) = Return (Inr r)"
  shows "\<exists>t. fst (Reshare_loop env op sk (pre @ m # post) results) =
           concat (map (\<lambda>x. fst (Reshare_message env op sk x)) pre)
             @ fst (Reshare_message env op sk m) @ t"
  using assms
proof (induction pre arbitrary: results)
  case Nil
  show ?case by (simp add: fst_Reshare_loop_Cons del: Reshare_loop.simps)
next
  case (Cons x pre)
  then obtain r where r: "snd (Reshare_message env op sk x) = Return (Inr r)" by auto
  from Cons have "\<forall>x\<in>set pre. \<exists>r. snd (Reshare_message env op sk x) = Return (Inr r)" by simp
  from Cons.IH[OF this, of "results @ [r]"] r show ?case
    by (simp add: fst_Reshare_loop_Cons del: Reshare_loop.simps)
qed

lemma concat_map_if_singleton:
  "concat (map (\<lambda>x. if P x then [f x] else []) xs) = map f (filter P xs)"
  by (induction xs) simp_all

lemma Reshare_loop_validation_calls:
  assumes "snd (Reshare_loop env op sk msgs results) = Return (rs, None)"
  shows "filter is_reshare_validation (fst (Reshare_loop env op sk msgs results)) =
     map (\<lambda>x. Call_ValidateReshareMessage (ReshareMessage_Reshare x) op
                (ReshareMessage_Proofs x !
                   nat (FindOperatorPosition (Reshare_OldOperators (ReshareMessage_Reshare x))
                          (ID op))))
       (filter (\<lambda>x. ID op \<in> ID ` set (Reshare_OldOperators (ReshareMessage_Reshare x))) msgs)"
proof -
  from Reshare_loop_success[OF assms]
  have ok: "\<forall>x\<in>set msgs. \<exists>r. snd (Reshare_message env op sk x) = Return (Inr r)" .
  have each: "\<forall>x\<in>set msgs.
      filter is_reshare_validation (fst (Reshare_message env op sk x)) =
        (if ID op \<in> ID ` set (Reshare_OldOperators (ReshareMessage_Reshare x))
         then [Call_ValidateReshareMessage (ReshareMessage_Reshare x) op
                 (ReshareMessage_Proofs x !
                    nat (FindOperatorPosition (Reshare_OldOperators (ReshareMessage_Reshare x))
                           (ID op)))]
         else [])"
  proof
    fix x assume "x \<in> set msgs"
    with ok obtain r where r: "snd (Reshare_message env op sk x) = Return (Inr r)" by blast
    show "filter is_reshare_validation (fst (Reshare_message env op sk x)) =
        (if ID op \<in> ID ` set (Reshare_OldOperators (ReshareMessage_Reshare x))
         then [Call_ValidateReshareMessage (ReshareMessage_Reshare x) op
                 (ReshareMessage_Proofs x !
                    nat (FindOperatorPosition (Reshare_OldOperators (ReshareMessage_Reshare x))
                           (ID op)))]
         else [])"
      using Reshare_message_result_in_range[OF r]
      by (simp add: Reshare_message_validation_calls)
  qed
  have "filter is_reshare_validation (fst (Reshare_loop env op sk msgs results)) =
      concat (map (\<lambda>x. filter is_reshare_validation (fst (Reshare_message env op sk x))) msgs)"
    by (simp add: fst_Reshare_loop_all[OF ok] filter_concat comp_def)
  also have "\<dots> = concat (map (\<lambda>x.
        if ID op \<in> ID ` set (Reshare_OldOperators (ReshareMessage_Reshare x))
        then [Call_ValidateReshareMessage (ReshareMessage_Reshare x) op
                (ReshareMessage_Proofs x !
                   nat (FindOperatorPosition (Reshare_OldOperators (ReshareMessage_Reshare x))
                          (ID op)))]
        else []) msgs)"
    using each by (simp cong: map_cong)
  finally show ?thesis by (simp add: concat_map_if_singleton)
qed

subsection \<open>The handlers on the example inputs\<close>

lemma example_Reshare_message_valid:
  "Reshare_message example_env (example_operator 1) example_sk
     (example_reshare owner_A [2, 1] [owner_A, owner_A]) =
     ([Call_ValidateReshareMessage
         (ReshareMessage_Reshare (example_reshare owner_A [2, 1] [owner_A, owner_A]))
         (example_operator 1) (example_proof owner_A),
       Call_GetReqIDFromMsg (ReshareMsg (example_reshare owner_A [2, 1] [owner_A, owner_A])),
       Call_BuildResult 1 ''R'' None example_sk ''V'' owner_A ''W'' ''F'' 0 32000000000],
      Return (Inr (example_result 1 owner_A)))"
  by (simp add: Reshare_message_def example_reshare_def example_operator_def example_env_def
        emit_def example_result_def example_proof_def ValidateReshareMessage_def
        ValidateCeremonyProof_def VerifyCeremonyProof_def)

lemma example_Reshare_message_skip:
  "Reshare_message example_env (example_operator 1) example_sk
     (example_reshare owner [2, 3] proofOwners) =
     ([Call_GetReqIDFromMsg (ReshareMsg (example_reshare owner [2, 3] proofOwners)),
       Call_BuildResult 1 ''R'' None example_sk ''V'' owner ''W'' ''F'' 0 32000000000],
      Return (Inr (example_result 1 owner)))"
  by (simp add: Reshare_message_def example_reshare_def example_operator_def example_env_def
        emit_def example_result_def example_proof_def)

lemma example_Reshare_message_invalid:
  "Reshare_message example_env (example_operator 1) example_sk
     (example_reshare owner_A [1, 2] [owner_B, owner_A]) =
     ([Call_ValidateReshareMessage
         (ReshareMessage_Reshare (example_reshare owner_A [1, 2] [owner_B, owner_A]))
         (example_operator 1) (example_proof owner_B)],
      Return (Inl (Errorf ''invalid owner address'')))"
  by (simp add: Reshare_message_def example_reshare_def example_operator_def
        emit_def example_proof_def ValidateReshareMessage_def ValidateCeremonyProof_def
        owner_A_def owner_B_def)

lemma example_Resign_message_valid:
  "Resign_message example_env (example_operator 1) share example_sk
     (example_resign owner_A [1, 2] [owner_A, owner_A]) =
     ([Call_ValidateResignMessage
         (ResignMessage_Resign (example_resign owner_A [1, 2] [owner_A, owner_A]))
         (example_operator 1) (example_proof owner_A),
       Call_GetReqIDFromMsg (ResignMsg (example_resign owner_A [1, 2] [owner_A, owner_A])),
       Call_BuildResult 1 ''R'' share example_sk ''V'' owner_A ''W'' ''F'' 0 32000000000],
      Return (Inr (example_result 1 owner_A)))"
  by (simp add: Resign_message_def example_resign_def example_operator_def example_env_def
        emit_def example_result_def example_proof_def ValidateResignMessage_def
        ValidateCeremonyProof_def VerifyCeremonyProof_def)

lemma example_Resign_message_invalid:
  "Resign_message example_env (example_operator 1) share example_sk
     (example_resign owner_A [1, 2] [owner_B, owner_A]) =
     ([Call_ValidateResignMessage
         (ResignMessage_Resign (example_resign owner_A [1, 2] [owner_B, owner_A]))
         (example_operator 1) (example_proof owner_B)],
      Return (Inl (Errorf ''invalid owner address'')))"
  by (simp add: Resign_message_def example_resign_def example_operator_def
        emit_def example_proof_def ValidateResignMessage_def ValidateCeremonyProof_def
        owner_A_def owner_B_def)

lemma example_GetBulkMessageHash:
  "msgs \<noteq> [] \<Longrightarrow> GetBulkMessageHash example_env msgs = Inr ''H''"
  by (simp add: example_env_def)

lemma example_VerifySignedMessageByOwner:
  "VerifySignedMessageByOwner example_env client owner ''H'' sig =
     (if sig = owner @ ''H'' then None else Some (ExternalError ''signature rejected''))"
  by (simp add: example_env_def)

lemma example_reshare_owner:
  "Reshare_Owner (ReshareMessage_Reshare (example_reshare owner old proofOwners)) = owner"
  by (simp add: example_reshare_def)

lemma example_resign_owner:
  "Resign_Owner (ResignMessage_Resign (example_resign owner ops proofOwners)) = owner"
  by (simp add: example_resign_def)

lemma example_operator_ID: "ID (example_operator n) = n"
  by (simp add: example_operator_def)

lemma example_resign_operators:
  "ResignMessage_Operators (example_resign owner ops proofOwners) = map example_operator ops"
  by (simp add: example_resign_def)

lemma example_reshare_old:
  "Reshare_OldOperators (ReshareMessage_Reshare (example_reshare owner old proofOwners)) =
     map example_operator old"
  by (simp add: example_reshare_def)

lemma example_reshare_proofs:
  "ReshareMessage_Proofs (example_reshare owner old proofOwners) = map example_proof proofOwners"
  by (simp add: example_reshare_def)

lemma example_resign_proofs:
  "ResignMessage_Proofs (example_resign owner ops proofOwners) = map example_proof proofOwners"
  by (simp add: example_resign_def)

subsection \<open>Init\<close>

text \<open>
  Claim C4. In the call log of Init, the deposit-data root is computed from an empty
  validator public key, and every call of \<open>SignByte\<close>, \<open>SerializeToHexStr\<close> and
  \<open>GetPublicKey\<close> has the nil share as its receiver: the share and the validator
  public key are declared and never assigned. When the message passes validation the
  root is requested, and when the root is computed it is signed with the nil share. A
  call that returns a result has made all four share calls (the deposit signature, the
  serialisation that is encrypted, the share public key and the owner/nonce signature)
  on the nil share, and its proof has an empty validator public key.
\<close>

theorem Init_share_unassigned:
  fixes env op init requestID sk
  defines "t \<equiv> fst (Operator_Init env op init requestID sk)"
  shows
  "(ValidateInitMessage env init = None \<longrightarrow>
      Call_DepositDataRootForFork (Init_Fork init) [] (Init_WithdrawalCredentials init)
        (Init_Amount init) \<in> set t
      \<and> (\<forall>root. DepositDataRootForFork env (Init_Fork init) []
                   (Init_WithdrawalCredentials init) (Init_Amount init) = Inr root
            \<longrightarrow> Call_SignByte None root \<in> set t))
   \<and> (\<forall>share msg. Call_SignByte share msg \<in> set t \<longrightarrow> share = None)
   \<and> (\<forall>share. Call_SerializeToHexStr share \<in> set t \<longrightarrow> share = None)
   \<and> (\<forall>share. Call_GetPublicKey share \<in> set t \<longrightarrow> share = None)
   \<and> (\<forall>fork validatorPK wc amount.
         Call_DepositDataRootForFork fork validatorPK wc amount \<in> set t \<longrightarrow> validatorPK = [])
   \<and> (\<forall>p. Call_MarshalSSZ p \<in> set t \<longrightarrow> ValidatorPubKey p = [])
   \<and> (\<forall>r. snd (Operator_Init env op init requestID sk) = Return (Some r, None) \<longrightarrow>
         Call_SerializeToHexStr None \<in> set t \<and> Call_GetPublicKey None \<in> set t \<and>
         Call_SignByte None (PartialNonceRoot env (Init_Owner init) (Init_Nonce init)) \<in> set t \<and>
         (\<exists>p. SignedProof_Proof (Result_SignedProof r) = Some p \<and> ValidatorPubKey p = []))"
  unfolding t_def
  by (auto simp: Operator_Init_def emit_def Let_def
           split: option.splits sum.splits res.splits)

text \<open>
  With \<open>example_env\<close> Init panics at the first signature. With share methods that
  accept a nil share it returns a result whose proof has an empty validator public key.
\<close>

theorem Init_share_unassigned_witness:
  "ValidateInitMessage example_env
     \<lparr>Init_WithdrawalCredentials = ''W'', Init_Fork = ''F'', Init_Owner = owner_A,
      Init_Nonce = 0, Init_Amount = 32000000000\<rparr> = None
   \<and> Operator_Init example_env (example_operator 1)
       \<lparr>Init_WithdrawalCredentials = ''W'', Init_Fork = ''F'', Init_Owner = owner_A,
        Init_Nonce = 0, Init_Amount = 32000000000\<rparr> ''R'' example_sk =
       ([Call_ValidateInitMessage
           \<lparr>Init_WithdrawalCredentials = ''W'', Init_Fork = ''F'', Init_Owner = owner_A,
            Init_Nonce = 0, Init_Amount = 32000000000\<rparr>,
         Call_DepositDataRootForFork ''F'' [] ''W'' 32000000000,
         Call_SignByte None ''FW''],
        Panic NilPointerDereference)
   \<and> Call_SignByte None ''FW'' \<in> set (fst (Operator_Init example_env (example_operator 1)
       \<lparr>Init_WithdrawalCredentials = ''W'', Init_Fork = ''F'', Init_Owner = owner_A,
        Init_Nonce = 0, Init_Amount = 32000000000\<rparr> ''R'' example_sk))
   \<and> snd (Operator_Init example_env_nil (example_operator 1)
       \<lparr>Init_WithdrawalCredentials = ''W'', Init_Fork = ''F'', Init_Owner = owner_A,
        Init_Nonce = 0, Init_Amount = 32000000000\<rparr> ''R'' example_sk) =
       Return (Some \<lparr>OperatorID = 1, RequestID = ''R'', DepositPartialSignature = ''S'',
                     OwnerNoncePartialSignature = ''S'',
                     Result_SignedProof =
                       \<lparr>SignedProof_Proof =
                          Some \<lparr>ValidatorPubKey = [], EncryptedShare = ''00'',
                                SharePubKey = ''P'', Owner = owner_A\<rparr>,
                        Signature = owner_A\<rparr>\<rparr>, None)
   \<and> Call_SerializeToHexStr None \<in> set (fst (Operator_Init example_env_nil (example_operator 1)
       \<lparr>Init_WithdrawalCredentials = ''W'', Init_Fork = ''F'', Init_Owner = owner_A,
        Init_Nonce = 0, Init_Amount = 32000000000\<rparr> ''R'' example_sk))
   \<and> Call_GetPublicKey None \<in> set (fst (Operator_Init example_env_nil (example_operator 1)
       \<lparr>Init_WithdrawalCredentials = ''W'', Init_Fork = ''F'', Init_Owner = owner_A,
        Init_Nonce = 0, Init_Amount = 32000000000\<rparr> ''R'' example_sk))
   \<and> Call_SignByte None owner_A \<in> set (fst (Operator_Init example_env_nil (example_operator 1)
       \<lparr>Init_WithdrawalCredentials = ''W'', Init_Fork = ''F'', Init_Owner = owner_A,
        Init_Nonce = 0, Init_Amount = 32000000000\<rparr> ''R'' example_sk))"
proof -
  let ?init = "\<lparr>Init_WithdrawalCredentials = ''W'', Init_Fork = ''F'', Init_Owner = owner_A,
      Init_Nonce = 0, Init_Amount = 32000000000\<rparr>"
  let ?r = "\<lparr>OperatorID = 1, RequestID = ''R'', DepositPartialSignature = ''S'',
                     OwnerNoncePartialSignature = ''S'',
                     Result_SignedProof =
                       \<lparr>SignedProof_Proof =
                          Some \<lparr>ValidatorPubKey = [], EncryptedShare = ''00'',
                                SharePubKey = ''P'', Owner = owner_A\<rparr>,
                        Signature = owner_A\<rparr>\<rparr>"
  have a: "ValidateInitMessage example_env ?init = None"
    by (simp add: example_env_def)
  have d: "DepositDataRootForFork example_env (Init_Fork ?init) []
             (Init_WithdrawalCredentials ?init) (Init_Amount ?init) = Inr ''FW''"
    by (simp add: example_env_def)
  have e: "Operator_Init example_env (example_operator 1) ?init ''R'' example_sk =
       ([Call_ValidateInitMessage ?init,
         Call_DepositDataRootForFork ''F'' [] ''W'' 32000000000,
         Call_SignByte None ''FW''],
        Panic NilPointerDereference)"
    by (simp add: Operator_Init_def emit_def example_env_def)
  from Init_share_unassigned[where env=example_env and op="example_operator 1"
      and init="?init" and requestID="''R''" and sk=example_sk] a d
  have 1: "Call_SignByte None ''FW'' \<in> set (fst (Operator_Init example_env (example_operator 1)
       ?init ''R'' example_sk))"
    by blast
  have n: "PartialNonceRoot example_env_nil (Init_Owner ?init) (Init_Nonce ?init) = owner_A"
    by (simp add: example_env_nil_def example_env_def)
  have s: "snd (Operator_Init example_env_nil (example_operator 1) ?init ''R'' example_sk) =
       Return (Some ?r, None)"
    by (simp add: Operator_Init_def emit_def example_env_nil_def example_env_def
          example_operator_def Let_def)
  from Init_share_unassigned[where env=example_env_nil and op="example_operator 1"
      and init="?init" and requestID="''R''" and sk=example_sk] s
  have "Call_SerializeToHexStr None \<in> set (fst (Operator_Init example_env_nil
          (example_operator 1) ?init ''R'' example_sk))
     \<and> Call_GetPublicKey None \<in> set (fst (Operator_Init example_env_nil
          (example_operator 1) ?init ''R'' example_sk))
     \<and> Call_SignByte None (PartialNonceRoot example_env_nil (Init_Owner ?init)
          (Init_Nonce ?init)) \<in> set (fst (Operator_Init example_env_nil
          (example_operator 1) ?init ''R'' example_sk))"
    by blast
  with n have 2: "Call_SerializeToHexStr None \<in> set (fst (Operator_Init example_env_nil
          (example_operator 1) ?init ''R'' example_sk))
     \<and> Call_GetPublicKey None \<in> set (fst (Operator_Init example_env_nil
          (example_operator 1) ?init ''R'' example_sk))
     \<and> Call_SignByte None owner_A \<in> set (fst (Operator_Init example_env_nil
          (example_operator 1) ?init ''R'' example_sk))"
    by simp
  from a e 1 s 2 show ?thesis by blast
qed

subsection \<open>Batches\<close>

text \<open>
  Claim C8. Reshare and Resign return their empty-batch error for a batch without
  messages, and their call log is empty: neither the bulk hash nor the owner-signature
  check has been called.
\<close>

theorem empty_batch_rejected:
  "(SignedReshare_Messages signedReshare = [] \<longrightarrow>
      Operator_Reshare env op signedReshare sk client =
        ([], Return ([], Some (Errorf ''no reshare messages''))))
   \<and> (SignedResign_Messages signedResign = [] \<longrightarrow>
      Operator_Resign env op signedResign share sk client =
        ([], Return ([], Some (Errorf ''no reshare messages''))))"
  by (simp add: Operator_Reshare_def Operator_Resign_def)

theorem empty_batch_rejected_witness:
  "SignedReshare_Messages \<lparr>SignedReshare_Messages = [], SignedReshare_Signature = ''S''\<rparr> = []
   \<and> Operator_Reshare example_env (example_operator 1)
        \<lparr>SignedReshare_Messages = [], SignedReshare_Signature = ''S''\<rparr> example_sk (ETHClient 0) =
       ([], Return ([], Some (Errorf ''no reshare messages'')))
   \<and> SignedResign_Messages \<lparr>SignedResign_Messages = [], SignedResign_Signature = ''S''\<rparr> = []
   \<and> Operator_Resign example_env (example_operator 1)
        \<lparr>SignedResign_Messages = [], SignedResign_Signature = ''S''\<rparr>
        (Some (bls_SecretKey 7)) example_sk (ETHClient 0) =
       ([], Return ([], Some (Errorf ''no reshare messages'')))"
  using empty_batch_rejected[of "\<lparr>SignedReshare_Messages = [], SignedReshare_Signature = ''S''\<rparr>"
      example_env "example_operator 1" example_sk "ETHClient 0"
      "\<lparr>SignedResign_Messages = [], SignedResign_Signature = ''S''\<rparr>" "Some (bls_SecretKey 7)"]
  by simp

text \<open>
  Claim C2. When the batch is authorized, the messages before \<open>m\<close> each give a result,
  and \<open>m\<close> gives an error, the handler returns that error with no results, and its
  log ends with the calls made for \<open>m\<close>: the messages after \<open>m\<close> are not
  processed, and the results of the messages before it are dropped. Whenever a handler
  returns an error, it returns no results.
\<close>

theorem batch_fail_fast:
  "(SignedReshare_Messages sr = pre @ m # post \<and>
    GetBulkMessageHash env (map ReshareMsg (SignedReshare_Messages sr)) = Inr h \<and>
    VerifySignedMessageByOwner env client
      (Reshare_Owner (ReshareMessage_Reshare (SignedReshare_Messages sr ! 0))) h
      (SignedReshare_Signature sr) = None \<and>
    (\<forall>x\<in>set pre. \<exists>r. snd (Reshare_message env op sk x) = Return (Inr r)) \<and>
    snd (Reshare_message env op sk m) = Return (Inl e)
    \<longrightarrow> Operator_Reshare env op sr sk client =
          (Call_GetBulkMessageHash (map ReshareMsg (SignedReshare_Messages sr))
           # Call_VerifySignedMessageByOwner client
               (Reshare_Owner (ReshareMessage_Reshare (SignedReshare_Messages sr ! 0))) h
               (SignedReshare_Signature sr)
           # concat (map (\<lambda>x. fst (Reshare_message env op sk x)) pre)
             @ fst (Reshare_message env op sk m),
           Return ([], Some e)))
   \<and> (\<forall>rs err. snd (Operator_Reshare env op sr sk client) = Return (rs, Some err) \<longrightarrow> rs = [])
   \<and> (SignedResign_Messages sg = pre' @ m' # post' \<and>
    GetBulkMessageHash env (map ResignMsg (SignedResign_Messages sg)) = Inr h' \<and>
    VerifySignedMessageByOwner env client
      (Resign_Owner (ResignMessage_Resign (SignedResign_Messages sg ! 0))) h'
      (SignedResign_Signature sg) = None \<and>
    (\<forall>x\<in>set pre'. \<exists>r. snd (Resign_message env op share sk x) = Return (Inr r)) \<and>
    snd (Resign_message env op share sk m') = Return (Inl e')
    \<longrightarrow> Operator_Resign env op sg share sk client =
          (Call_GetBulkMessageHash (map ResignMsg (SignedResign_Messages sg))
           # Call_VerifySignedMessageByOwner client
               (Resign_Owner (ResignMessage_Resign (SignedResign_Messages sg ! 0))) h'
               (SignedResign_Signature sg)
           # concat (map (\<lambda>x. fst (Resign_message env op share sk x)) pre')
             @ fst (Resign_message env op share sk m'),
           Return ([], Some e')))
   \<and> (\<forall>rs err. snd (Operator_Resign env op sg share sk client) = Return (rs, Some err)
         \<longrightarrow> rs = [])"
proof (intro conjI impI allI)
  assume a: "SignedReshare_Messages sr = pre @ m # post \<and>
    GetBulkMessageHash env (map ReshareMsg (SignedReshare_Messages sr)) = Inr h \<and>
    VerifySignedMessageByOwner env client
      (Reshare_Owner (ReshareMessage_Reshare (SignedReshare_Messages sr ! 0))) h
      (SignedReshare_Signature sr) = None \<and>
    (\<forall>x\<in>set pre. \<exists>r. snd (Reshare_message env op sk x) = Return (Inr r)) \<and>
    snd (Reshare_message env op sk m) = Return (Inl e)"
  then have ne: "SignedReshare_Messages sr \<noteq> []" by simp
  have s: "snd (Reshare_loop env op sk (SignedReshare_Messages sr) []) = Return ([], Some e)"
    using a snd_Reshare_loop_abort[of pre env op sk m e post "[]"] by simp
  have f: "fst (Reshare_loop env op sk (SignedReshare_Messages sr) []) =
      concat (map (\<lambda>x. fst (Reshare_message env op sk x)) pre)
        @ fst (Reshare_message env op sk m)"
    using a fst_Reshare_loop_stop[of pre env op sk m post "[]"] by simp
  show "Operator_Reshare env op sr sk client =
          (Call_GetBulkMessageHash (map ReshareMsg (SignedReshare_Messages sr))
           # Call_VerifySignedMessageByOwner client
               (Reshare_Owner (ReshareMessage_Reshare (SignedReshare_Messages sr ! 0))) h
               (SignedReshare_Signature sr)
           # concat (map (\<lambda>x. fst (Reshare_message env op sk x)) pre)
             @ fst (Reshare_message env op sk m),
           Return ([], Some e))"
  proof -
    from a have h: "GetBulkMessageHash env (map ReshareMsg (SignedReshare_Messages sr)) = Inr h"
      and v: "VerifySignedMessageByOwner env client
        (Reshare_Owner (ReshareMessage_Reshare (SignedReshare_Messages sr ! 0))) h
        (SignedReshare_Signature sr) = None"
      by blast+
    show ?thesis
      by (simp only: Operator_Reshare_authorized[OF ne h v] s f)
  qed
next
  fix rs err
  assume "snd (Operator_Reshare env op sr sk client) = Return (rs, Some err)"
  then show "rs = []"
    using Reshare_loop_error_no_results[of env op sk "SignedReshare_Messages sr" "[]" rs err]
    by (auto simp: Operator_Reshare_cases split: if_splits sum.splits option.splits)
next
  assume a: "SignedResign_Messages sg = pre' @ m' # post' \<and>
    GetBulkMessageHash env (map ResignMsg (SignedResign_Messages sg)) = Inr h' \<and>
    VerifySignedMessageByOwner env client
      (Resign_Owner (ResignMessage_Resign (SignedResign_Messages sg ! 0))) h'
      (SignedResign_Signature sg) = None \<and>
    (\<forall>x\<in>set pre'. \<exists>r. snd (Resign_message env op share sk x) = Return (Inr r)) \<and>
    snd (Resign_message env op share sk m') = Return (Inl e')"
  then have ne: "SignedResign_Messages sg \<noteq> []" by simp
  have s: "snd (Resign_loop env op share sk (SignedResign_Messages sg) []) = Return ([], Some e')"
    using a snd_Resign_loop_abort[of pre' env op share sk m' e' post' "[]"] by simp
  have f: "fst (Resign_loop env op share sk (SignedResign_Messages sg) []) =
      concat (map (\<lambda>x. fst (Resign_message env op share sk x)) pre')
        @ fst (Resign_message env op share sk m')"
    using a fst_Resign_loop_stop[of pre' env op share sk m' post' "[]"] by simp
  show "Operator_Resign env op sg share sk client =
          (Call_GetBulkMessageHash (map ResignMsg (SignedResign_Messages sg))
           # Call_VerifySignedMessageByOwner client
               (Resign_Owner (ResignMessage_Resign (SignedResign_Messages sg ! 0))) h'
               (SignedResign_Signature sg)
           # concat (map (\<lambda>x. fst (Resign_message env op share sk x)) pre')
             @ fst (Resign_message env op share sk m'),
           Return ([], Some e'))"
  proof -
    from a have h: "GetBulkMessageHash env (map ResignMsg (SignedResign_Messages sg)) = Inr h'"
      and v: "VerifySignedMessageByOwner env client
        (Resign_Owner (ResignMessage_Resign (SignedResign_Messages sg ! 0))) h'
        (SignedResign_Signature sg) = None"
      by blast+
    show ?thesis
      by (simp only: Operator_Resign_authorized[OF ne h v] s f)
  qed
next
  fix rs err
  assume "snd (Operator_Resign env op sg share sk client) = Return (rs, Some err)"
  then show "rs = []"
    using Resign_loop_error_no_results[of env op share sk "SignedResign_Messages sg" "[]" rs err]
    by (auto simp: Operator_Resign_cases split: if_splits sum.splits option.splits)
qed

text \<open>
  Three messages, the second with a proof for another owner at the operator's position:
  the error of the second is returned and no result.
\<close>

theorem batch_fail_fast_witness:
  "snd (Operator_Reshare example_env (example_operator 1)
     \<lparr>SignedReshare_Messages =
        [example_reshare owner_A [2, 3] [owner_A, owner_A],
         example_reshare owner_A [1, 2] [owner_B, owner_A],
         example_reshare owner_A [1, 2] [owner_A, owner_A]],
      SignedReshare_Signature = owner_A @ ''H''\<rparr> example_sk (ETHClient 0)) =
     Return ([], Some (Errorf ''invalid owner address''))
   \<and> snd (Operator_Resign example_env (example_operator 1)
     \<lparr>SignedResign_Messages =
        [example_resign owner_A [1, 2] [owner_A, owner_A],
         example_resign owner_A [1, 2] [owner_B, owner_A],
         example_resign owner_A [1, 2] [owner_A, owner_A]],
      SignedResign_Signature = owner_A @ ''H''\<rparr> (Some (bls_SecretKey 7)) example_sk
      (ETHClient 0)) =
     Return ([], Some (Errorf ''invalid owner address''))"
proof -
  let ?m1 = "example_reshare owner_A [2, 3] [owner_A, owner_A]"
  let ?m2 = "example_reshare owner_A [1, 2] [owner_B, owner_A]"
  let ?m3 = "example_reshare owner_A [1, 2] [owner_A, owner_A]"
  let ?sr = "\<lparr>SignedReshare_Messages = [?m1, ?m2, ?m3],
              SignedReshare_Signature = owner_A @ ''H''\<rparr>"
  let ?n1 = "example_resign owner_A [1, 2] [owner_A, owner_A]"
  let ?n2 = "example_resign owner_A [1, 2] [owner_B, owner_A]"
  let ?sg = "\<lparr>SignedResign_Messages = [?n1, ?n2, ?n1],
              SignedResign_Signature = owner_A @ ''H''\<rparr>"
  let ?share = "Some (bls_SecretKey 7)"
  have m: "SignedReshare_Messages ?sr = [?m1] @ ?m2 # [?m3]" by simp
  have h: "GetBulkMessageHash example_env (map ReshareMsg (SignedReshare_Messages ?sr)) =
             Inr ''H''"
    by (simp add: example_GetBulkMessageHash)
  have v: "VerifySignedMessageByOwner example_env (ETHClient 0)
      (Reshare_Owner (ReshareMessage_Reshare (SignedReshare_Messages ?sr ! 0))) ''H''
      (SignedReshare_Signature ?sr) = None"
    by (simp add: example_VerifySignedMessageByOwner example_reshare_owner)
  have p: "\<forall>x\<in>set [?m1]. \<exists>r. snd (Reshare_message example_env (example_operator 1)
              example_sk x) = Return (Inr r)"
    by (simp add: example_Reshare_message_skip)
  have f: "snd (Reshare_message example_env (example_operator 1) example_sk ?m2) =
             Return (Inl (Errorf ''invalid owner address''))"
    by (simp add: example_Reshare_message_invalid)
  have m': "SignedResign_Messages ?sg = [?n1] @ ?n2 # [?n1]" by simp
  have h': "GetBulkMessageHash example_env (map ResignMsg (SignedResign_Messages ?sg)) =
             Inr ''H''"
    by (simp add: example_GetBulkMessageHash)
  have v': "VerifySignedMessageByOwner example_env (ETHClient 0)
      (Resign_Owner (ResignMessage_Resign (SignedResign_Messages ?sg ! 0))) ''H''
      (SignedResign_Signature ?sg) = None"
    by (simp add: example_VerifySignedMessageByOwner example_resign_owner)
  have p': "\<forall>x\<in>set [?n1]. \<exists>r. snd (Resign_message example_env (example_operator 1)
              ?share example_sk x) = Return (Inr r)"
    by (simp add: example_Resign_message_valid)
  have f': "snd (Resign_message example_env (example_operator 1) ?share example_sk ?n2) =
             Return (Inl (Errorf ''invalid owner address''))"
    by (simp add: example_Resign_message_invalid)
  note th = batch_fail_fast[of ?sr "[?m1]" ?m2 "[?m3]" example_env "''H''" "ETHClient 0"
      "example_operator 1" example_sk "Errorf ''invalid owner address''"
      ?sg "[?n1]" ?n2 "[?n1]" "''H''" ?share "Errorf ''invalid owner address''"]
  from th m h v p f
  have "Operator_Reshare example_env (example_operator 1) ?sr example_sk (ETHClient 0) =
          (Call_GetBulkMessageHash (map ReshareMsg (SignedReshare_Messages ?sr))
           # Call_VerifySignedMessageByOwner (ETHClient 0)
               (Reshare_Owner (ReshareMessage_Reshare (SignedReshare_Messages ?sr ! 0))) ''H''
               (SignedReshare_Signature ?sr)
           # concat (map (\<lambda>x. fst (Reshare_message example_env (example_operator 1)
                                      example_sk x)) [?m1])
             @ fst (Reshare_message example_env (example_operator 1) example_sk ?m2),
           Return ([], Some (Errorf ''invalid owner address'')))"
    by blast
  then have 1: "snd (Operator_Reshare example_env (example_operator 1) ?sr example_sk
                  (ETHClient 0)) = Return ([], Some (Errorf ''invalid owner address''))"
    by (simp only: snd_conv)
  from th m' h' v' p' f'
  have "Operator_Resign example_env (example_operator 1) ?sg ?share example_sk (ETHClient 0) =
          (Call_GetBulkMessageHash (map ResignMsg (SignedResign_Messages ?sg))
           # Call_VerifySignedMessageByOwner (ETHClient 0)
               (Resign_Owner (ResignMessage_Resign (SignedResign_Messages ?sg ! 0))) ''H''
               (SignedResign_Signature ?sg)
           # concat (map (\<lambda>x. fst (Resign_message example_env (example_operator 1)
                                      ?share example_sk x)) [?n1])
             @ fst (Resign_message example_env (example_operator 1) ?share example_sk ?n2),
           Return ([], Some (Errorf ''invalid owner address'')))"
    by blast
  then have 2: "snd (Operator_Resign example_env (example_operator 1) ?sg ?share example_sk
                  (ETHClient 0)) = Return ([], Some (Errorf ''invalid owner address''))"
    by (simp only: snd_conv)
  from 1 2 show ?thesis by blast
qed

text \<open>
  Claim C3, as amended. A batch that Reshare or Resign accepts is not empty, its bulk
  hash was computed, and the owner-signature check accepted the batch signature for the
  owner of the first message over that hash; this is the only owner-signature check
  in the call log. The owners of the other messages do not enter it.
\<close>

theorem batch_authorized_by_first_owner:
  "(Operator_Reshare env op sr sk client = (t, Return (rs, None)) \<longrightarrow>
      SignedReshare_Messages sr \<noteq> [] \<and>
      (\<exists>h. GetBulkMessageHash env (map ReshareMsg (SignedReshare_Messages sr)) = Inr h \<and>
           VerifySignedMessageByOwner env client
             (Reshare_Owner (ReshareMessage_Reshare (SignedReshare_Messages sr ! 0))) h
             (SignedReshare_Signature sr) = None \<and>
           filter is_owner_check t =
             [Call_VerifySignedMessageByOwner client
                (Reshare_Owner (ReshareMessage_Reshare (SignedReshare_Messages sr ! 0))) h
                (SignedReshare_Signature sr)]))
   \<and> (Operator_Resign env op sg share sk client = (t', Return (rs', None)) \<longrightarrow>
      SignedResign_Messages sg \<noteq> [] \<and>
      (\<exists>h. GetBulkMessageHash env (map ResignMsg (SignedResign_Messages sg)) = Inr h \<and>
           VerifySignedMessageByOwner env client
             (Resign_Owner (ResignMessage_Resign (SignedResign_Messages sg ! 0))) h
             (SignedResign_Signature sg) = None \<and>
           filter is_owner_check t' =
             [Call_VerifySignedMessageByOwner client
                (Resign_Owner (ResignMessage_Resign (SignedResign_Messages sg ! 0))) h
                (SignedResign_Signature sg)]))"
proof (rule conjI; rule impI)
  assume a: "Operator_Reshare env op sr sk client = (t, Return (rs, None))"
  have n: "filter is_owner_check (fst (Reshare_loop env op sk (SignedReshare_Messages sr) [])) = []"
    using Reshare_loop_no_owner_check[of _ env op sk "SignedReshare_Messages sr" "[]"]
    by (simp add: filter_empty_conv)
  show "SignedReshare_Messages sr \<noteq> [] \<and>
      (\<exists>h. GetBulkMessageHash env (map ReshareMsg (SignedReshare_Messages sr)) = Inr h \<and>
           VerifySignedMessageByOwner env client
             (Reshare_Owner (ReshareMessage_Reshare (SignedReshare_Messages sr ! 0))) h
             (SignedReshare_Signature sr) = None \<and>
           filter is_owner_check t =
             [Call_VerifySignedMessageByOwner client
                (Reshare_Owner (ReshareMessage_Reshare (SignedReshare_Messages sr ! 0))) h
                (SignedReshare_Signature sr)])"
    using a n
    by (auto simp: Operator_Reshare_cases is_owner_check_def
             split: if_splits sum.splits option.splits)
next
  assume a: "Operator_Resign env op sg share sk client = (t', Return (rs', None))"
  have n: "filter is_owner_check
             (fst (Resign_loop env op share sk (SignedResign_Messages sg) [])) = []"
    using Resign_loop_no_owner_check[of _ env op share sk "SignedResign_Messages sg" "[]"]
    by (simp add: filter_empty_conv)
  show "SignedResign_Messages sg \<noteq> [] \<and>
      (\<exists>h. GetBulkMessageHash env (map ResignMsg (SignedResign_Messages sg)) = Inr h \<and>
           VerifySignedMessageByOwner env client
             (Resign_Owner (ResignMessage_Resign (SignedResign_Messages sg ! 0))) h
             (SignedResign_Signature sg) = None \<and>
           filter is_owner_check t' =
             [Call_VerifySignedMessageByOwner client
                (Resign_Owner (ResignMessage_Resign (SignedResign_Messages sg ! 0))) h
                (SignedResign_Signature sg)])"
    using a n
    by (auto simp: Operator_Resign_cases is_owner_check_def
             split: if_splits sum.splits option.splits)
qed

text \<open>A batch of one message, accepted by each handler.\<close>

theorem batch_authorized_by_first_owner_witness:
  "snd (Operator_Reshare example_env (example_operator 1)
     \<lparr>SignedReshare_Messages = [example_reshare owner_A [2, 3] [owner_A, owner_A]],
      SignedReshare_Signature = owner_A @ ''H''\<rparr> example_sk (ETHClient 0)) =
     Return ([example_result 1 owner_A], None)
   \<and> filter is_owner_check (fst (Operator_Reshare example_env (example_operator 1)
     \<lparr>SignedReshare_Messages = [example_reshare owner_A [2, 3] [owner_A, owner_A]],
      SignedReshare_Signature = owner_A @ ''H''\<rparr> example_sk (ETHClient 0))) =
     [Call_VerifySignedMessageByOwner (ETHClient 0) owner_A ''H'' (owner_A @ ''H'')]
   \<and> snd (Operator_Resign example_env (example_operator 1)
     \<lparr>SignedResign_Messages = [example_resign owner_A [1, 2] [owner_A, owner_A]],
      SignedResign_Signature = owner_A @ ''H''\<rparr> (Some (bls_SecretKey 7)) example_sk
      (ETHClient 0)) =
     Return ([example_result 1 owner_A], None)
   \<and> filter is_owner_check (fst (Operator_Resign example_env (example_operator 1)
     \<lparr>SignedResign_Messages = [example_resign owner_A [1, 2] [owner_A, owner_A]],
      SignedResign_Signature = owner_A @ ''H''\<rparr> (Some (bls_SecretKey 7)) example_sk
      (ETHClient 0))) =
     [Call_VerifySignedMessageByOwner (ETHClient 0) owner_A ''H'' (owner_A @ ''H'')]"
proof -
  let ?sr = "\<lparr>SignedReshare_Messages = [example_reshare owner_A [2, 3] [owner_A, owner_A]],
      SignedReshare_Signature = owner_A @ ''H''\<rparr>"
  let ?sg = "\<lparr>SignedResign_Messages = [example_resign owner_A [1, 2] [owner_A, owner_A]],
      SignedResign_Signature = owner_A @ ''H''\<rparr>"
  let ?R = "Operator_Reshare example_env (example_operator 1) ?sr example_sk (ETHClient 0)"
  let ?S = "Operator_Resign example_env (example_operator 1) ?sg (Some (bls_SecretKey 7))
              example_sk (ETHClient 0)"
  have r: "snd ?R = Return ([example_result 1 owner_A], None)"
    by (simp add: Operator_Reshare_def emit_def example_GetBulkMessageHash
        example_VerifySignedMessageByOwner example_reshare_owner example_Reshare_message_skip)
  have s: "snd ?S = Return ([example_result 1 owner_A], None)"
    by (simp add: Operator_Resign_def emit_def example_GetBulkMessageHash
        example_VerifySignedMessageByOwner example_resign_owner example_Resign_message_valid)
  have hr: "GetBulkMessageHash example_env (map ReshareMsg (SignedReshare_Messages ?sr)) =
             Inr ''H''"
    by (simp add: example_GetBulkMessageHash)
  have hs: "GetBulkMessageHash example_env (map ResignMsg (SignedResign_Messages ?sg)) =
             Inr ''H''"
    by (simp add: example_GetBulkMessageHash)
  have er: "?R = (fst ?R, Return ([example_result 1 owner_A], None))"
    using r by (metis prod.collapse)
  have es: "?S = (fst ?S, Return ([example_result 1 owner_A], None))"
    using s by (metis prod.collapse)
  note th = batch_authorized_by_first_owner[of example_env "example_operator 1" ?sr example_sk
      "ETHClient 0" "fst ?R" "[example_result 1 owner_A]" ?sg "Some (bls_SecretKey 7)"
      "fst ?S" "[example_result 1 owner_A]"]
  from th er hr have "filter is_owner_check (fst ?R) =
     [Call_VerifySignedMessageByOwner (ETHClient 0)
        (Reshare_Owner (ReshareMessage_Reshare (SignedReshare_Messages ?sr ! 0))) ''H''
        (SignedReshare_Signature ?sr)]"
    by auto
  then have 1: "filter is_owner_check (fst ?R) =
     [Call_VerifySignedMessageByOwner (ETHClient 0) owner_A ''H'' (owner_A @ ''H'')]"
    by (simp add: example_reshare_owner)
  from th es hs have "filter is_owner_check (fst ?S) =
     [Call_VerifySignedMessageByOwner (ETHClient 0)
        (Resign_Owner (ResignMessage_Resign (SignedResign_Messages ?sg ! 0))) ''H''
        (SignedResign_Signature ?sg)]"
    by auto
  then have 2: "filter is_owner_check (fst ?S) =
     [Call_VerifySignedMessageByOwner (ETHClient 0) owner_A ''H'' (owner_A @ ''H'')]"
    by (simp add: example_resign_owner)
  from r s 1 2 show ?thesis by blast
qed

text \<open>
  The owners of the messages of an accepted batch can differ: a batch of two messages
  with different owners, signed for the owner of the first, is accepted.
\<close>

theorem batch_owner_counterexample:
  "snd (Operator_Reshare example_env (example_operator 1)
     \<lparr>SignedReshare_Messages =
        [example_reshare owner_A [2, 3] [owner_A, owner_A],
         example_reshare owner_B [2, 3] [owner_B, owner_B]],
      SignedReshare_Signature = owner_A @ ''H''\<rparr> example_sk (ETHClient 0)) =
     Return ([example_result 1 owner_A, example_result 1 owner_B], None)
   \<and> Reshare_Owner (ReshareMessage_Reshare (example_reshare owner_B [2, 3] [owner_B, owner_B]))
       \<noteq> Reshare_Owner (ReshareMessage_Reshare
             (example_reshare owner_A [2, 3] [owner_A, owner_A]))"
  by (simp add: Operator_Reshare_def emit_def example_GetBulkMessageHash
        example_VerifySignedMessageByOwner example_reshare_owner
        example_Reshare_message_skip owner_A_def owner_B_def)

text \<open>
  Claim C7. Processing a Resign message whose operator sequence does not contain the
  operator's ID gives the operator-not-found error with an empty call log (no proof was
  checked), whatever the proofs are. When the batch is authorized and the messages before
  it each give a result, Resign returns that error with no results, and its log ends with
  the calls made for the messages before it. A batch that holds such a message is never
  accepted.
\<close>

theorem Resign_operator_not_found:
  "(ID op \<notin> ID ` set (ResignMessage_Operators m) \<longrightarrow>
      Resign_message env op share sk m =
        ([], Return (Inl (Errorf ''operator not found in the list''))))
   \<and> (SignedResign_Messages sg = pre @ m # post \<and>
      ID op \<notin> ID ` set (ResignMessage_Operators m) \<and>
      GetBulkMessageHash env (map ResignMsg (SignedResign_Messages sg)) = Inr h \<and>
      VerifySignedMessageByOwner env client
        (Resign_Owner (ResignMessage_Resign (SignedResign_Messages sg ! 0))) h
        (SignedResign_Signature sg) = None \<and>
      (\<forall>x\<in>set pre. \<exists>r. snd (Resign_message env op share sk x) = Return (Inr r))
      \<longrightarrow> Operator_Resign env op sg share sk client =
            (Call_GetBulkMessageHash (map ResignMsg (SignedResign_Messages sg))
             # Call_VerifySignedMessageByOwner client
                 (Resign_Owner (ResignMessage_Resign (SignedResign_Messages sg ! 0))) h
                 (SignedResign_Signature sg)
             # concat (map (\<lambda>x. fst (Resign_message env op share sk x)) pre),
             Return ([], Some (Errorf ''operator not found in the list''))))
   \<and> ((\<exists>x\<in>set (SignedResign_Messages sg). ID op \<notin> ID ` set (ResignMessage_Operators x))
      \<longrightarrow> (\<forall>rs. snd (Operator_Resign env op sg share sk client) \<noteq> Return (rs, None)))"
proof (intro conjI impI allI)
  assume "ID op \<notin> ID ` set (ResignMessage_Operators m)"
  then show "Resign_message env op share sk m =
        ([], Return (Inl (Errorf ''operator not found in the list'')))"
    by (simp add: Resign_message_def FindOperatorPosition_not_found)
next
  assume a: "SignedResign_Messages sg = pre @ m # post \<and>
      ID op \<notin> ID ` set (ResignMessage_Operators m) \<and>
      GetBulkMessageHash env (map ResignMsg (SignedResign_Messages sg)) = Inr h \<and>
      VerifySignedMessageByOwner env client
        (Resign_Owner (ResignMessage_Resign (SignedResign_Messages sg ! 0))) h
        (SignedResign_Signature sg) = None \<and>
      (\<forall>x\<in>set pre. \<exists>r. snd (Resign_message env op share sk x) = Return (Inr r))"
  then have ne: "SignedResign_Messages sg \<noteq> []" by simp
  from a have h: "GetBulkMessageHash env (map ResignMsg (SignedResign_Messages sg)) = Inr h"
    and v: "VerifySignedMessageByOwner env client
        (Resign_Owner (ResignMessage_Resign (SignedResign_Messages sg ! 0))) h
        (SignedResign_Signature sg) = None"
    and p: "\<forall>x\<in>set pre. \<exists>r. snd (Resign_message env op share sk x) = Return (Inr r)"
    and ms: "SignedResign_Messages sg = pre @ m # post"
    by blast+
  from a have m: "Resign_message env op share sk m =
        ([], Return (Inl (Errorf ''operator not found in the list'')))"
    by (simp add: Resign_message_def FindOperatorPosition_not_found)
  have s: "snd (Resign_loop env op share sk (SignedResign_Messages sg) []) =
             Return ([], Some (Errorf ''operator not found in the list''))"
    using snd_Resign_loop_abort[OF p, of m _ post "[]"] m ms by simp
  have f: "fst (Resign_loop env op share sk (SignedResign_Messages sg) []) =
      concat (map (\<lambda>x. fst (Resign_message env op share sk x)) pre)"
    using fst_Resign_loop_stop[OF p, of m post "[]"] m ms by simp
  show "Operator_Resign env op sg share sk client =
            (Call_GetBulkMessageHash (map ResignMsg (SignedResign_Messages sg))
             # Call_VerifySignedMessageByOwner client
                 (Resign_Owner (ResignMessage_Resign (SignedResign_Messages sg ! 0))) h
                 (SignedResign_Signature sg)
             # concat (map (\<lambda>x. fst (Resign_message env op share sk x)) pre),
             Return ([], Some (Errorf ''operator not found in the list'')))"
    by (simp only: Operator_Resign_authorized[OF ne h v] s f)
next
  fix rs
  assume a: "\<exists>x\<in>set (SignedResign_Messages sg). ID op \<notin> ID ` set (ResignMessage_Operators x)"
  then obtain x where x: "x \<in> set (SignedResign_Messages sg)"
    "ID op \<notin> ID ` set (ResignMessage_Operators x)" by blast
  then have m: "snd (Resign_message env op share sk x) =
        Return (Inl (Errorf ''operator not found in the list''))"
    by (simp add: Resign_message_def FindOperatorPosition_not_found)
  show "snd (Operator_Resign env op sg share sk client) \<noteq> Return (rs, None)"
  proof
    assume "snd (Operator_Resign env op sg share sk client) = Return (rs, None)"
    then have "snd (Resign_loop env op share sk (SignedResign_Messages sg) []) =
                 Return (rs, None)"
      by (auto simp: Operator_Resign_cases split: if_splits sum.splits option.splits)
    from Resign_loop_success[OF this] x(1) m show False by auto
  qed
qed

text \<open>
  A second message without the operator, with proofs for another owner: the error is
  operator-not-found.
\<close>

theorem Resign_operator_not_found_witness:
  "ID (example_operator 1) \<notin>
     ID ` set (ResignMessage_Operators (example_resign owner_A [2, 3] [owner_B, owner_B]))
   \<and> Resign_message example_env (example_operator 1) (Some (bls_SecretKey 7)) example_sk
       (example_resign owner_A [2, 3] [owner_B, owner_B]) =
       ([], Return (Inl (Errorf ''operator not found in the list'')))
   \<and> snd (Operator_Resign example_env (example_operator 1)
     \<lparr>SignedResign_Messages =
        [example_resign owner_A [1, 2] [owner_A, owner_A],
         example_resign owner_A [2, 3] [owner_B, owner_B]],
      SignedResign_Signature = owner_A @ ''H''\<rparr> (Some (bls_SecretKey 7)) example_sk
      (ETHClient 0)) =
     Return ([], Some (Errorf ''operator not found in the list''))"
proof -
  let ?n1 = "example_resign owner_A [1, 2] [owner_A, owner_A]"
  let ?n2 = "example_resign owner_A [2, 3] [owner_B, owner_B]"
  let ?sg = "\<lparr>SignedResign_Messages = [?n1, ?n2],
              SignedResign_Signature = owner_A @ ''H''\<rparr>"
  let ?share = "Some (bls_SecretKey 7)"
  have a: "ID (example_operator 1) \<notin> ID ` set (ResignMessage_Operators ?n2)"
    by (simp add: example_resign_operators example_operator_ID)
  have m: "SignedResign_Messages ?sg = [?n1] @ ?n2 # []" by simp
  have h: "GetBulkMessageHash example_env (map ResignMsg (SignedResign_Messages ?sg)) =
             Inr ''H''"
    by (simp add: example_GetBulkMessageHash)
  have v: "VerifySignedMessageByOwner example_env (ETHClient 0)
      (Resign_Owner (ResignMessage_Resign (SignedResign_Messages ?sg ! 0))) ''H''
      (SignedResign_Signature ?sg) = None"
    by (simp add: example_VerifySignedMessageByOwner example_resign_owner)
  have p: "\<forall>x\<in>set [?n1]. \<exists>r. snd (Resign_message example_env (example_operator 1)
              ?share example_sk x) = Return (Inr r)"
    by (simp add: example_Resign_message_valid)
  note th = Resign_operator_not_found[of "example_operator 1" ?n2 example_env ?share
      example_sk ?sg "[?n1]" "[]" "''H''" "ETHClient 0"]
  from th a have 1: "Resign_message example_env (example_operator 1) ?share example_sk ?n2 =
       ([], Return (Inl (Errorf ''operator not found in the list'')))"
    by blast
  from th a m h v p
  have "Operator_Resign example_env (example_operator 1) ?sg ?share example_sk (ETHClient 0) =
          (Call_GetBulkMessageHash (map ResignMsg (SignedResign_Messages ?sg))
           # Call_VerifySignedMessageByOwner (ETHClient 0)
               (Resign_Owner (ResignMessage_Resign (SignedResign_Messages ?sg ! 0))) ''H''
               (SignedResign_Signature ?sg)
           # concat (map (\<lambda>x. fst (Resign_message example_env (example_operator 1)
                                      ?share example_sk x)) [?n1]),
           Return ([], Some (Errorf ''operator not found in the list'')))"
    by blast
  then have 2: "snd (Operator_Resign example_env (example_operator 1) ?sg ?share example_sk
                  (ETHClient 0)) = Return ([], Some (Errorf ''operator not found in the list''))"
    by (simp only: snd_conv)
  from a 1 2 show ?thesis by blast
qed

text \<open>
  Claim C9, as amended. In one pass of the loop, \<open>ValidateReshareMessage\<close> is called
  exactly when the operator's ID is in the old-operator sequence at a position that the
  proofs reach; with at least as many proofs as old operators, exactly when the ID is in
  the sequence. The call is the first one of the pass, on the proof at the operator's
  position, and its error ends the pass. When the ID is not in the sequence, the first
  call is the request-ID derivation and the outcome is that of the request-ID derivation
  and of the result building. In the handler: when the batch is authorized and the
  messages before \<open>m\<close> each give a result, the log of Reshare continues, after the
  calls for those messages, with the validation call for \<open>m\<close> when the ID is in its
  sequence at a position the proofs reach, and with the request-ID derivation and the
  result building when the ID is not in its sequence. For a batch that Reshare accepts,
  the validation calls in its log are, in order, those for the messages whose
  old-operator sequence holds the ID, each on the proof at the operator's position.
\<close>

theorem Reshare_validation_iff_old_operator:
  fixes env op sk client m sr pre post h
  defines "old \<equiv> Reshare_OldOperators (ReshareMessage_Reshare m)"
    and "proofs \<equiv> ReshareMessage_Proofs m"
    and "position \<equiv> FindOperatorPosition (Reshare_OldOperators (ReshareMessage_Reshare m)) (ID op)"
    and "t \<equiv> fst (Reshare_message env op sk m)"
  shows
  "((\<exists>r operator p. Call_ValidateReshareMessage r operator p \<in> set t) \<longleftrightarrow>
      ID op \<in> ID ` set old \<and> position < int (length proofs))
   \<and> (length old \<le> length proofs \<longrightarrow>
        ((\<exists>r operator p. Call_ValidateReshareMessage r operator p \<in> set t) \<longleftrightarrow>
           ID op \<in> ID ` set old))
   \<and> (ID op \<in> ID ` set old \<and> position < int (length proofs) \<longrightarrow>
        ID (old ! nat position) = ID op \<and>
        (\<exists>t'. t = Call_ValidateReshareMessage (ReshareMessage_Reshare m) op
                    (proofs ! nat position) # t') \<and>
        (\<forall>err. ValidateReshareMessage env (ReshareMessage_Reshare m) op (proofs ! nat position) =
                 Return (Some err) \<longrightarrow>
               Reshare_message env op sk m =
                 ([Call_ValidateReshareMessage (ReshareMessage_Reshare m) op
                     (proofs ! nat position)], Return (Inl err))))
   \<and> (ID op \<notin> ID ` set old \<longrightarrow>
        (\<forall>err. GetReqIDFromMsg env (ReshareMsg m) = Inl err \<longrightarrow>
               Reshare_message env op sk m =
                 ([Call_GetReqIDFromMsg (ReshareMsg m)], Return (Inl err))) \<and>
        (\<forall>reqID. GetReqIDFromMsg env (ReshareMsg m) = Inr reqID \<longrightarrow>
               Reshare_message env op sk m =
                 ([Call_GetReqIDFromMsg (ReshareMsg m),
                   Call_BuildResult (ID op) reqID None sk
                     (Reshare_ValidatorPubKey (ReshareMessage_Reshare m))
                     (Reshare_Owner (ReshareMessage_Reshare m))
                     (Reshare_WithdrawalCredentials (ReshareMessage_Reshare m))
                     (Reshare_Fork (ReshareMessage_Reshare m))
                     (Reshare_Nonce (ReshareMessage_Reshare m))
                     (Reshare_Amount (ReshareMessage_Reshare m))],
                  Return (BuildResult env (ID op) reqID None sk
                     (Reshare_ValidatorPubKey (ReshareMessage_Reshare m))
                     (Reshare_Owner (ReshareMessage_Reshare m))
                     (Reshare_WithdrawalCredentials (ReshareMessage_Reshare m))
                     (Reshare_Fork (ReshareMessage_Reshare m))
                     (Reshare_Nonce (ReshareMessage_Reshare m))
                     (Reshare_Amount (ReshareMessage_Reshare m))))))
   \<and> (SignedReshare_Messages sr = pre @ m # post \<and>
      GetBulkMessageHash env (map ReshareMsg (SignedReshare_Messages sr)) = Inr h \<and>
      VerifySignedMessageByOwner env client
        (Reshare_Owner (ReshareMessage_Reshare (SignedReshare_Messages sr ! 0))) h
        (SignedReshare_Signature sr) = None \<and>
      (\<forall>x\<in>set pre. \<exists>r. snd (Reshare_message env op sk x) = Return (Inr r)) \<and>
      ID op \<in> ID ` set old \<and> position < int (length proofs)
      \<longrightarrow> (\<exists>t'. fst (Operator_Reshare env op sr sk client) =
              Call_GetBulkMessageHash (map ReshareMsg (SignedReshare_Messages sr))
              # Call_VerifySignedMessageByOwner client
                  (Reshare_Owner (ReshareMessage_Reshare (SignedReshare_Messages sr ! 0))) h
                  (SignedReshare_Signature sr)
              # concat (map (\<lambda>x. fst (Reshare_message env op sk x)) pre)
                @ Call_ValidateReshareMessage (ReshareMessage_Reshare m) op
                    (proofs ! nat position) # t'))
   \<and> (SignedReshare_Messages sr = pre @ m # post \<and>
      GetBulkMessageHash env (map ReshareMsg (SignedReshare_Messages sr)) = Inr h \<and>
      VerifySignedMessageByOwner env client
        (Reshare_Owner (ReshareMessage_Reshare (SignedReshare_Messages sr ! 0))) h
        (SignedReshare_Signature sr) = None \<and>
      (\<forall>x\<in>set pre. \<exists>r. snd (Reshare_message env op sk x) = Return (Inr r)) \<and>
      ID op \<notin> ID ` set old
      \<longrightarrow> (\<exists>t'. fst (Operator_Reshare env op sr sk client) =
              Call_GetBulkMessageHash (map ReshareMsg (SignedReshare_Messages sr))
              # Call_VerifySignedMessageByOwner client
                  (Reshare_Owner (ReshareMessage_Reshare (SignedReshare_Messages sr ! 0))) h
                  (SignedReshare_Signature sr)
              # concat (map (\<lambda>x. fst (Reshare_message env op sk x)) pre)
                @ Call_GetReqIDFromMsg (ReshareMsg m) # t') \<and>
          (\<forall>reqID. GetReqIDFromMsg env (ReshareMsg m) = Inr reqID \<longrightarrow>
             (\<exists>t'. fst (Operator_Reshare env op sr sk client) =
              Call_GetBulkMessageHash (map ReshareMsg (SignedReshare_Messages sr))
              # Call_VerifySignedMessageByOwner client
                  (Reshare_Owner (ReshareMessage_Reshare (SignedReshare_Messages sr ! 0))) h
                  (SignedReshare_Signature sr)
              # concat (map (\<lambda>x. fst (Reshare_message env op sk x)) pre)
                @ Call_GetReqIDFromMsg (ReshareMsg m)
                # Call_BuildResult (ID op) reqID None sk
                     (Reshare_ValidatorPubKey (ReshareMessage_Reshare m))
                     (Reshare_Owner (ReshareMessage_Reshare m))
                     (Reshare_WithdrawalCredentials (ReshareMessage_Reshare m))
                     (Reshare_Fork (ReshareMessage_Reshare m))
                     (Reshare_Nonce (ReshareMessage_Reshare m))
                     (Reshare_Amount (ReshareMessage_Reshare m))
                # t')))
   \<and> (\<forall>t rs. Operator_Reshare env op sr sk client = (t, Return (rs, None)) \<longrightarrow>
        filter is_reshare_validation t =
          map (\<lambda>x. Call_ValidateReshareMessage (ReshareMessage_Reshare x) op
                     (ReshareMessage_Proofs x !
                        nat (FindOperatorPosition
                               (Reshare_OldOperators (ReshareMessage_Reshare x)) (ID op))))
            (filter (\<lambda>x. ID op \<in> ID ` set (Reshare_OldOperators (ReshareMessage_Reshare x)))
               (SignedReshare_Messages sr)))"
proof -
  have r: "position = - 1 \<or> (0 \<le> position \<and> position < int (length old))"
    unfolding position_def old_def by (rule FindOperatorPosition_range)
  have nf: "position = - 1 \<longleftrightarrow> ID op \<notin> ID ` set old"
    unfolding position_def old_def by (rule FindOperatorPosition_not_found)
  have fd: "ID op \<in> ID ` set old \<Longrightarrow> ID (old ! nat position) = ID op"
    unfolding position_def old_def using FindOperatorPosition_found by blast
  have 1: "(\<exists>r operator p. Call_ValidateReshareMessage r operator p \<in> set t) \<longleftrightarrow>
      ID op \<in> ID ` set old \<and> position < int (length proofs)"
    using r nf unfolding t_def position_def old_def proofs_def
    by (auto simp: Reshare_message_def Let_def emit_def
             split: res.splits option.splits sum.splits)
  have 2: "length old \<le> length proofs \<longrightarrow>
        ((\<exists>r operator p. Call_ValidateReshareMessage r operator p \<in> set t) \<longleftrightarrow>
           ID op \<in> ID ` set old)"
    using 1 r nf by auto
  have 3: "ID op \<in> ID ` set old \<and> position < int (length proofs) \<longrightarrow>
        ID (old ! nat position) = ID op \<and>
        (\<exists>t'. t = Call_ValidateReshareMessage (ReshareMessage_Reshare m) op
                    (proofs ! nat position) # t') \<and>
        (\<forall>err. ValidateReshareMessage env (ReshareMessage_Reshare m) op (proofs ! nat position) =
                 Return (Some err) \<longrightarrow>
               Reshare_message env op sk m =
                 ([Call_ValidateReshareMessage (ReshareMessage_Reshare m) op
                     (proofs ! nat position)], Return (Inl err)))"
    using r nf fd unfolding t_def position_def old_def proofs_def
    by (auto simp: Reshare_message_def Let_def emit_def
             split: res.splits option.splits sum.splits)
  have 4: "ID op \<notin> ID ` set old \<longrightarrow>
        (\<forall>err. GetReqIDFromMsg env (ReshareMsg m) = Inl err \<longrightarrow>
               Reshare_message env op sk m =
                 ([Call_GetReqIDFromMsg (ReshareMsg m)], Return (Inl err))) \<and>
        (\<forall>reqID. GetReqIDFromMsg env (ReshareMsg m) = Inr reqID \<longrightarrow>
               Reshare_message env op sk m =
                 ([Call_GetReqIDFromMsg (ReshareMsg m),
                   Call_BuildResult (ID op) reqID None sk
                     (Reshare_ValidatorPubKey (ReshareMessage_Reshare m))
                     (Reshare_Owner (ReshareMessage_Reshare m))
                     (Reshare_WithdrawalCredentials (ReshareMessage_Reshare m))
                     (Reshare_Fork (ReshareMessage_Reshare m))
                     (Reshare_Nonce (ReshareMessage_Reshare m))
                     (Reshare_Amount (ReshareMessage_Reshare m))],
                  Return (BuildResult env (ID op) reqID None sk
                     (Reshare_ValidatorPubKey (ReshareMessage_Reshare m))
                     (Reshare_Owner (ReshareMessage_Reshare m))
                     (Reshare_WithdrawalCredentials (ReshareMessage_Reshare m))
                     (Reshare_Fork (ReshareMessage_Reshare m))
                     (Reshare_Nonce (ReshareMessage_Reshare m))
                     (Reshare_Amount (ReshareMessage_Reshare m)))))"
    using nf unfolding position_def old_def
    by (simp add: Reshare_message_def Let_def emit_def)
  have 5: "SignedReshare_Messages sr = pre @ m # post \<and>
      GetBulkMessageHash env (map ReshareMsg (SignedReshare_Messages sr)) = Inr h \<and>
      VerifySignedMessageByOwner env client
        (Reshare_Owner (ReshareMessage_Reshare (SignedReshare_Messages sr ! 0))) h
        (SignedReshare_Signature sr) = None \<and>
      (\<forall>x\<in>set pre. \<exists>r. snd (Reshare_message env op sk x) = Return (Inr r)) \<and>
      ID op \<in> ID ` set old \<and> position < int (length proofs)
      \<longrightarrow> (\<exists>t'. fst (Operator_Reshare env op sr sk client) =
              Call_GetBulkMessageHash (map ReshareMsg (SignedReshare_Messages sr))
              # Call_VerifySignedMessageByOwner client
                  (Reshare_Owner (ReshareMessage_Reshare (SignedReshare_Messages sr ! 0))) h
                  (SignedReshare_Signature sr)
              # concat (map (\<lambda>x. fst (Reshare_message env op sk x)) pre)
                @ Call_ValidateReshareMessage (ReshareMessage_Reshare m) op
                    (proofs ! nat position) # t')"
  proof
    assume a: "SignedReshare_Messages sr = pre @ m # post \<and>
      GetBulkMessageHash env (map ReshareMsg (SignedReshare_Messages sr)) = Inr h \<and>
      VerifySignedMessageByOwner env client
        (Reshare_Owner (ReshareMessage_Reshare (SignedReshare_Messages sr ! 0))) h
        (SignedReshare_Signature sr) = None \<and>
      (\<forall>x\<in>set pre. \<exists>r. snd (Reshare_message env op sk x) = Return (Inr r)) \<and>
      ID op \<in> ID ` set old \<and> position < int (length proofs)"
    then have ne: "SignedReshare_Messages sr \<noteq> []" by simp
    from a have hh: "GetBulkMessageHash env (map ReshareMsg (SignedReshare_Messages sr)) = Inr h"
      and v: "VerifySignedMessageByOwner env client
        (Reshare_Owner (ReshareMessage_Reshare (SignedReshare_Messages sr ! 0))) h
        (SignedReshare_Signature sr) = None"
      and p: "\<forall>x\<in>set pre. \<exists>r. snd (Reshare_message env op sk x) = Return (Inr r)"
      and ms: "SignedReshare_Messages sr = pre @ m # post"
      by blast+
    from a 3 obtain t1 where t1: "t = Call_ValidateReshareMessage (ReshareMessage_Reshare m) op
                    (proofs ! nat position) # t1"
      by blast
    from fst_Reshare_loop_reach[OF p, of m post "[]"] obtain t2 where
      "fst (Reshare_loop env op sk (pre @ m # post) []) =
         concat (map (\<lambda>x. fst (Reshare_message env op sk x)) pre)
           @ fst (Reshare_message env op sk m) @ t2"
      by blast
    with t1 ms show "\<exists>t'. fst (Operator_Reshare env op sr sk client) =
              Call_GetBulkMessageHash (map ReshareMsg (SignedReshare_Messages sr))
              # Call_VerifySignedMessageByOwner client
                  (Reshare_Owner (ReshareMessage_Reshare (SignedReshare_Messages sr ! 0))) h
                  (SignedReshare_Signature sr)
              # concat (map (\<lambda>x. fst (Reshare_message env op sk x)) pre)
                @ Call_ValidateReshareMessage (ReshareMessage_Reshare m) op
                    (proofs ! nat position) # t'"
      by (simp add: Operator_Reshare_authorized[OF ne hh v] t_def)
  qed
  have 6: "SignedReshare_Messages sr = pre @ m # post \<and>
      GetBulkMessageHash env (map ReshareMsg (SignedReshare_Messages sr)) = Inr h \<and>
      VerifySignedMessageByOwner env client
        (Reshare_Owner (ReshareMessage_Reshare (SignedReshare_Messages sr ! 0))) h
        (SignedReshare_Signature sr) = None \<and>
      (\<forall>x\<in>set pre. \<exists>r. snd (Reshare_message env op sk x) = Return (Inr r)) \<and>
      ID op \<notin> ID ` set old
      \<longrightarrow> (\<exists>t'. fst (Operator_Reshare env op sr sk client) =
              Call_GetBulkMessageHash (map ReshareMsg (SignedReshare_Messages sr))
              # Call_VerifySignedMessageByOwner client
                  (Reshare_Owner (ReshareMessage_Reshare (SignedReshare_Messages sr ! 0))) h
                  (SignedReshare_Signature sr)
              # concat (map (\<lambda>x. fst (Reshare_message env op sk x)) pre)
                @ Call_GetReqIDFromMsg (ReshareMsg m) # t') \<and>
          (\<forall>reqID. GetReqIDFromMsg env (ReshareMsg m) = Inr reqID \<longrightarrow>
             (\<exists>t'. fst (Operator_Reshare env op sr sk client) =
              Call_GetBulkMessageHash (map ReshareMsg (SignedReshare_Messages sr))
              # Call_VerifySignedMessageByOwner client
                  (Reshare_Owner (ReshareMessage_Reshare (SignedReshare_Messages sr ! 0))) h
                  (SignedReshare_Signature sr)
              # concat (map (\<lambda>x. fst (Reshare_message env op sk x)) pre)
                @ Call_GetReqIDFromMsg (ReshareMsg m)
                # Call_BuildResult (ID op) reqID None sk
                     (Reshare_ValidatorPubKey (ReshareMessage_Reshare m))
                     (Reshare_Owner (ReshareMessage_Reshare m))
                     (Reshare_WithdrawalCredentials (ReshareMessage_Reshare m))
                     (Reshare_Fork (ReshareMessage_Reshare m))
                     (Reshare_Nonce (ReshareMessage_Reshare m))
                     (Reshare_Amount (ReshareMessage_Reshare m))
                # t'))"
  proof
    assume a: "SignedReshare_Messages sr = pre @ m # post \<and>
      GetBulkMessageHash env (map ReshareMsg (SignedReshare_Messages sr)) = Inr h \<and>
      VerifySignedMessageByOwner env client
        (Reshare_Owner (ReshareMessage_Reshare (SignedReshare_Messages sr ! 0))) h
        (SignedReshare_Signature sr) = None \<and>
      (\<forall>x\<in>set pre. \<exists>r. snd (Reshare_message env op sk x) = Return (Inr r)) \<and>
      ID op \<notin> ID ` set old"
    then have ne: "SignedReshare_Messages sr \<noteq> []" by simp
    from a have hh: "GetBulkMessageHash env (map ReshareMsg (SignedReshare_Messages sr)) = Inr h"
      and v: "VerifySignedMessageByOwner env client
        (Reshare_Owner (ReshareMessage_Reshare (SignedReshare_Messages sr ! 0))) h
        (SignedReshare_Signature sr) = None"
      and p: "\<forall>x\<in>set pre. \<exists>r. snd (Reshare_message env op sk x) = Return (Inr r)"
      and ms: "SignedReshare_Messages sr = pre @ m # post"
      and no: "ID op \<notin> ID ` set old"
      by blast+
    from fst_Reshare_loop_reach[OF p, of m post "[]"] obtain t2 where
      t2: "fst (Reshare_loop env op sk (pre @ m # post) []) =
         concat (map (\<lambda>x. fst (Reshare_message env op sk x)) pre)
           @ fst (Reshare_message env op sk m) @ t2"
      by blast
    have f: "\<exists>t'. fst (Reshare_message env op sk m) = Call_GetReqIDFromMsg (ReshareMsg m) # t'"
      using no 4 by (cases "GetReqIDFromMsg env (ReshareMsg m)") auto
    have g: "\<forall>reqID. GetReqIDFromMsg env (ReshareMsg m) = Inr reqID \<longrightarrow>
        fst (Reshare_message env op sk m) =
          [Call_GetReqIDFromMsg (ReshareMsg m),
           Call_BuildResult (ID op) reqID None sk
                     (Reshare_ValidatorPubKey (ReshareMessage_Reshare m))
                     (Reshare_Owner (ReshareMessage_Reshare m))
                     (Reshare_WithdrawalCredentials (ReshareMessage_Reshare m))
                     (Reshare_Fork (ReshareMessage_Reshare m))
                     (Reshare_Nonce (ReshareMessage_Reshare m))
                     (Reshare_Amount (ReshareMessage_Reshare m))]"
      using no 4 by auto
    show "(\<exists>t'. fst (Operator_Reshare env op sr sk client) =
              Call_GetBulkMessageHash (map ReshareMsg (SignedReshare_Messages sr))
              # Call_VerifySignedMessageByOwner client
                  (Reshare_Owner (ReshareMessage_Reshare (SignedReshare_Messages sr ! 0))) h
                  (SignedReshare_Signature sr)
              # concat (map (\<lambda>x. fst (Reshare_message env op sk x)) pre)
                @ Call_GetReqIDFromMsg (ReshareMsg m) # t') \<and>
          (\<forall>reqID. GetReqIDFromMsg env (ReshareMsg m) = Inr reqID \<longrightarrow>
             (\<exists>t'. fst (Operator_Reshare env op sr sk client) =
              Call_GetBulkMessageHash (map ReshareMsg (SignedReshare_Messages sr))
              # Call_VerifySignedMessageByOwner client
                  (Reshare_Owner (ReshareMessage_Reshare (SignedReshare_Messages sr ! 0))) h
                  (SignedReshare_Signature sr)
              # concat (map (\<lambda>x. fst (Reshare_message env op sk x)) pre)
                @ Call_GetReqIDFromMsg (ReshareMsg m)
                # Call_BuildResult (ID op) reqID None sk
                     (Reshare_ValidatorPubKey (ReshareMessage_Reshare m))
                     (Reshare_Owner (ReshareMessage_Reshare m))
                     (Reshare_WithdrawalCredentials (ReshareMessage_Reshare m))
                     (Reshare_Fork (ReshareMessage_Reshare m))
                     (Reshare_Nonce (ReshareMessage_Reshare m))
                     (Reshare_Amount (ReshareMessage_Reshare m))
                # t'))"
      using f g t2 ms by (auto simp: Operator_Reshare_authorized[OF ne hh v])
  qed
  have 7: "\<forall>t rs. Operator_Reshare env op sr sk client = (t, Return (rs, None)) \<longrightarrow>
        filter is_reshare_validation t =
          map (\<lambda>x. Call_ValidateReshareMessage (ReshareMessage_Reshare x) op
                     (ReshareMessage_Proofs x !
                        nat (FindOperatorPosition
                               (Reshare_OldOperators (ReshareMessage_Reshare x)) (ID op))))
            (filter (\<lambda>x. ID op \<in> ID ` set (Reshare_OldOperators (ReshareMessage_Reshare x)))
               (SignedReshare_Messages sr))"
  proof (intro allI impI)
    fix t rs
    assume a: "Operator_Reshare env op sr sk client = (t, Return (rs, None))"
    then have l: "snd (Reshare_loop env op sk (SignedReshare_Messages sr) []) = Return (rs, None)"
      and tt: "filter is_reshare_validation t =
        filter is_reshare_validation (fst (Reshare_loop env op sk (SignedReshare_Messages sr) []))"
      by (auto simp: Operator_Reshare_cases is_reshare_validation_def
               split: if_splits sum.splits option.splits)
    from Reshare_loop_validation_calls[OF l] tt
    show "filter is_reshare_validation t =
          map (\<lambda>x. Call_ValidateReshareMessage (ReshareMessage_Reshare x) op
                     (ReshareMessage_Proofs x !
                        nat (FindOperatorPosition
                               (Reshare_OldOperators (ReshareMessage_Reshare x)) (ID op))))
            (filter (\<lambda>x. ID op \<in> ID ` set (Reshare_OldOperators (ReshareMessage_Reshare x)))
               (SignedReshare_Messages sr))"
      by simp
  qed
  from 1 2 3 4 5 6 7 show ?thesis by blast
qed

text \<open>
  The operator at the second position of the old operators is validated against the
  second proof; an operator that is not among them goes on to the result. A batch of
  these two messages is accepted with one validation call, for the first.
\<close>

theorem Reshare_validation_iff_old_operator_witness:
  "ID (example_operator 1) \<in>
     ID ` set (Reshare_OldOperators (ReshareMessage_Reshare
                (example_reshare owner_A [2, 1] [owner_A, owner_A])))
   \<and> fst (Reshare_message example_env (example_operator 1) example_sk
           (example_reshare owner_A [2, 1] [owner_A, owner_A])) \<noteq> []
   \<and> hd (fst (Reshare_message example_env (example_operator 1) example_sk
           (example_reshare owner_A [2, 1] [owner_A, owner_A]))) =
       Call_ValidateReshareMessage
         (ReshareMessage_Reshare (example_reshare owner_A [2, 1] [owner_A, owner_A]))
         (example_operator 1) (example_proof owner_A)
   \<and> ID (example_operator 1) \<notin>
     ID ` set (Reshare_OldOperators (ReshareMessage_Reshare
                (example_reshare owner_A [2, 3] [owner_B, owner_B])))
   \<and> Reshare_message example_env (example_operator 1) example_sk
       (example_reshare owner_A [2, 3] [owner_B, owner_B]) =
       ([Call_GetReqIDFromMsg (ReshareMsg (example_reshare owner_A [2, 3] [owner_B, owner_B])),
         Call_BuildResult 1 ''R'' None example_sk ''V'' owner_A ''W'' ''F'' 0 32000000000],
        Return (Inr (example_result 1 owner_A)))
   \<and> snd (Operator_Reshare example_env (example_operator 1)
       \<lparr>SignedReshare_Messages =
          [example_reshare owner_A [2, 1] [owner_A, owner_A],
           example_reshare owner_A [2, 3] [owner_B, owner_B]],
        SignedReshare_Signature = owner_A @ ''H''\<rparr> example_sk (ETHClient 0)) =
       Return ([example_result 1 owner_A, example_result 1 owner_A], None)
   \<and> filter is_reshare_validation (fst (Operator_Reshare example_env (example_operator 1)
       \<lparr>SignedReshare_Messages =
          [example_reshare owner_A [2, 1] [owner_A, owner_A],
           example_reshare owner_A [2, 3] [owner_B, owner_B]],
        SignedReshare_Signature = owner_A @ ''H''\<rparr> example_sk (ETHClient 0))) =
       [Call_ValidateReshareMessage
          (ReshareMessage_Reshare (example_reshare owner_A [2, 1] [owner_A, owner_A]))
          (example_operator 1) (example_proof owner_A)]"
proof -
  let ?m1 = "example_reshare owner_A [2, 1] [owner_A, owner_A]"
  let ?m2 = "example_reshare owner_A [2, 3] [owner_B, owner_B]"
  let ?op = "example_operator 1"
  have a: "ID ?op \<in> ID ` set (Reshare_OldOperators (ReshareMessage_Reshare ?m1))"
    by (simp add: example_reshare_old example_operator_ID)
  have pos: "FindOperatorPosition (Reshare_OldOperators (ReshareMessage_Reshare ?m1)) (ID ?op) = 1"
    by (simp add: example_reshare_old example_operator_ID)
  have l: "FindOperatorPosition (Reshare_OldOperators (ReshareMessage_Reshare ?m1)) (ID ?op)
             < int (length (ReshareMessage_Proofs ?m1))"
    by (simp add: pos example_reshare_proofs)
  have b: "ID ?op \<notin> ID ` set (Reshare_OldOperators (ReshareMessage_Reshare ?m2))"
    by (simp add: example_reshare_old example_operator_ID)
  have q: "GetReqIDFromMsg example_env (ReshareMsg ?m2) = Inr ''R''"
    by (simp add: example_env_def)
  note th1 = Reshare_validation_iff_old_operator[where env=example_env and op="?op"
      and sk=example_sk and m="?m1"]
  note th2 = Reshare_validation_iff_old_operator[where env=example_env and op="?op"
      and sk=example_sk and m="?m2"]
  from th1[THEN conjunct2, THEN conjunct2, THEN conjunct1, THEN mp, OF conjI[OF a l],
      THEN conjunct2, THEN conjunct1]
  obtain t' where t': "fst (Reshare_message example_env ?op example_sk ?m1) =
      Call_ValidateReshareMessage (ReshareMessage_Reshare ?m1) ?op
        (ReshareMessage_Proofs ?m1 ! nat (FindOperatorPosition
           (Reshare_OldOperators (ReshareMessage_Reshare ?m1)) (ID ?op))) # t'"
    by blast
  then have 1: "fst (Reshare_message example_env ?op example_sk ?m1) \<noteq> []"
    and 2: "hd (fst (Reshare_message example_env ?op example_sk ?m1)) =
       Call_ValidateReshareMessage (ReshareMessage_Reshare ?m1) ?op (example_proof owner_A)"
    by (simp_all add: pos example_reshare_proofs)
  from th2[THEN conjunct2, THEN conjunct2, THEN conjunct2, THEN conjunct1, THEN mp, OF b,
      THEN conjunct2, rule_format, OF q]
  have "Reshare_message example_env ?op example_sk ?m2 =
          ([Call_GetReqIDFromMsg (ReshareMsg ?m2),
            Call_BuildResult (ID ?op) ''R'' None example_sk
              (Reshare_ValidatorPubKey (ReshareMessage_Reshare ?m2))
              (Reshare_Owner (ReshareMessage_Reshare ?m2))
              (Reshare_WithdrawalCredentials (ReshareMessage_Reshare ?m2))
              (Reshare_Fork (ReshareMessage_Reshare ?m2))
              (Reshare_Nonce (ReshareMessage_Reshare ?m2))
              (Reshare_Amount (ReshareMessage_Reshare ?m2))],
           Return (BuildResult example_env (ID ?op) ''R'' None example_sk
              (Reshare_ValidatorPubKey (ReshareMessage_Reshare ?m2))
              (Reshare_Owner (ReshareMessage_Reshare ?m2))
              (Reshare_WithdrawalCredentials (ReshareMessage_Reshare ?m2))
              (Reshare_Fork (ReshareMessage_Reshare ?m2))
              (Reshare_Nonce (ReshareMessage_Reshare ?m2))
              (Reshare_Amount (ReshareMessage_Reshare ?m2))))"
    .
  then have 3: "Reshare_message example_env ?op example_sk ?m2 =
       ([Call_GetReqIDFromMsg (ReshareMsg ?m2),
         Call_BuildResult 1 ''R'' None example_sk ''V'' owner_A ''W'' ''F'' 0 32000000000],
        Return (Inr (example_result 1 owner_A)))"
    by (simp add: example_reshare_def example_operator_def example_env_def example_result_def
          example_proof_def)
  let ?sr = "\<lparr>SignedReshare_Messages = [?m1, ?m2],
              SignedReshare_Signature = owner_A @ ''H''\<rparr>"
  let ?R = "Operator_Reshare example_env ?op ?sr example_sk (ETHClient 0)"
  have s: "snd ?R = Return ([example_result 1 owner_A, example_result 1 owner_A], None)"
    by (simp add: Operator_Reshare_def emit_def example_GetBulkMessageHash
        example_VerifySignedMessageByOwner example_reshare_owner example_Reshare_message_skip
        example_Reshare_message_valid)
  then have e: "?R = (fst ?R, Return ([example_result 1 owner_A, example_result 1 owner_A], None))"
    using prod.collapse[of ?R] by simp
  have fl: "filter (\<lambda>x. ID ?op \<in> ID ` set (Reshare_OldOperators (ReshareMessage_Reshare x)))
              (SignedReshare_Messages ?sr) = [?m1]"
    using a b by simp
  note th3 = Reshare_validation_iff_old_operator[where env=example_env and op="?op"
      and sk=example_sk and m="?m1" and sr="?sr" and client="ETHClient 0"]
  from th3[THEN conjunct2, THEN conjunct2, THEN conjunct2, THEN conjunct2, THEN conjunct2,
      THEN conjunct2, rule_format, OF e]
  have "filter is_reshare_validation (fst ?R) =
          map (\<lambda>x. Call_ValidateReshareMessage (ReshareMessage_Reshare x) ?op
                     (ReshareMessage_Proofs x !
                        nat (FindOperatorPosition
                               (Reshare_OldOperators (ReshareMessage_Reshare x)) (ID ?op))))
            (filter (\<lambda>x. ID ?op \<in> ID ` set (Reshare_OldOperators (ReshareMessage_Reshare x)))
               (SignedReshare_Messages ?sr))"
    .
  then have 4: "filter is_reshare_validation (fst ?R) =
       [Call_ValidateReshareMessage (ReshareMessage_Reshare ?m1) ?op (example_proof owner_A)]"
    by (simp only: fl list.map pos example_reshare_proofs) simp
  from a 1 2 b 3 s 4 show ?thesis by blast
qed

text \<open>
  The operator's ID can be in the old-operator sequence without a validation: with two
  old operators and one proof, the operator at the second position makes Reshare panic
  on \<open>Proofs[position]\<close>, and its log has no validation call.
\<close>

theorem Reshare_validation_counterexample:
  "ID (example_operator 1) \<in>
     ID ` set (Reshare_OldOperators (ReshareMessage_Reshare
                (example_reshare owner_A [2, 1] [owner_A])))
   \<and> Operator_Reshare example_env (example_operator 1)
       \<lparr>SignedReshare_Messages = [example_reshare owner_A [2, 1] [owner_A]],
        SignedReshare_Signature = owner_A @ ''H''\<rparr> example_sk (ETHClient 0) =
       ([Call_GetBulkMessageHash [ReshareMsg (example_reshare owner_A [2, 1] [owner_A])],
         Call_VerifySignedMessageByOwner (ETHClient 0) owner_A ''H'' (owner_A @ ''H'')],
        Panic (IndexOutOfRange 1 1))
   \<and> filter is_reshare_validation (fst (Operator_Reshare example_env (example_operator 1)
       \<lparr>SignedReshare_Messages = [example_reshare owner_A [2, 1] [owner_A]],
        SignedReshare_Signature = owner_A @ ''H''\<rparr> example_sk (ETHClient 0))) = []"
proof -
  have m: "Reshare_message example_env (example_operator 1) example_sk
             (example_reshare owner_A [2, 1] [owner_A]) = ([], Panic (IndexOutOfRange 1 1))"
    by (simp add: Reshare_message_def example_reshare_old example_reshare_proofs
          example_operator_ID)
  have a: "ID (example_operator 1) \<in>
     ID ` set (Reshare_OldOperators (ReshareMessage_Reshare
                (example_reshare owner_A [2, 1] [owner_A])))"
    by (simp add: example_reshare_old example_operator_ID)
  have r: "Operator_Reshare example_env (example_operator 1)
       \<lparr>SignedReshare_Messages = [example_reshare owner_A [2, 1] [owner_A]],
        SignedReshare_Signature = owner_A @ ''H''\<rparr> example_sk (ETHClient 0) =
       ([Call_GetBulkMessageHash [ReshareMsg (example_reshare owner_A [2, 1] [owner_A])],
         Call_VerifySignedMessageByOwner (ETHClient 0) owner_A ''H'' (owner_A @ ''H'')],
        Panic (IndexOutOfRange 1 1))"
    by (simp add: Operator_Reshare_def emit_def example_GetBulkMessageHash
        example_VerifySignedMessageByOwner example_reshare_owner m)
  from a r show ?thesis by (simp add: is_reshare_validation_def)
qed

text \<open>
  Claim C10. \<open>Proofs[position]\<close> is evaluated without a check of the length: when the
  operator is found at a position that the proofs do not reach, processing the message
  panics with an index out of range, before any call, and so does the handler when it
  gets to that message. These are the only index panics. With distinct operator IDs and
  fewer proofs than operators, the operator at the first position without a proof
  panics.
\<close>

theorem Proofs_index_unchecked:
  fixes env op sk share client m m' sr sg pre post pre' post' h h'
  defines "old \<equiv> Reshare_OldOperators (ReshareMessage_Reshare m)"
    and "proofs \<equiv> ReshareMessage_Proofs m"
    and "position \<equiv> FindOperatorPosition (Reshare_OldOperators (ReshareMessage_Reshare m)) (ID op)"
    and "operators \<equiv> ResignMessage_Operators m'"
    and "proofs' \<equiv> ResignMessage_Proofs m'"
    and "position' \<equiv> FindOperatorPosition (ResignMessage_Operators m') (ID op)"
  shows
  "(ID op \<in> ID ` set old \<and> int (length proofs) \<le> position \<longrightarrow>
      Reshare_message env op sk m = ([], Panic (IndexOutOfRange position (length proofs))))
   \<and> ((\<exists>i n. snd (Reshare_message env op sk m) = Panic (IndexOutOfRange i n)) \<longleftrightarrow>
        ID op \<in> ID ` set old \<and> int (length proofs) \<le> position)
   \<and> (distinct (map ID old) \<and> length proofs < length old \<longrightarrow>
        Reshare_message env (old ! length proofs) sk m =
          ([], Panic (IndexOutOfRange (int (length proofs)) (length proofs))))
   \<and> (ID op \<in> ID ` set operators \<and> int (length proofs') \<le> position' \<longrightarrow>
      Resign_message env op share sk m' =
        ([], Panic (IndexOutOfRange position' (length proofs'))))
   \<and> ((\<exists>i n. snd (Resign_message env op share sk m') = Panic (IndexOutOfRange i n)) \<longleftrightarrow>
        ID op \<in> ID ` set operators \<and> int (length proofs') \<le> position')
   \<and> (distinct (map ID operators) \<and> length proofs' < length operators \<longrightarrow>
        Resign_message env (operators ! length proofs') share sk m' =
          ([], Panic (IndexOutOfRange (int (length proofs')) (length proofs'))))
   \<and> (SignedReshare_Messages sr = pre @ m # post \<and>
      GetBulkMessageHash env (map ReshareMsg (SignedReshare_Messages sr)) = Inr h \<and>
      VerifySignedMessageByOwner env client
        (Reshare_Owner (ReshareMessage_Reshare (SignedReshare_Messages sr ! 0))) h
        (SignedReshare_Signature sr) = None \<and>
      (\<forall>x\<in>set pre. \<exists>r. snd (Reshare_message env op sk x) = Return (Inr r)) \<and>
      ID op \<in> ID ` set old \<and> int (length proofs) \<le> position
      \<longrightarrow> snd (Operator_Reshare env op sr sk client) =
            Panic (IndexOutOfRange position (length proofs)))
   \<and> (SignedResign_Messages sg = pre' @ m' # post' \<and>
      GetBulkMessageHash env (map ResignMsg (SignedResign_Messages sg)) = Inr h' \<and>
      VerifySignedMessageByOwner env client
        (Resign_Owner (ResignMessage_Resign (SignedResign_Messages sg ! 0))) h'
        (SignedResign_Signature sg) = None \<and>
      (\<forall>x\<in>set pre'. \<exists>r. snd (Resign_message env op share sk x) = Return (Inr r)) \<and>
      ID op \<in> ID ` set operators \<and> int (length proofs') \<le> position'
      \<longrightarrow> snd (Operator_Resign env op sg share sk client) =
            Panic (IndexOutOfRange position' (length proofs')))"
proof -
  have r: "position = - 1 \<or> (0 \<le> position \<and> position < int (length old))"
    unfolding position_def old_def by (rule FindOperatorPosition_range)
  have nf: "position = - 1 \<longleftrightarrow> ID op \<notin> ID ` set old"
    unfolding position_def old_def by (rule FindOperatorPosition_not_found)
  have r': "position' = - 1 \<or> (0 \<le> position' \<and> position' < int (length operators))"
    unfolding position'_def operators_def by (rule FindOperatorPosition_range)
  have nf': "position' = - 1 \<longleftrightarrow> ID op \<notin> ID ` set operators"
    unfolding position'_def operators_def by (rule FindOperatorPosition_not_found)
  have 1: "ID op \<in> ID ` set old \<and> int (length proofs) \<le> position \<longrightarrow>
      Reshare_message env op sk m = ([], Panic (IndexOutOfRange position (length proofs)))"
    using r nf unfolding position_def old_def proofs_def
    by (auto simp: Reshare_message_def Let_def)
  have 2: "(\<exists>i n. snd (Reshare_message env op sk m) = Panic (IndexOutOfRange i n)) \<longleftrightarrow>
        ID op \<in> ID ` set old \<and> int (length proofs) \<le> position"
    using r nf unfolding position_def old_def proofs_def
    by (auto simp: Reshare_message_def Let_def emit_def
             split: res.splits option.splits sum.splits
             dest: ValidateReshareMessage_panic)
  have 3: "distinct (map ID old) \<and> length proofs < length old \<longrightarrow>
        Reshare_message env (old ! length proofs) sk m =
          ([], Panic (IndexOutOfRange (int (length proofs)) (length proofs)))"
    unfolding old_def proofs_def
    by (auto simp: Reshare_message_def Let_def FindOperatorPosition_distinct)
  have 4: "ID op \<in> ID ` set operators \<and> int (length proofs') \<le> position' \<longrightarrow>
      Resign_message env op share sk m' =
        ([], Panic (IndexOutOfRange position' (length proofs')))"
    using r' nf' unfolding position'_def operators_def proofs'_def
    by (auto simp: Resign_message_def Let_def)
  have 5: "(\<exists>i n. snd (Resign_message env op share sk m') = Panic (IndexOutOfRange i n)) \<longleftrightarrow>
        ID op \<in> ID ` set operators \<and> int (length proofs') \<le> position'"
    using r' nf' unfolding position'_def operators_def proofs'_def
    by (auto simp: Resign_message_def Let_def emit_def
             split: res.splits option.splits sum.splits
             dest: ValidateResignMessage_panic)
  have 6: "distinct (map ID operators) \<and> length proofs' < length operators \<longrightarrow>
        Resign_message env (operators ! length proofs') share sk m' =
          ([], Panic (IndexOutOfRange (int (length proofs')) (length proofs')))"
    unfolding operators_def proofs'_def
    by (auto simp: Resign_message_def Let_def FindOperatorPosition_distinct)
  have 7: "SignedReshare_Messages sr = pre @ m # post \<and>
      GetBulkMessageHash env (map ReshareMsg (SignedReshare_Messages sr)) = Inr h \<and>
      VerifySignedMessageByOwner env client
        (Reshare_Owner (ReshareMessage_Reshare (SignedReshare_Messages sr ! 0))) h
        (SignedReshare_Signature sr) = None \<and>
      (\<forall>x\<in>set pre. \<exists>r. snd (Reshare_message env op sk x) = Return (Inr r)) \<and>
      ID op \<in> ID ` set old \<and> int (length proofs) \<le> position
      \<longrightarrow> snd (Operator_Reshare env op sr sk client) =
            Panic (IndexOutOfRange position (length proofs))"
  proof
    assume a: "SignedReshare_Messages sr = pre @ m # post \<and>
      GetBulkMessageHash env (map ReshareMsg (SignedReshare_Messages sr)) = Inr h \<and>
      VerifySignedMessageByOwner env client
        (Reshare_Owner (ReshareMessage_Reshare (SignedReshare_Messages sr ! 0))) h
        (SignedReshare_Signature sr) = None \<and>
      (\<forall>x\<in>set pre. \<exists>r. snd (Reshare_message env op sk x) = Return (Inr r)) \<and>
      ID op \<in> ID ` set old \<and> int (length proofs) \<le> position"
    then have ne: "SignedReshare_Messages sr \<noteq> []" by simp
    from a have hh: "GetBulkMessageHash env (map ReshareMsg (SignedReshare_Messages sr)) = Inr h"
      and v: "VerifySignedMessageByOwner env client
        (Reshare_Owner (ReshareMessage_Reshare (SignedReshare_Messages sr ! 0))) h
        (SignedReshare_Signature sr) = None"
      and p: "\<forall>x\<in>set pre. \<exists>r. snd (Reshare_message env op sk x) = Return (Inr r)"
      and ms: "SignedReshare_Messages sr = pre @ m # post"
      by blast+
    from a 1 have "snd (Reshare_message env op sk m) =
        Panic (IndexOutOfRange position (length proofs))" by simp
    from snd_Reshare_loop_panic[OF p this, of post "[]"] ms
    show "snd (Operator_Reshare env op sr sk client) =
            Panic (IndexOutOfRange position (length proofs))"
      by (simp add: Operator_Reshare_authorized[OF ne hh v])
  qed
  have 8: "SignedResign_Messages sg = pre' @ m' # post' \<and>
      GetBulkMessageHash env (map ResignMsg (SignedResign_Messages sg)) = Inr h' \<and>
      VerifySignedMessageByOwner env client
        (Resign_Owner (ResignMessage_Resign (SignedResign_Messages sg ! 0))) h'
        (SignedResign_Signature sg) = None \<and>
      (\<forall>x\<in>set pre'. \<exists>r. snd (Resign_message env op share sk x) = Return (Inr r)) \<and>
      ID op \<in> ID ` set operators \<and> int (length proofs') \<le> position'
      \<longrightarrow> snd (Operator_Resign env op sg share sk client) =
            Panic (IndexOutOfRange position' (length proofs'))"
  proof
    assume a: "SignedResign_Messages sg = pre' @ m' # post' \<and>
      GetBulkMessageHash env (map ResignMsg (SignedResign_Messages sg)) = Inr h' \<and>
      VerifySignedMessageByOwner env client
        (Resign_Owner (ResignMessage_Resign (SignedResign_Messages sg ! 0))) h'
        (SignedResign_Signature sg) = None \<and>
      (\<forall>x\<in>set pre'. \<exists>r. snd (Resign_message env op share sk x) = Return (Inr r)) \<and>
      ID op \<in> ID ` set operators \<and> int (length proofs') \<le> position'"
    then have ne: "SignedResign_Messages sg \<noteq> []" by simp
    from a have hh: "GetBulkMessageHash env (map ResignMsg (SignedResign_Messages sg)) = Inr h'"
      and v: "VerifySignedMessageByOwner env client
        (Resign_Owner (ResignMessage_Resign (SignedResign_Messages sg ! 0))) h'
        (SignedResign_Signature sg) = None"
      and p: "\<forall>x\<in>set pre'. \<exists>r. snd (Resign_message env op share sk x) = Return (Inr r)"
      and ms: "SignedResign_Messages sg = pre' @ m' # post'"
      by blast+
    from a 4 have "snd (Resign_message env op share sk m') =
        Panic (IndexOutOfRange position' (length proofs'))" by simp
    from snd_Resign_loop_panic[OF p this, of post' "[]"] ms
    show "snd (Operator_Resign env op sg share sk client) =
            Panic (IndexOutOfRange position' (length proofs'))"
      by (simp add: Operator_Resign_authorized[OF ne hh v])
  qed
  from 1 2 3 4 5 6 7 8 show ?thesis by blast
qed

text \<open>Two operators and one proof, for the operator at the second position.\<close>

theorem Proofs_index_unchecked_witness:
  "ID (example_operator 1) \<in>
     ID ` set (Reshare_OldOperators (ReshareMessage_Reshare
                (example_reshare owner_A [2, 1] [owner_A])))
   \<and> Reshare_message example_env (example_operator 1) example_sk
       (example_reshare owner_A [2, 1] [owner_A]) = ([], Panic (IndexOutOfRange 1 1))
   \<and> snd (Operator_Reshare example_env (example_operator 1)
       \<lparr>SignedReshare_Messages = [example_reshare owner_A [2, 1] [owner_A]],
        SignedReshare_Signature = owner_A @ ''H''\<rparr> example_sk (ETHClient 0)) =
       Panic (IndexOutOfRange 1 1)
   \<and> ID (example_operator 1) \<in>
     ID ` set (ResignMessage_Operators (example_resign owner_A [2, 1] [owner_A]))
   \<and> Resign_message example_env (example_operator 1) (Some (bls_SecretKey 7)) example_sk
       (example_resign owner_A [2, 1] [owner_A]) = ([], Panic (IndexOutOfRange 1 1))
   \<and> snd (Operator_Resign example_env (example_operator 1)
       \<lparr>SignedResign_Messages = [example_resign owner_A [2, 1] [owner_A]],
        SignedResign_Signature = owner_A @ ''H''\<rparr> (Some (bls_SecretKey 7)) example_sk
        (ETHClient 0)) =
       Panic (IndexOutOfRange 1 1)"
proof -
  let ?m = "example_reshare owner_A [2, 1] [owner_A]"
  let ?n = "example_resign owner_A [2, 1] [owner_A]"
  let ?op = "example_operator 1"
  let ?share = "Some (bls_SecretKey 7)"
  let ?sr = "\<lparr>SignedReshare_Messages = [?m], SignedReshare_Signature = owner_A @ ''H''\<rparr>"
  let ?sg = "\<lparr>SignedResign_Messages = [?n], SignedResign_Signature = owner_A @ ''H''\<rparr>"
  have a: "ID ?op \<in> ID ` set (Reshare_OldOperators (ReshareMessage_Reshare ?m))"
    by (simp add: example_reshare_old example_operator_ID)
  have pos: "FindOperatorPosition (Reshare_OldOperators (ReshareMessage_Reshare ?m)) (ID ?op) = 1"
    by (simp add: example_reshare_old example_operator_ID)
  have len: "length (ReshareMessage_Proofs ?m) = 1"
    by (simp add: example_reshare_proofs)
  have a': "ID ?op \<in> ID ` set (ResignMessage_Operators ?n)"
    by (simp add: example_resign_operators example_operator_ID)
  have pos': "FindOperatorPosition (ResignMessage_Operators ?n) (ID ?op) = 1"
    by (simp add: example_resign_operators example_operator_ID)
  have len': "length (ResignMessage_Proofs ?n) = 1"
    by (simp add: example_resign_proofs)
  have ms: "SignedReshare_Messages ?sr = [] @ ?m # []"
    and ms': "SignedResign_Messages ?sg = [] @ ?n # []"
    by simp_all
  have h: "GetBulkMessageHash example_env (map ReshareMsg (SignedReshare_Messages ?sr)) =
             Inr ''H''"
    and h': "GetBulkMessageHash example_env (map ResignMsg (SignedResign_Messages ?sg)) =
             Inr ''H''"
    by (simp_all add: example_GetBulkMessageHash)
  have v: "VerifySignedMessageByOwner example_env (ETHClient 0)
      (Reshare_Owner (ReshareMessage_Reshare (SignedReshare_Messages ?sr ! 0))) ''H''
      (SignedReshare_Signature ?sr) = None"
    and v': "VerifySignedMessageByOwner example_env (ETHClient 0)
      (Resign_Owner (ResignMessage_Resign (SignedResign_Messages ?sg ! 0))) ''H''
      (SignedResign_Signature ?sg) = None"
    by (simp_all add: example_VerifySignedMessageByOwner example_reshare_owner
          example_resign_owner)
  have p: "\<forall>x\<in>set []. \<exists>r. snd (Reshare_message example_env ?op example_sk x) = Return (Inr r)"
    and p': "\<forall>x\<in>set []. \<exists>r. snd (Resign_message example_env ?op ?share example_sk x) =
               Return (Inr r)"
    by simp_all
  note th = Proofs_index_unchecked[where env=example_env and op="?op" and sk=example_sk
      and share="?share" and client="ETHClient 0" and m="?m" and m'="?n" and sr="?sr"
      and sg="?sg" and pre="[]" and post="[]" and pre'="[]" and post'="[]"
      and h="''H''" and h'="''H''", unfolded pos pos' len len']
  from th a have 1: "Reshare_message example_env ?op example_sk ?m =
      ([], Panic (IndexOutOfRange 1 1))"
    by simp
  from th a ms h v p have 2: "snd (Operator_Reshare example_env ?op ?sr example_sk
      (ETHClient 0)) = Panic (IndexOutOfRange 1 1)"
    by simp
  from th a' have 3: "Resign_message example_env ?op ?share example_sk ?n =
      ([], Panic (IndexOutOfRange 1 1))"
    by simp
  from th a' ms' h' v' p' have 4: "snd (Operator_Resign example_env ?op ?sg ?share example_sk
      (ETHClient 0)) = Panic (IndexOutOfRange 1 1)"
    by simp
  from a 1 2 a' 3 4 show ?thesis by blast
qed

end
